theory Spec2Isabelle
  imports Main "HOL-Library.Word" "HOL-Library.Monad_Syntax"
begin

unbundle bit_operations_syntax

section \<open>Platform types\<close>

text \<open>
  The module verified here is \<^verbatim>\<open>src/xdp/bind.c\<close>, the binding layer between XDP
  interface providers and the XDP components bound to them.

  \<^verbatim>\<open>UINT32\<close>, \<^verbatim>\<open>ULONG\<close> and \<^verbatim>\<open>LONG\<close> are 32-bit words. An \<^verbatim>\<open>NTSTATUS\<close> is a signed
  32-bit value and \<^verbatim>\<open>NT_SUCCESS\<close> tests that it is not negative. A pointer is an address
  (\<open>nat\<close>) and \<^verbatim>\<open>NULL\<close> is \<open>None\<close>. \<^verbatim>\<open>ASSERT\<close> is compiled out of a free build and has
  no counterpart below. A routine that can stop the machine (a failed \<^verbatim>\<open>FRE_ASSERT\<close>, a
  \<^verbatim>\<open>NULL\<close> function table, an address that holds no live object) returns an \<open>option\<close>:
  \<open>None\<close> is the bugcheck, \<open>Some\<close> a normal return.
\<close>

type_synonym UINT32 = "32 word"
type_synonym NTSTATUS = "32 word"
type_synonym ptr = nat

definition NT_SUCCESS :: "NTSTATUS \<Rightarrow> bool" where
  "NT_SUCCESS Status = (0 \<le> sint Status)"

definition STATUS_SUCCESS :: NTSTATUS where
  "STATUS_SUCCESS = 0"

definition STATUS_NO_MEMORY :: NTSTATUS where
  "STATUS_NO_MEMORY = 0xC0000017"

definition STATUS_DELETE_PENDING :: NTSTATUS where
  "STATUS_DELETE_PENDING = 0xC0000056"

definition STATUS_INTEGER_OVERFLOW :: NTSTATUS where
  "STATUS_INTEGER_OVERFLOW = 0xC0000095"

definition STATUS_NOT_SUPPORTED :: NTSTATUS where
  "STATUS_NOT_SUPPORTED = 0xC00000BB"

definition STATUS_DUPLICATE_OBJECTID :: NTSTATUS where
  "STATUS_DUPLICATE_OBJECTID = 0xC000022A"

text \<open>
  \<^verbatim>\<open>RtlUInt32Mult\<close> and \<^verbatim>\<open>RtlUInt32Add\<close> of \<^verbatim>\<open>ntintsafe.h\<close>: the status and the value
  stored through the result pointer (\<^verbatim>\<open>ULONG_ERROR\<close>, all ones, on overflow).
\<close>

definition RtlUInt32Mult :: "UINT32 \<Rightarrow> UINT32 \<Rightarrow> NTSTATUS \<times> UINT32" where
  "RtlUInt32Mult a b =
     (if unat a * unat b < 2 ^ 32 then (STATUS_SUCCESS, a * b)
      else (STATUS_INTEGER_OVERFLOW, - 1))"

definition RtlUInt32Add :: "UINT32 \<Rightarrow> UINT32 \<Rightarrow> NTSTATUS \<times> UINT32" where
  "RtlUInt32Add a b =
     (if unat a + unat b < 2 ^ 32 then (STATUS_SUCCESS, a + b)
      else (STATUS_INTEGER_OVERFLOW, - 1))"

text \<open>\<^verbatim>\<open>RtlEqualMemory(a, b, n)\<close> on two buffers read by byte index.\<close>

definition RtlEqualMemory :: "(nat \<Rightarrow> 8 word) \<Rightarrow> (nat \<Rightarrow> 8 word) \<Rightarrow> nat \<Rightarrow> bool" where
  "RtlEqualMemory a b n = list_all (\<lambda>i. a i = b i) [0..<n]"

section \<open>Data model\<close>

record XDP_VERSION =
  Major :: UINT32
  Minor :: UINT32
  Patch :: UINT32

text \<open>
  The constants of the build that \<^verbatim>\<open>bind.c\<close> takes from headers outside the sources
  read here. They are parameters of the model: every theorem holds for each value of them.
  \<open>XdpDriverApiCurrentVersion\<close> is the static of that name, made of
  \<^verbatim>\<open>XDP_DRIVER_API_MAJOR_VER\<close>, \<^verbatim>\<open>_MINOR_VER\<close> and \<^verbatim>\<open>_PATCH_VER\<close>.
\<close>

record build_constants =
  XDP_CAPABILITIES_EX_REVISION_1 :: UINT32
  XDP_SIZEOF_CAPABILITIES_EX_REVISION_1 :: UINT32
  sizeof_XDP_VERSION :: UINT32
  XdpDriverApiCurrentVersion :: XDP_VERSION
  XDP_BINDING_CLIENT_ID_INVALID :: UINT32

record XDP_OBJECT_HEADER =
  Revision :: UINT32
  Size :: UINT32

text \<open>
  \<^verbatim>\<open>XDP_CAPABILITIES_EX\<close>, with the fields \<^verbatim>\<open>bind.c\<close> reads. \<open>DriverApiVersions\<close> is not a
  field: it is the memory at \<^verbatim>\<open>RTL_PTR_ADD(CapabilitiesEx, DriverApiVersionsOffset)\<close> read
  as an array of \<^verbatim>\<open>XDP_VERSION\<close>, whatever the count field says.
\<close>

record XDP_CAPABILITIES_EX =
  Header :: XDP_OBJECT_HEADER
  DriverApiVersionsOffset :: UINT32
  DriverApiVersionCount :: UINT32
  InstanceId :: nat
  DriverApiVersions :: "nat \<Rightarrow> XDP_VERSION"

record XDP_HOOK_ID =
  Layer :: UINT32
  Direction :: UINT32
  SubLayer :: UINT32

datatype XDP_INTERFACE_MODE = XDP_INTERFACE_MODE_GENERIC | XDP_INTERFACE_MODE_NATIVE

text \<open>
  \<^verbatim>\<open>XDP_CAPABILITIES_INTERNAL\<close>: \<open>Hooks\<close> is the array behind the pointer of that name,
  \<open>CapabilitiesEx\<close> the blob behind its pointer and \<open>CapabilitiesSize\<close> the size the
  provider gives for the blob.
\<close>

record XDP_CAPABILITIES_INTERNAL =
  Mode :: XDP_INTERFACE_MODE
  Hooks :: "nat \<Rightarrow> XDP_HOOK_ID"
  HookCount :: UINT32
  CapabilitiesEx :: XDP_CAPABILITIES_EX
  CapabilitiesSize :: UINT32

text \<open>
  A provider's \<^verbatim>\<open>XDP_INTERFACE_DISPATCH\<close> table. A routine of the provider is given by
  what it answers: \<open>OpenInterface\<close> is \<open>None\<close> for a \<^verbatim>\<open>NULL\<close> entry and otherwise the status
  the routine returns, \<open>CloseInterface\<close> says whether the entry is there, and the two
  queue routines map the interface context and the queue configuration to a status, a
  queue handle and a queue dispatch table.
\<close>

record XDP_INTERFACE_DISPATCH =
  OpenInterface :: "NTSTATUS option"
  CloseInterface :: bool
  CreateRxQueue :: "ptr option \<Rightarrow> nat \<Rightarrow> NTSTATUS \<times> ptr option \<times> ptr option"
  CreateTxQueue :: "ptr option \<Rightarrow> nat \<Rightarrow> NTSTATUS \<times> ptr option \<times> ptr option"

record XDP_BINDING_CLIENT =
  ClientId :: UINT32
  KeySize :: UINT32

text \<open>
  An \<^verbatim>\<open>XDP_BINDING_CLIENT_ENTRY\<close>. The entry is owned by its component; \<open>Link\<close> is the
  address of its \<^verbatim>\<open>LIST_ENTRY\<close>, which identifies it. The \<^verbatim>\<open>Clients\<close> list of a binding is
  the sequence of entries linked on it, head first; an entry that is on no list is the
  one whose \<^verbatim>\<open>Link\<close> points to itself (\<^verbatim>\<open>IsListEmpty(&ClientEntry->Link)\<close>).
\<close>

record XDP_BINDING_CLIENT_ENTRY =
  Link :: ptr
  Client :: XDP_BINDING_CLIENT
  Key :: "nat \<Rightarrow> 8 word"

text \<open>
  \<^verbatim>\<open>XDP_INTERFACE\<close>, the binding. The union of the two bit fields \<^verbatim>\<open>BindingDeleting\<close> and
  \<^verbatim>\<open>NmrDeleting\<close> with the byte \<^verbatim>\<open>Rundown\<close> is kept as the two flags; the byte is read
  with \<open>Rundown\<close> below.
\<close>

record XDP_INTERFACE =
  IfIndex :: UINT32
  IfSet :: "ptr option"
  XdpIfInterfaceContext :: "ptr option"
  Capabilities :: XDP_CAPABILITIES_INTERNAL
  RemoveInterfaceComplete :: "ptr option"
  Nmr :: "ptr option"
  DriverApiVersion :: XDP_VERSION
  InterfaceDispatch :: "XDP_INTERFACE_DISPATCH option"
  InterfaceContext :: "ptr option"
  ReferenceCount :: "32 word"
  Clients :: "XDP_BINDING_CLIENT_ENTRY list"
  ProviderReference :: UINT32
  BindingDeleting :: bool
  NmrDeleting :: bool
  WorkQueue :: "ptr option"

text \<open>
  The byte \<^verbatim>\<open>Rundown\<close> shares its storage with the two bit fields. The binding is
  allocated zeroed and nothing in the module writes the byte itself, so it is not zero
  exactly when one of the flags is set.
\<close>

definition Rundown :: "XDP_INTERFACE \<Rightarrow> bool" where
  "Rundown Interface = (BindingDeleting Interface \<or> NmrDeleting Interface)"

text \<open>\<^verbatim>\<open>XDP_INTERFACE_NMR\<close>; \<open>NmrReferenceCount\<close> is its \<^verbatim>\<open>ReferenceCount\<close>.\<close>

record XDP_INTERFACE_NMR =
  NmrHandle :: "ptr option"
  DetachNotification :: bool
  NmrReferenceCount :: UINT32

text \<open>\<^verbatim>\<open>XDP_INTERFACE_SET\<close>; \<open>SetIfIndex\<close> is its \<^verbatim>\<open>IfIndex\<close>.\<close>

record XDP_INTERFACE_SET =
  SetIfIndex :: UINT32
  XdpIfInterfaceSetContext :: "ptr option"
  Interfaces :: "XDP_INTERFACE_MODE \<Rightarrow> ptr option"

text \<open>
  The work items queued by this module, and the calls it makes out of itself, which a
  state keeps in the order they are made.
\<close>

datatype work_item = NmrWorkItem ptr | DeleteWorkItem

datatype call =
    XdpShutdownWorkQueue ptr
  | ExFreePoolWithTag_IF
  | ExFreePoolWithTag_NMR ptr
  | XdpInsertWorkQueue "ptr option" work_item
  | XdpCloseProvider "ptr option"
  | XdpCleanupProvider "ptr option"
  | CloseInterface_call "ptr option"
  | RemoveInterfaceComplete_call "ptr option"
  | BindingDetached ptr

text \<open>
  The state one binding's routines work on: the \<^verbatim>\<open>XDP_INTERFACE\<close> itself, the NMR contexts
  allocated for it (by address; a freed one is gone from the pool) and the calls made so
  far.
\<close>

record binding_state =
  Interface :: XDP_INTERFACE
  NmrPool :: "ptr \<rightharpoonup> XDP_INTERFACE_NMR"
  Calls :: "call list"

text \<open>
  What the environment answers while a provider is opened: the allocation of the NMR
  context (\<open>None\<close> when the pool is exhausted), \<^verbatim>\<open>XdpOpenProvider\<close> (its status and the
  handle it leaves in \<^verbatim>\<open>Nmr->NmrHandle\<close>) and the provider's
  \<^verbatim>\<open>XDP_GET_INTERFACE_DISPATCH\<close> routine (status, interface context, dispatch table).
\<close>

record provider =
  ExAllocatePoolZero_NMR :: "ptr option"
  XdpOpenProvider :: "NTSTATUS \<times> ptr option"
  GetInterfaceDispatch ::
    "XDP_VERSION \<Rightarrow> NTSTATUS \<times> ptr option \<times> XDP_INTERFACE_DISPATCH option"

section \<open>Capability validation\<close>

text \<open>\<^verbatim>\<open>XdpValidateCapabilitiesEx(CapabilitiesEx, TotalSize)\<close>.\<close>

definition XdpValidateCapabilitiesEx ::
  "build_constants \<Rightarrow> XDP_CAPABILITIES_EX \<Rightarrow> UINT32 \<Rightarrow> bool" where
  "XdpValidateCapabilitiesEx K CapsEx TotalSize =
     (if Revision (Header CapsEx) < XDP_CAPABILITIES_EX_REVISION_1 K \<or>
         Size (Header CapsEx) < XDP_SIZEOF_CAPABILITIES_EX_REVISION_1 K then False
      else
        (case RtlUInt32Mult (DriverApiVersionCount CapsEx) (sizeof_XDP_VERSION K) of
           (Status, Sz) \<Rightarrow>
             if \<not> NT_SUCCESS Status then False
             else
               (case RtlUInt32Add (DriverApiVersionsOffset CapsEx) Sz of
                  (Status, Sz) \<Rightarrow>
                    if \<not> NT_SUCCESS Status then False else TotalSize \<ge> Sz)))"

section \<open>Version negotiation\<close>

text \<open>\<^verbatim>\<open>XdpVersionIsSupported(Version, MinimumSupportedVersion)\<close>.\<close>

definition XdpVersionIsSupported :: "XDP_VERSION \<Rightarrow> XDP_VERSION \<Rightarrow> bool" where
  "XdpVersionIsSupported Version MinimumSupportedVersion =
     (Major Version = Major MinimumSupportedVersion \<and>
      Minor Version \<ge> Minor MinimumSupportedVersion \<and>
      Patch Version \<ge> Patch MinimumSupportedVersion)"

text \<open>
  The locals of \<^verbatim>\<open>XdpRequestClientDispatch\<close> that its loop changes: \<^verbatim>\<open>Status\<close>, the two out
  parameters \<^verbatim>\<open>*InterfaceContext\<close> and \<^verbatim>\<open>*InterfaceDispatch\<close>, and
  \<^verbatim>\<open>Interface->DriverApiVersion\<close>.
\<close>

record dispatch_locals =
  l_Status :: NTSTATUS
  l_InterfaceContext :: "ptr option"
  l_InterfaceDispatch :: "XDP_INTERFACE_DISPATCH option"
  l_DriverApiVersion :: XDP_VERSION

text \<open>
  The \<^verbatim>\<open>for\<close> loop of \<^verbatim>\<open>XdpRequestClientDispatch\<close> from index \<open>i\<close> on. \<open>Current\<close> is
  \<^verbatim>\<open>XdpDriverApiCurrentVersion\<close>, \<open>Versions\<close> the array at \<^verbatim>\<open>DriverApiVersionsOffset\<close> and
  \<open>Count\<close> is \<^verbatim>\<open>DriverApiVersionCount\<close>. The first alternative of the inner \<^verbatim>\<open>if\<close> is the
  \<^verbatim>\<open>break\<close>.
\<close>

function XdpRequestClientDispatch_loop ::
  "XDP_VERSION \<Rightarrow> (nat \<Rightarrow> XDP_VERSION) \<Rightarrow> UINT32 \<Rightarrow>
   (XDP_VERSION \<Rightarrow> NTSTATUS \<times> ptr option \<times> XDP_INTERFACE_DISPATCH option) \<Rightarrow> UINT32 \<Rightarrow>
   dispatch_locals \<Rightarrow> dispatch_locals" where
  "XdpRequestClientDispatch_loop Current Versions Count GetDispatch i r =
     (if i < Count then
        (let ClientVersion = Versions (unat i) in
         if XdpVersionIsSupported Current ClientVersion then
           (case GetDispatch ClientVersion of
              (Status, Ctx, Dsp) \<Rightarrow>
                if NT_SUCCESS Status then
                  r\<lparr>l_Status := Status, l_InterfaceContext := Ctx,
                    l_InterfaceDispatch := Dsp, l_DriverApiVersion := ClientVersion\<rparr>
                else
                  XdpRequestClientDispatch_loop Current Versions Count GetDispatch (i + 1)
                    (r\<lparr>l_Status := STATUS_NOT_SUPPORTED, l_InterfaceContext := Ctx,
                       l_InterfaceDispatch := Dsp\<rparr>))
         else XdpRequestClientDispatch_loop Current Versions Count GetDispatch (i + 1) r)
      else r)"
  by pat_completeness auto

lemma unat_succ_below: "(i :: UINT32) < n \<Longrightarrow> unat (i + 1) = Suc (unat i)"
  by unat_arith

termination XdpRequestClientDispatch_loop
  by (relation "measure (\<lambda>(c, a, n, g, i, r). unat n - unat i)")
     (auto simp: unat_succ_below word_less_nat_alt)

declare XdpRequestClientDispatch_loop.simps [simp del]

text \<open>
  \<^verbatim>\<open>XdpRequestClientDispatch\<close>: \<^verbatim>\<open>Status\<close> starts as \<^verbatim>\<open>STATUS_NOT_SUPPORTED\<close>; the other
  locals come in as the caller left them.
\<close>

definition XdpRequestClientDispatch ::
  "XDP_VERSION \<Rightarrow> XDP_CAPABILITIES_EX \<Rightarrow>
   (XDP_VERSION \<Rightarrow> NTSTATUS \<times> ptr option \<times> XDP_INTERFACE_DISPATCH option) \<Rightarrow>
   dispatch_locals \<Rightarrow> dispatch_locals" where
  "XdpRequestClientDispatch Current ClientCapabilitiesEx GetDispatch r =
     XdpRequestClientDispatch_loop Current (DriverApiVersions ClientCapabilitiesEx)
       (DriverApiVersionCount ClientCapabilitiesEx) GetDispatch 0
       (r\<lparr>l_Status := STATUS_NOT_SUPPORTED\<rparr>)"

section \<open>Reference counting\<close>

text \<open>
  \<^verbatim>\<open>XdpIfpReferenceInterface\<close> and \<^verbatim>\<open>XdpIfpDereferenceInterface\<close> on the binding they are given.
  The second returns the binding after \<^verbatim>\<open>InterlockedDecrement\<close> and the calls made when the
  count reached zero: the work queue is shut down if there is one, and the binding is
  freed.
\<close>

definition XdpIfpReferenceInterface :: "XDP_INTERFACE \<Rightarrow> XDP_INTERFACE" where
  "XdpIfpReferenceInterface Ifc = Ifc\<lparr>ReferenceCount := ReferenceCount Ifc + 1\<rparr>"

definition XdpIfpDereferenceInterface :: "XDP_INTERFACE \<Rightarrow> XDP_INTERFACE \<times> call list" where
  "XdpIfpDereferenceInterface Ifc =
     (let Ifc' = Ifc\<lparr>ReferenceCount := ReferenceCount Ifc - 1\<rparr> in
      if ReferenceCount Ifc' = 0 then
        (Ifc', (case WorkQueue Ifc' of Some q \<Rightarrow> [XdpShutdownWorkQueue q] | None \<Rightarrow> []) @
              [ExFreePoolWithTag_IF])
      else (Ifc', []))"

text \<open>
  The same two routines, and a field update and a call, on the state of one binding. After
  \<open>ExFreePoolWithTag_IF\<close> the state keeps the last contents of the binding.
\<close>

definition modify :: "(XDP_INTERFACE \<Rightarrow> XDP_INTERFACE) \<Rightarrow> binding_state \<Rightarrow> binding_state" where
  "modify f s = s\<lparr>Interface := f (Interface s)\<rparr>"

definition record_call :: "call \<Rightarrow> binding_state \<Rightarrow> binding_state" where
  "record_call c s = s\<lparr>Calls := Calls s @ [c]\<rparr>"

definition ref_binding :: "binding_state \<Rightarrow> binding_state" where
  "ref_binding s = modify XdpIfpReferenceInterface s"

definition deref_binding :: "binding_state \<Rightarrow> binding_state" where
  "deref_binding s =
     (case XdpIfpDereferenceInterface (Interface s) of
        (Ifc', cs) \<Rightarrow> s\<lparr>Interface := Ifc', Calls := Calls s @ cs\<rparr>)"

text \<open>\<^verbatim>\<open>XdpIfpDereferenceNmr(Nmr)\<close>, for the NMR context at address \<open>p\<close>.\<close>

definition XdpIfpDereferenceNmr :: "ptr \<Rightarrow> binding_state \<Rightarrow> binding_state option" where
  "XdpIfpDereferenceNmr p s =
     do {
       N \<leftarrow> NmrPool s p;
       let c = NmrReferenceCount N - 1;
       Some (if c = 0 then
               record_call (ExFreePoolWithTag_NMR p) (s\<lparr>NmrPool := (NmrPool s)(p := None)\<rparr>)
             else s\<lparr>NmrPool := (NmrPool s)(p \<mapsto> N\<lparr>NmrReferenceCount := c\<rparr>)\<rparr>)
     }"

section \<open>The provider attachment\<close>

text \<open>\<^verbatim>\<open>XdpIfQueueWorkItem(WorkItem)\<close>, for a work item of this binding.\<close>

definition XdpIfQueueWorkItem :: "work_item \<Rightarrow> binding_state \<Rightarrow> binding_state" where
  "XdpIfQueueWorkItem WorkItem s =
     (let s1 = ref_binding s in
      record_call (XdpInsertWorkQueue (WorkQueue (Interface s1)) WorkItem) s1)"

text \<open>
  \<^verbatim>\<open>XdpIfpDetachNmrInterface(ProviderContext)\<close>, the detach notification the provider side
  calls with the NMR context at \<open>p\<close>.
\<close>

definition XdpIfpDetachNmrInterface :: "ptr \<Rightarrow> binding_state \<Rightarrow> binding_state option" where
  "XdpIfpDetachNmrInterface p s =
     do {
       N \<leftarrow> NmrPool s p;
       let s1 = s\<lparr>NmrPool := (NmrPool s)(p \<mapsto> N\<lparr>DetachNotification := True\<rparr>)\<rparr>;
       let s2 = XdpIfQueueWorkItem (NmrWorkItem p) s1;
       Some (deref_binding s2)
     }"

text \<open>
  \<^verbatim>\<open>XdpIfpCloseNmrInterface(Interface)\<close>.

  Modelled from the spec: \<^verbatim>\<open>XdpCloseProvider\<close> and the wait on \<^verbatim>\<open>DetachNotification\<close>. The NMR
  module is not among the sources; the specification says of it that closing the
  attachment from the consumer side blocks until the corresponding detach notification has
  been observed. So when the event is not yet set, the detach notification of this context
  runs before \<^verbatim>\<open>KeWaitForSingleObject\<close> returns.
\<close>

definition XdpIfpCloseNmrInterface :: "binding_state \<Rightarrow> binding_state option" where
  "XdpIfpCloseNmrInterface s =
     do {
       p \<leftarrow> Nmr (Interface s);
       N \<leftarrow> NmrPool s p;
       let s1 = record_call (XdpCloseProvider (NmrHandle N)) s;
       s2 \<leftarrow> (if DetachNotification N then Some s1 else XdpIfpDetachNmrInterface p s1);
       N2 \<leftarrow> NmrPool s2 p;
       let s3 = record_call (XdpCleanupProvider (NmrHandle N2)) s2;
       let s4 = s3\<lparr>NmrPool := (NmrPool s3)(p \<mapsto> N2\<lparr>NmrHandle := None\<rparr>)\<rparr>;
       let s5 = modify (\<lambda>Ifc. Ifc\<lparr>Nmr := None\<rparr>) s4;
       XdpIfpDereferenceNmr p s5
     }"

text \<open>\<^verbatim>\<open>XdpIfpInvokeCloseInterface(Interface)\<close>.\<close>

definition XdpIfpInvokeCloseInterface :: "binding_state \<Rightarrow> binding_state option" where
  "XdpIfpInvokeCloseInterface s =
     do {
       D \<leftarrow> InterfaceDispatch (Interface s);
       Some (if CloseInterface D then
               record_call (CloseInterface_call (InterfaceContext (Interface s))) s
             else s)
     }"

text \<open>\<^verbatim>\<open>XdpIfpCloseInterface(Interface)\<close>.\<close>

definition XdpIfpCloseInterface :: "binding_state \<Rightarrow> binding_state option" where
  "XdpIfpCloseInterface s =
     do {
       s1 \<leftarrow> (if InterfaceContext (Interface s) \<noteq> None then
                do {
                  t \<leftarrow> XdpIfpInvokeCloseInterface s;
                  Some (modify (\<lambda>Ifc. Ifc\<lparr>InterfaceDispatch := None, InterfaceContext := None\<rparr>) t)
                }
              else Some s);
       s2 \<leftarrow> (if Nmr (Interface s1) \<noteq> None then
                do {
                  t \<leftarrow> XdpIfpCloseNmrInterface s1;
                  Some (modify (\<lambda>Ifc. Ifc\<lparr>NmrDeleting := False\<rparr>) t)
                }
              else Some s1);
       Some (if BindingDeleting (Interface s2) \<and> XdpIfInterfaceContext (Interface s2) \<noteq> None then
               modify (\<lambda>Ifc. Ifc\<lparr>XdpIfInterfaceContext := None\<rparr>)
                 (record_call
                    (RemoveInterfaceComplete_call (XdpIfInterfaceContext (Interface s2))) s2)
             else s2)
     }"

text \<open>
  \<^verbatim>\<open>XdpIfpInvokeOpenInterface(Interface, InterfaceContext, InterfaceDispatch)\<close>: the status.
\<close>

definition XdpIfpInvokeOpenInterface ::
  "ptr option \<Rightarrow> XDP_INTERFACE_DISPATCH option \<Rightarrow> NTSTATUS option" where
  "XdpIfpInvokeOpenInterface Ctx Dsp =
     do {
       D \<leftarrow> Dsp;
       Some (case OpenInterface D of None \<Rightarrow> STATUS_SUCCESS | Some Status \<Rightarrow> Status)
     }"

text \<open>The code of \<^verbatim>\<open>XdpIfpOpenInterface\<close> from its label \<^verbatim>\<open>Exit\<close> on.\<close>

definition XdpIfpOpenInterface_Exit ::
  "NTSTATUS \<Rightarrow> binding_state \<Rightarrow> (NTSTATUS \<times> binding_state) option" where
  "XdpIfpOpenInterface_Exit Status s =
     (if \<not> NT_SUCCESS Status then
        (case Nmr (Interface s) of
           None \<Rightarrow> Some (Status, s)
         | Some p \<Rightarrow>
             do {
               N \<leftarrow> NmrPool s p;
               s1 \<leftarrow> (if NmrHandle N \<noteq> None then XdpIfpCloseInterface s
                      else
                        (let t = deref_binding s in
                         Some (record_call (ExFreePoolWithTag_NMR p)
                                 (t\<lparr>NmrPool := (NmrPool t)(p := None)\<rparr>))));
               Some (Status, modify (\<lambda>Ifc. Ifc\<lparr>Nmr := None\<rparr>) s1)
             })
      else Some (Status, s))"

text \<open>
  \<^verbatim>\<open>XdpIfpOpenInterface(Interface)\<close>. The locals \<^verbatim>\<open>InterfaceContext\<close> and
  \<^verbatim>\<open>InterfaceDispatch\<close> are not initialised in the source and are read only after a
  successful negotiation has written them; they start as \<open>None\<close> here.
\<close>

definition XdpIfpOpenInterface ::
  "build_constants \<Rightarrow> provider \<Rightarrow> binding_state \<Rightarrow> (NTSTATUS \<times> binding_state) option" where
  "XdpIfpOpenInterface K env s =
     (let CapsEx = CapabilitiesEx (Capabilities (Interface s)) in
      if Revision (Header CapsEx) < XDP_CAPABILITIES_EX_REVISION_1 K \<or>
         Size (Header CapsEx) < XDP_SIZEOF_CAPABILITIES_EX_REVISION_1 K then
        XdpIfpOpenInterface_Exit STATUS_NOT_SUPPORTED s
      else
        (case ExAllocatePoolZero_NMR env of
           None \<Rightarrow>
             XdpIfpOpenInterface_Exit STATUS_NO_MEMORY (modify (\<lambda>Ifc. Ifc\<lparr>Nmr := None\<rparr>) s)
         | Some p \<Rightarrow>
             (let s1 = ref_binding (modify (\<lambda>Ifc. Ifc\<lparr>Nmr := Some p\<rparr>) s);
                  s2 = s1\<lparr>NmrPool := (NmrPool s1)(p \<mapsto>
                         \<lparr>NmrHandle = snd (XdpOpenProvider env), DetachNotification = False,
                          NmrReferenceCount = 2\<rparr>)\<rparr>
              in
              if \<not> NT_SUCCESS (fst (XdpOpenProvider env)) then
                XdpIfpOpenInterface_Exit (fst (XdpOpenProvider env)) s2
              else
                (let r = XdpRequestClientDispatch (XdpDriverApiCurrentVersion K) CapsEx
                           (GetInterfaceDispatch env)
                           \<lparr>l_Status = STATUS_NOT_SUPPORTED, l_InterfaceContext = None,
                            l_InterfaceDispatch = None,
                            l_DriverApiVersion = DriverApiVersion (Interface s2)\<rparr>;
                     s3 = modify (\<lambda>Ifc. Ifc\<lparr>DriverApiVersion := l_DriverApiVersion r\<rparr>) s2
                 in
                 if \<not> NT_SUCCESS (l_Status r) then XdpIfpOpenInterface_Exit (l_Status r) s3
                 else
                   (let s4 = modify (\<lambda>Ifc. Ifc\<lparr>InterfaceContext := l_InterfaceContext r,
                                              InterfaceDispatch := l_InterfaceDispatch r\<rparr>) s3
                    in
                    do {
                      Status \<leftarrow> XdpIfpInvokeOpenInterface (l_InterfaceContext r)
                                  (l_InterfaceDispatch r);
                      XdpIfpOpenInterface_Exit
                        (if \<not> NT_SUCCESS Status then Status else STATUS_SUCCESS) s4
                    })))))"

section \<open>Provider references and queue creation\<close>

text \<open>\<^verbatim>\<open>XdpIfpReferenceProvider(Interface)\<close>.\<close>

definition XdpIfpReferenceProvider ::
  "build_constants \<Rightarrow> provider \<Rightarrow> binding_state \<Rightarrow> (NTSTATUS \<times> binding_state) option" where
  "XdpIfpReferenceProvider K env s =
     (if Rundown (Interface s) then Some (STATUS_DELETE_PENDING, s)
      else
        do {
          (Status, s1) \<leftarrow> (if InterfaceContext (Interface s) = None then
                             XdpIfpOpenInterface K env s
                           else Some (STATUS_SUCCESS, s));
          if \<not> NT_SUCCESS Status then Some (Status, s1)
          else
            Some (STATUS_SUCCESS,
                  modify (\<lambda>Ifc. Ifc\<lparr>ProviderReference := ProviderReference Ifc + 1\<rparr>) s1)
        })"

text \<open>\<^verbatim>\<open>XdpIfpDereferenceProvider(Interface)\<close>.\<close>

definition XdpIfpDereferenceProvider :: "binding_state \<Rightarrow> binding_state option" where
  "XdpIfpDereferenceProvider s =
     (let s1 = modify (\<lambda>Ifc. Ifc\<lparr>ProviderReference := ProviderReference Ifc - 1\<rparr>) s in
      if ProviderReference (Interface s1) = 0 then XdpIfpCloseInterface s1 else Some s1)"

text \<open>
  \<^verbatim>\<open>XdpIfpInvokeCreateRxQueue\<close> and \<^verbatim>\<open>XdpIfpInvokeCreateTxQueue\<close>: the status and the two out
  parameters the provider's routine leaves.
\<close>

definition XdpIfpInvokeCreateRxQueue ::
  "binding_state \<Rightarrow> nat \<Rightarrow> (NTSTATUS \<times> ptr option \<times> ptr option) option" where
  "XdpIfpInvokeCreateRxQueue s Config =
     do {
       D \<leftarrow> InterfaceDispatch (Interface s);
       Some (CreateRxQueue D (InterfaceContext (Interface s)) Config)
     }"

definition XdpIfpInvokeCreateTxQueue ::
  "binding_state \<Rightarrow> nat \<Rightarrow> (NTSTATUS \<times> ptr option \<times> ptr option) option" where
  "XdpIfpInvokeCreateTxQueue s Config =
     do {
       D \<leftarrow> InterfaceDispatch (Interface s);
       Some (CreateTxQueue D (InterfaceContext (Interface s)) Config)
     }"

text \<open>
  \<^verbatim>\<open>XdpIfCreateRxQueue\<close> and \<^verbatim>\<open>XdpIfCreateTxQueue\<close>: the status, \<^verbatim>\<open>*InterfaceRxQueue\<close>,
  \<^verbatim>\<open>*InterfaceRxQueueDispatch\<close> and the state. The two \<^verbatim>\<open>FRE_ASSERT\<close>s follow a success.
\<close>

definition XdpIfCreateRxQueue ::
  "build_constants \<Rightarrow> provider \<Rightarrow> binding_state \<Rightarrow> nat \<Rightarrow>
   (NTSTATUS \<times> ptr option \<times> ptr option \<times> binding_state) option" where
  "XdpIfCreateRxQueue K env s Config =
     do {
       (Status, s1) \<leftarrow> XdpIfpReferenceProvider K env s;
       if \<not> NT_SUCCESS Status then Some (Status, None, None, s1)
       else
         do {
           (Status, InterfaceRxQueue, InterfaceRxQueueDispatch) \<leftarrow>
             XdpIfpInvokeCreateRxQueue s1 Config;
           if \<not> NT_SUCCESS Status then
             do {
               s2 \<leftarrow> XdpIfpDereferenceProvider s1;
               Some (Status, InterfaceRxQueue, InterfaceRxQueueDispatch, s2)
             }
           else if InterfaceRxQueue = None \<or> InterfaceRxQueueDispatch = None then None
           else Some (Status, InterfaceRxQueue, InterfaceRxQueueDispatch, s1)
         }
     }"

definition XdpIfCreateTxQueue ::
  "build_constants \<Rightarrow> provider \<Rightarrow> binding_state \<Rightarrow> nat \<Rightarrow>
   (NTSTATUS \<times> ptr option \<times> ptr option \<times> binding_state) option" where
  "XdpIfCreateTxQueue K env s Config =
     do {
       (Status, s1) \<leftarrow> XdpIfpReferenceProvider K env s;
       if \<not> NT_SUCCESS Status then Some (Status, None, None, s1)
       else
         do {
           (Status, InterfaceTxQueue, InterfaceTxQueueDispatch) \<leftarrow>
             XdpIfpInvokeCreateTxQueue s1 Config;
           if \<not> NT_SUCCESS Status then
             do {
               s2 \<leftarrow> XdpIfpDereferenceProvider s1;
               Some (Status, InterfaceTxQueue, InterfaceTxQueueDispatch, s2)
             }
           else if InterfaceTxQueue = None \<or> InterfaceTxQueueDispatch = None then None
           else Some (Status, InterfaceTxQueue, InterfaceTxQueueDispatch, s1)
         }
     }"

section \<open>Rundown and the work items\<close>

lemma Clients_deref_binding [simp]:
  "Clients (Interface (deref_binding s)) = Clients (Interface s)"
  by (simp add: deref_binding_def XdpIfpDereferenceInterface_def Let_def)

lemma Clients_record_call [simp]:
  "Clients (Interface (record_call c s)) = Clients (Interface s)"
  by (simp add: record_call_def)

text \<open>
  The \<^verbatim>\<open>while\<close> loop of \<^verbatim>\<open>XdpIfpStartRundown\<close>: the entry at the head of \<^verbatim>\<open>Clients\<close> is
  unlinked, its client's \<^verbatim>\<open>BindingDetached\<close> routine is called with it, and the binding is
  dereferenced. What the routine of the client does is outside this module; the call is
  recorded.
\<close>

function XdpIfpStartRundown_loop :: "binding_state \<Rightarrow> binding_state" where
  "XdpIfpStartRundown_loop s =
     (case Clients (Interface s) of
        [] \<Rightarrow> s
      | ClientEntry # rest \<Rightarrow>
          XdpIfpStartRundown_loop
            (deref_binding
               (record_call (BindingDetached (Link ClientEntry))
                  (modify (\<lambda>Ifc. Ifc\<lparr>Clients := rest\<rparr>) s))))"
  by pat_completeness auto

termination XdpIfpStartRundown_loop
  by (relation "measure (\<lambda>s. length (Clients (Interface s)))") (auto simp: modify_def)

declare XdpIfpStartRundown_loop.simps [simp del]

text \<open>\<^verbatim>\<open>XdpIfpStartRundown(Interface)\<close>.\<close>

definition XdpIfpStartRundown :: "binding_state \<Rightarrow> binding_state option" where
  "XdpIfpStartRundown s =
     do {
       s1 \<leftarrow> (if ProviderReference (Interface s) = 0 then XdpIfpCloseInterface s else Some s);
       Some (XdpIfpStartRundown_loop s1)
     }"

text \<open>
  \<^verbatim>\<open>XdpIfpInterfaceDelete(Item)\<close> and \<^verbatim>\<open>XdpIfpInterfaceNmrDelete(Item)\<close>, the routines of the
  two work items; the second is given the address of the NMR context its item lies in.
\<close>

definition XdpIfpInterfaceDelete :: "binding_state \<Rightarrow> binding_state option" where
  "XdpIfpInterfaceDelete s =
     do {
       s1 \<leftarrow> XdpIfpStartRundown (modify (\<lambda>Ifc. Ifc\<lparr>BindingDeleting := True\<rparr>) s);
       Some (deref_binding s1)
     }"

definition XdpIfpInterfaceNmrDelete :: "ptr \<Rightarrow> binding_state \<Rightarrow> binding_state option" where
  "XdpIfpInterfaceNmrDelete p s =
     do {
       N \<leftarrow> NmrPool s p;
       s1 \<leftarrow> (if NmrHandle N \<noteq> None then
                XdpIfpStartRundown (modify (\<lambda>Ifc. Ifc\<lparr>NmrDeleting := True\<rparr>) s)
              else Some s);
       XdpIfpDereferenceNmr p s1
     }"

text \<open>
  One turn of the loop of \<^verbatim>\<open>XdpIfpInterfaceWorker\<close>: the routine of the item runs, then the
  reference \<^verbatim>\<open>XdpIfQueueWorkItem\<close> took for the item is dropped.
\<close>

definition XdpIfpInterfaceWorker :: "work_item \<Rightarrow> binding_state \<Rightarrow> binding_state option" where
  "XdpIfpInterfaceWorker Item s =
     do {
       s1 \<leftarrow> (case Item of
                NmrWorkItem p \<Rightarrow> XdpIfpInterfaceNmrDelete p s
              | DeleteWorkItem \<Rightarrow> XdpIfpInterfaceDelete s);
       Some (deref_binding s1)
     }"

text \<open>
  The entries that got a \<^verbatim>\<open>BindingDetached\<close> call in a sequence of calls, in the order of
  the calls.
\<close>

fun detach_notifications :: "call list \<Rightarrow> ptr list" where
  "detach_notifications [] = []"
| "detach_notifications (BindingDetached e # cs) = e # detach_notifications cs"
| "detach_notifications (c # cs) = detach_notifications cs"

section \<open>Client registration\<close>

text \<open>
  The loop of \<^verbatim>\<open>XdpIfRegisterClient\<close> over the linked entries: \<open>True\<close> when it returns
  \<^verbatim>\<open>STATUS_DUPLICATE_OBJECTID\<close>. \<^verbatim>\<open>NT_VERIFY\<close> yields its argument in a free build.
\<close>

fun XdpIfRegisterClient_scan ::
  "XDP_BINDING_CLIENT_ENTRY list \<Rightarrow> XDP_BINDING_CLIENT \<Rightarrow> (nat \<Rightarrow> 8 word) \<Rightarrow> bool" where
  "XdpIfRegisterClient_scan [] NewClient NewKey = False"
| "XdpIfRegisterClient_scan (Candidate # rest) NewClient NewKey =
     (if \<not> (ClientId (Client Candidate) \<noteq> ClientId NewClient \<or>
             \<not> RtlEqualMemory (Key Candidate) NewKey (unat (KeySize NewClient)))
      then True
      else XdpIfRegisterClient_scan rest NewClient NewKey)"

text \<open>
  \<^verbatim>\<open>XdpIfRegisterClient(BindingHandle, Client, Key, ClientEntry)\<close>. \<open>NewKey\<close> is the memory
  at \<^verbatim>\<open>Key\<close>, \<open>None\<close> for \<^verbatim>\<open>NULL\<close>; \<open>ClientEntry\<close> is the address of the entry. The three
  \<^verbatim>\<open>FRE_ASSERT\<close>s come first.
\<close>

definition XdpIfRegisterClient ::
  "build_constants \<Rightarrow> binding_state \<Rightarrow> XDP_BINDING_CLIENT \<Rightarrow> (nat \<Rightarrow> 8 word) option \<Rightarrow> ptr \<Rightarrow>
   (NTSTATUS \<times> binding_state) option" where
  "XdpIfRegisterClient K s NewClient NewKey ClientEntry =
     (case NewKey of
        None \<Rightarrow> None
      | Some k \<Rightarrow>
          if ClientId NewClient = XDP_BINDING_CLIENT_ID_INVALID K \<or> \<not> 0 < KeySize NewClient
          then None
          else if BindingDeleting (Interface s) then Some (STATUS_DELETE_PENDING, s)
          else if XdpIfRegisterClient_scan (Clients (Interface s)) NewClient k then
            Some (STATUS_DUPLICATE_OBJECTID, s)
          else
            Some (STATUS_SUCCESS,
                  modify (\<lambda>Ifc. Ifc\<lparr>Clients := Clients Ifc @
                            [\<lparr>Link = ClientEntry, Client = NewClient, Key = k\<rparr>]\<rparr>)
                    (ref_binding s)))"

section \<open>The memory of the list entries\<close>

text \<open>
  The \<^verbatim>\<open>LIST_ENTRY\<close> structures by address: the \<^verbatim>\<open>Link\<close> of the callers' client entries and
  the heads they are chained from, such as \<^verbatim>\<open>Interface->Clients\<close>. The list routines are
  those of the kernel headers, which the repository uses and does not define; they are
  taken as documented there. \<^verbatim>\<open>IsListEmpty\<close> tests that \<^verbatim>\<open>Flink\<close> of the head points to the
  head; \<^verbatim>\<open>InitializeListHead\<close> points both fields to the entry itself; \<^verbatim>\<open>RemoveEntryList\<close>
  points \<^verbatim>\<open>Flink\<close> of the entry before to the entry after and \<^verbatim>\<open>Blink\<close> of the entry after to
  the entry before, and leaves the two fields of the entry itself as they are.
\<close>

record list_memory =
  Flink :: "ptr \<Rightarrow> ptr"
  Blink :: "ptr \<Rightarrow> ptr"

definition IsListEmpty :: "list_memory \<Rightarrow> ptr \<Rightarrow> bool" where
  "IsListEmpty M ListHead = (Flink M ListHead = ListHead)"

definition InitializeListHead :: "ptr \<Rightarrow> list_memory \<Rightarrow> list_memory" where
  "InitializeListHead ListHead M =
     M\<lparr>Flink := (Flink M)(ListHead := ListHead), Blink := (Blink M)(ListHead := ListHead)\<rparr>"

definition RemoveEntryList :: "ptr \<Rightarrow> list_memory \<Rightarrow> list_memory" where
  "RemoveEntryList Entry M =
     (let NextEntry = Flink M Entry;
          PrevEntry = Blink M Entry;
          M1 = M\<lparr>Flink := (Flink M)(PrevEntry := NextEntry)\<rparr>
      in M1\<lparr>Blink := (Blink M1)(NextEntry := PrevEntry)\<rparr>)"

text \<open>
  A well-formed list in the memory: from the head, \<^verbatim>\<open>Flink\<close> leads through the entries \<open>es\<close>
  in their order and back to the head, \<^verbatim>\<open>Blink\<close> leads through them in the opposite order,
  and no address occurs twice.
\<close>

fun walk :: "(ptr \<Rightarrow> ptr) \<Rightarrow> ptr \<Rightarrow> ptr list \<Rightarrow> ptr \<Rightarrow> bool" where
  "walk field a [] b = (field a = b)"
| "walk field a (x # xs) b = (field a = x \<and> walk field x xs b)"

definition linked_list :: "list_memory \<Rightarrow> ptr \<Rightarrow> ptr list \<Rightarrow> bool" where
  "linked_list M ListHead es =
     (distinct (ListHead # es) \<and> walk (Flink M) ListHead es ListHead \<and>
      walk (Blink M) ListHead (rev es) ListHead)"

text \<open>
  The state of the routines that work on the \<^verbatim>\<open>Link\<close> of a client entry: the state of the
  binding and the memory of the list entries. The list of a binding is kept twice, as the
  sequence \<open>Clients\<close> of the entries chained from \<^verbatim>\<open>Interface->Clients\<close>, which the other
  routines work on, and as the \<^verbatim>\<open>LIST_ENTRY\<close> fields in the memory, which
  \<^verbatim>\<open>IsListEmpty(&ClientEntry->Link)\<close> reads. \<^verbatim>\<open>RemoveEntryList\<close> of a client entry acts on the
  memory and takes the entry out of the sequence, if it is there.
\<close>

record client_state =
  Binding :: binding_state
  Memory :: list_memory

fun RemoveEntryList_Clients ::
  "ptr \<Rightarrow> XDP_BINDING_CLIENT_ENTRY list \<Rightarrow> XDP_BINDING_CLIENT_ENTRY list" where
  "RemoveEntryList_Clients e [] = []"
| "RemoveEntryList_Clients e (x # xs) =
     (if Link x = e then xs else x # RemoveEntryList_Clients e xs)"

text \<open>
  \<^verbatim>\<open>XdpIfInitializeClientEntry(ClientEntry)\<close>. The \<^verbatim>\<open>Client\<close> and \<^verbatim>\<open>Key\<close> fields it zeroes are
  kept for linked entries only, so there is nothing to clear.
\<close>

definition XdpIfInitializeClientEntry :: "ptr \<Rightarrow> client_state \<Rightarrow> client_state" where
  "XdpIfInitializeClientEntry ClientEntry W =
     W\<lparr>Memory := InitializeListHead ClientEntry (Memory W)\<rparr>"

text \<open>
  \<^verbatim>\<open>XdpIfDeregisterClient(BindingHandle, ClientEntry)\<close>, for the binding of the state and the
  entry at the address \<open>ClientEntry\<close>, on whatever list it is chained.
\<close>

definition XdpIfDeregisterClient :: "client_state \<Rightarrow> ptr \<Rightarrow> client_state" where
  "XdpIfDeregisterClient W ClientEntry =
     (if \<not> IsListEmpty (Memory W) ClientEntry then
        W\<lparr>Memory := InitializeListHead ClientEntry (RemoveEntryList ClientEntry (Memory W)),
          Binding :=
            deref_binding
              (modify (\<lambda>Ifc. Ifc\<lparr>Clients := RemoveEntryList_Clients ClientEntry (Clients Ifc)\<rparr>)
                 (Binding W))\<rparr>
      else W)"

text \<open>
  \<^verbatim>\<open>XdpIfpStartRundown\<close> with the memory of the list entries, \<open>ListHead\<close> being the address of
  \<^verbatim>\<open>Interface->Clients\<close>: the loop tests the head in the memory, takes the entry \<^verbatim>\<open>Flink\<close> of
  the head points to, unlinks and initializes it, calls \<^verbatim>\<open>BindingDetached\<close> with it and
  dereferences the binding. The loop ends when the head points to itself.
\<close>

partial_function (option) XdpIfpStartRundown_loop_mem ::
  "ptr \<Rightarrow> client_state \<Rightarrow> client_state option" where
  "XdpIfpStartRundown_loop_mem ListHead W =
     (if IsListEmpty (Memory W) ListHead then Some W
      else
        XdpIfpStartRundown_loop_mem ListHead
          (W\<lparr>Memory := InitializeListHead (Flink (Memory W) ListHead)
                         (RemoveEntryList (Flink (Memory W) ListHead) (Memory W)),
             Binding :=
               deref_binding
                 (record_call (BindingDetached (Flink (Memory W) ListHead))
                    (modify (\<lambda>Ifc. Ifc\<lparr>Clients :=
                        RemoveEntryList_Clients (Flink (Memory W) ListHead) (Clients Ifc)\<rparr>)
                       (Binding W)))\<rparr>))"

definition XdpIfpStartRundown_mem :: "ptr \<Rightarrow> client_state \<Rightarrow> client_state option" where
  "XdpIfpStartRundown_mem ListHead W =
     do {
       s1 \<leftarrow> (if ProviderReference (Interface (Binding W)) = 0
              then XdpIfpCloseInterface (Binding W) else Some (Binding W));
       XdpIfpStartRundown_loop_mem ListHead (W\<lparr>Binding := s1\<rparr>)
     }"
section \<open>The registry of interface sets\<close>

text \<open>The loop of \<^verbatim>\<open>XdpIfSupportsHookId(Capabilities, Target)\<close> from \<open>Index\<close> on.\<close>

function XdpIfSupportsHookId_loop ::
  "XDP_CAPABILITIES_INTERNAL \<Rightarrow> XDP_HOOK_ID \<Rightarrow> UINT32 \<Rightarrow> bool" where
  "XdpIfSupportsHookId_loop Caps Target Index =
     (if Index < HookCount Caps then
        (let Candidate = Hooks Caps (unat Index) in
         if Layer Target = Layer Candidate \<and> Direction Target = Direction Candidate \<and>
            SubLayer Target = SubLayer Candidate
         then True
         else XdpIfSupportsHookId_loop Caps Target (Index + 1))
      else False)"
  by pat_completeness auto

termination XdpIfSupportsHookId_loop
  by (relation "measure (\<lambda>(c, t, i). unat (HookCount c) - unat i)")
     (auto simp: unat_succ_below word_less_nat_alt)

declare XdpIfSupportsHookId_loop.simps [simp del]

definition XdpIfSupportsHookId :: "XDP_CAPABILITIES_INTERNAL \<Rightarrow> XDP_HOOK_ID \<Rightarrow> bool" where
  "XdpIfSupportsHookId Caps Target = XdpIfSupportsHookId_loop Caps Target 0"

text \<open>
  The loop of \<^verbatim>\<open>XdpIfpSupportsHookIds(Capabilities, TargetIds, TargetCount)\<close> from
  \<open>TargetIndex\<close> on; \<open>TargetIds\<close> is the caller's array, read by index.
\<close>

function XdpIfpSupportsHookIds_loop ::
  "XDP_CAPABILITIES_INTERNAL \<Rightarrow> (nat \<Rightarrow> XDP_HOOK_ID) \<Rightarrow> UINT32 \<Rightarrow> UINT32 \<Rightarrow> bool" where
  "XdpIfpSupportsHookIds_loop Caps TargetIds TargetCount TargetIndex =
     (if TargetIndex < TargetCount then
        (if \<not> XdpIfSupportsHookId Caps (TargetIds (unat TargetIndex)) then False
         else XdpIfpSupportsHookIds_loop Caps TargetIds TargetCount (TargetIndex + 1))
      else True)"
  by pat_completeness auto

termination XdpIfpSupportsHookIds_loop
  by (relation "measure (\<lambda>(c, t, n, i). unat n - unat i)")
     (auto simp: unat_succ_below word_less_nat_alt)

declare XdpIfpSupportsHookIds_loop.simps [simp del]

definition XdpIfpSupportsHookIds ::
  "XDP_CAPABILITIES_INTERNAL \<Rightarrow> (nat \<Rightarrow> XDP_HOOK_ID) \<Rightarrow> UINT32 \<Rightarrow> bool" where
  "XdpIfpSupportsHookIds Caps TargetIds TargetCount =
     XdpIfpSupportsHookIds_loop Caps TargetIds TargetCount 0"

text \<open>
  An \<^verbatim>\<open>XDP_ADD_INTERFACE\<close> descriptor. \<open>InterfaceCapabilities\<close> is the structure behind the
  pointer of that name, \<open>AddRemoveInterfaceComplete\<close> and \<open>AddInterfaceContext\<close> are its
  \<^verbatim>\<open>RemoveInterfaceComplete\<close> and \<^verbatim>\<open>InterfaceContext\<close>, and \<open>InterfaceHandle\<close> is the address of
  the caller's cell that receives the handle.
\<close>

record XDP_ADD_INTERFACE =
  InterfaceCapabilities :: XDP_CAPABILITIES_INTERNAL
  AddRemoveInterfaceComplete :: "ptr option"
  AddInterfaceContext :: "ptr option"
  InterfaceHandle :: ptr

text \<open>
  The state the registry routines work on, with \<^verbatim>\<open>XdpInterfaceSetsLock\<close> held: the list
  \<^verbatim>\<open>XdpInterfaceSets\<close> (the addresses of the linked sets, in \<^verbatim>\<open>Flink\<close> order), the interface
  sets and the bindings allocated (by address; a freed object is gone from its pool), the
  callers' handle cells, and the calls made.
\<close>

record registry =
  XdpInterfaceSets :: "ptr list"
  IfSetPool :: "ptr \<rightharpoonup> XDP_INTERFACE_SET"
  IfPool :: "ptr \<rightharpoonup> XDP_INTERFACE"
  HandleCells :: "ptr \<Rightarrow> ptr option"
  RegistryCalls :: "call list"

text \<open>
  What the environment answers to \<^verbatim>\<open>XdpIfAddInterfaces\<close> for the descriptor at an index: the
  address \<^verbatim>\<open>ExAllocatePoolZero\<close> returns for the binding and the work queue
  \<^verbatim>\<open>XdpCreateWorkQueue\<close> returns, \<open>None\<close> when it fails.
\<close>

record allocator =
  ExAllocatePoolZero_IF :: "nat \<Rightarrow> ptr option"
  XdpCreateWorkQueue :: "nat \<Rightarrow> ptr option"

text \<open>
  \<^verbatim>\<open>XdpIfpReferenceInterface\<close> and \<^verbatim>\<open>XdpIfpDereferenceInterface\<close> for the binding at address
  \<open>p\<close> of the pool.
\<close>

definition ref_pool :: "ptr \<Rightarrow> registry \<Rightarrow> registry option" where
  "ref_pool p g =
     do {
       Ifc \<leftarrow> IfPool g p;
       Some (g\<lparr>IfPool := (IfPool g)(p \<mapsto> XdpIfpReferenceInterface Ifc)\<rparr>)
     }"

definition deref_pool :: "ptr \<Rightarrow> registry \<Rightarrow> registry option" where
  "deref_pool p g =
     do {
       Ifc \<leftarrow> IfPool g p;
       (case XdpIfpDereferenceInterface Ifc of
          (Ifc', cs) \<Rightarrow>
            Some (g\<lparr>IfPool := (if ExFreePoolWithTag_IF \<in> set cs then (IfPool g)(p := None)
                               else (IfPool g)(p \<mapsto> Ifc')),
                    RegistryCalls := RegistryCalls g @ cs\<rparr>))
     }"

text \<open>
  \<^verbatim>\<open>XdpIfpFindIfSet(IfIndex)\<close>: the walk over the list from an entry on, and the routine.
  The result is the address of the set, or \<open>None\<close> for \<^verbatim>\<open>NULL\<close>.
\<close>

fun XdpIfpFindIfSet_walk ::
  "(ptr \<rightharpoonup> XDP_INTERFACE_SET) \<Rightarrow> ptr list \<Rightarrow> UINT32 \<Rightarrow> ptr option option" where
  "XdpIfpFindIfSet_walk P [] IfIdx = Some None"
| "XdpIfpFindIfSet_walk P (Entry # rest) IfIdx =
     do {
       Candidate \<leftarrow> P Entry;
       if SetIfIndex Candidate = IfIdx then Some (Some Entry)
       else XdpIfpFindIfSet_walk P rest IfIdx
     }"

definition XdpIfpFindIfSet :: "registry \<Rightarrow> UINT32 \<Rightarrow> ptr option option" where
  "XdpIfpFindIfSet g IfIdx = XdpIfpFindIfSet_walk (IfSetPool g) (XdpInterfaceSets g) IfIdx"

text \<open>
  One turn of the \<^verbatim>\<open>for\<close> loop of \<^verbatim>\<open>XdpIfpFindInterface\<close>, for the mode \<open>M\<close>: from the value of
  the local \<^verbatim>\<open>Interface\<close> before the turn to its value after it.
\<close>

definition XdpIfpFindInterface_turn ::
  "registry \<Rightarrow> XDP_INTERFACE_SET \<Rightarrow> (nat \<Rightarrow> XDP_HOOK_ID) \<Rightarrow> UINT32 \<Rightarrow>
   XDP_INTERFACE_MODE option \<Rightarrow> XDP_INTERFACE_MODE \<Rightarrow> ptr option \<Rightarrow> ptr option option" where
  "XdpIfpFindInterface_turn g S HookIds Count RequiredMode M Found =
     (case Interfaces S M of
        None \<Rightarrow> Some Found
      | Some CandidateIf \<Rightarrow>
          if RequiredMode \<noteq> None \<and> RequiredMode \<noteq> Some M then Some Found
          else
            do {
              C \<leftarrow> IfPool g CandidateIf;
              if \<not> XdpIfpSupportsHookIds (Capabilities C) HookIds Count then Some Found
              else Some (Some CandidateIf)
            })"

text \<open>
  \<^verbatim>\<open>XdpIfpFindInterface(IfIndex, HookIds, HookCount, RequiredMode)\<close>. The loop runs \<^verbatim>\<open>Mode\<close>
  from \<^verbatim>\<open>XDP_INTERFACE_MODE_GENERIC\<close> to \<^verbatim>\<open>XDP_INTERFACE_MODE_NATIVE\<close>, the two slots of
  \<^verbatim>\<open>Interfaces[2]\<close>.
\<close>

definition XdpIfpFindInterface ::
  "registry \<Rightarrow> UINT32 \<Rightarrow> (nat \<Rightarrow> XDP_HOOK_ID) \<Rightarrow> UINT32 \<Rightarrow> XDP_INTERFACE_MODE option \<Rightarrow>
   ptr option option" where
  "XdpIfpFindInterface g IfIdx HookIds Count RequiredMode =
     do {
       Found \<leftarrow> XdpIfpFindIfSet g IfIdx;
       (case Found of
          None \<Rightarrow> Some None
        | Some h \<Rightarrow>
            do {
              S \<leftarrow> IfSetPool g h;
              i1 \<leftarrow> XdpIfpFindInterface_turn g S HookIds Count RequiredMode
                      XDP_INTERFACE_MODE_GENERIC None;
              XdpIfpFindInterface_turn g S HookIds Count RequiredMode
                XDP_INTERFACE_MODE_NATIVE i1
            })
     }"

text \<open>
  \<^verbatim>\<open>XdpIfFindAndReferenceBinding(IfIndex, HookIds, HookCount, RequiredMode)\<close>: the handle
  returned and the registry after the call.
\<close>

definition XdpIfFindAndReferenceBinding ::
  "registry \<Rightarrow> UINT32 \<Rightarrow> (nat \<Rightarrow> XDP_HOOK_ID) \<Rightarrow> UINT32 \<Rightarrow> XDP_INTERFACE_MODE option \<Rightarrow>
   (ptr option \<times> registry) option" where
  "XdpIfFindAndReferenceBinding g IfIdx HookIds Count RequiredMode =
     do {
       Found \<leftarrow> XdpIfpFindInterface g IfIdx HookIds Count RequiredMode;
       (case Found of
          None \<Rightarrow> Some (None, g)
        | Some p \<Rightarrow> do { g1 \<leftarrow> ref_pool p g; Some (Some p, g1) })
     }"

text \<open>
  The binding \<^verbatim>\<open>XdpIfAddInterfaces\<close> builds in zeroed memory for a descriptor, for the set
  \<open>S\<close> at address \<open>h\<close>, before its work queue is created.
\<close>

definition XdpIfAddInterfaces_init ::
  "ptr \<Rightarrow> XDP_INTERFACE_SET \<Rightarrow> XDP_ADD_INTERFACE \<Rightarrow> XDP_INTERFACE" where
  "XdpIfAddInterfaces_init h S AddIf =
     \<lparr>IfIndex = SetIfIndex S, IfSet = Some h,
      XdpIfInterfaceContext = AddInterfaceContext AddIf,
      Capabilities = InterfaceCapabilities AddIf,
      RemoveInterfaceComplete = AddRemoveInterfaceComplete AddIf,
      Nmr = None, DriverApiVersion = \<lparr>Major = 0, Minor = 0, Patch = 0\<rparr>,
      InterfaceDispatch = None, InterfaceContext = None, ReferenceCount = 1,
      Clients = [], ProviderReference = 0, BindingDeleting = False, NmrDeleting = False,
      WorkQueue = None\<rparr>"

text \<open>
  The first loop of \<^verbatim>\<open>XdpIfAddInterfaces\<close>, over the descriptors left, the first of them at
  \<open>Index\<close>: the status it ends with and the registry then. A binding whose work queue is not
  created is freed at once, before it is linked anywhere: it never enters the pool, and only
  its \<^verbatim>\<open>ExFreePoolWithTag\<close> is recorded.
\<close>

fun XdpIfAddInterfaces_loop ::
  "build_constants \<Rightarrow> allocator \<Rightarrow> ptr \<Rightarrow> XDP_ADD_INTERFACE list \<Rightarrow> nat \<Rightarrow> registry \<Rightarrow>
   (NTSTATUS \<times> registry) option" where
  "XdpIfAddInterfaces_loop K A h [] Index g = Some (STATUS_SUCCESS, g)"
| "XdpIfAddInterfaces_loop K A h (AddIf # rest) Index g =
     (if \<not> XdpValidateCapabilitiesEx K (CapabilitiesEx (InterfaceCapabilities AddIf))
             (CapabilitiesSize (InterfaceCapabilities AddIf))
      then Some (STATUS_NOT_SUPPORTED, g)
      else
        (case ExAllocatePoolZero_IF A Index of
           None \<Rightarrow> Some (STATUS_NO_MEMORY, g)
         | Some p \<Rightarrow>
             do {
               S \<leftarrow> IfSetPool g h;
               (case XdpCreateWorkQueue A Index of
                  None \<Rightarrow>
                    Some (STATUS_NO_MEMORY,
                          g\<lparr>RegistryCalls := RegistryCalls g @ [ExFreePoolWithTag_IF]\<rparr>)
                | Some q \<Rightarrow>
                    XdpIfAddInterfaces_loop K A h rest (Suc Index)
                      (g\<lparr>IfPool := (IfPool g)(p \<mapsto>
                                      (XdpIfAddInterfaces_init h S AddIf)\<lparr>WorkQueue := Some q\<rparr>),
                         IfSetPool := (IfSetPool g)(h \<mapsto>
                           S\<lparr>Interfaces := (Interfaces S)
                                (Mode (InterfaceCapabilities AddIf) := Some p)\<rparr>),
                         HandleCells := (HandleCells g)(InterfaceHandle AddIf := Some p)\<rparr>))
             }))"

text \<open>
  The loop after the label \<^verbatim>\<open>Exit\<close>, run when the status is a failure, over the descriptors
  left of the whole array.
\<close>

fun XdpIfAddInterfaces_unwind ::
  "ptr \<Rightarrow> XDP_ADD_INTERFACE list \<Rightarrow> registry \<Rightarrow> registry option" where
  "XdpIfAddInterfaces_unwind h [] g = Some g"
| "XdpIfAddInterfaces_unwind h (AddIf # rest) g =
     (case HandleCells g (InterfaceHandle AddIf) of
        None \<Rightarrow> XdpIfAddInterfaces_unwind h rest g
      | Some p \<Rightarrow>
          do {
            Ifc \<leftarrow> IfPool g p;
            S \<leftarrow> IfSetPool g h;
            g1 \<leftarrow> deref_pool p
                    (g\<lparr>IfSetPool := (IfSetPool g)(h \<mapsto>
                          S\<lparr>Interfaces := (Interfaces S)(Mode (Capabilities Ifc) := None)\<rparr>),
                       HandleCells := (HandleCells g)(InterfaceHandle AddIf := None)\<rparr>);
            XdpIfAddInterfaces_unwind h rest g1
          })"

text \<open>
  \<^verbatim>\<open>XdpIfAddInterfaces(InterfaceSetHandle, Interfaces, InterfaceCount)\<close>, for the set at
  address \<open>h\<close> and the array of descriptors as a list.
\<close>

definition XdpIfAddInterfaces ::
  "build_constants \<Rightarrow> allocator \<Rightarrow> ptr \<Rightarrow> XDP_ADD_INTERFACE list \<Rightarrow> registry \<Rightarrow>
   (NTSTATUS \<times> registry) option" where
  "XdpIfAddInterfaces K A h Descs g =
     do {
       (Status, g1) \<leftarrow> XdpIfAddInterfaces_loop K A h Descs 0 g;
       if \<not> NT_SUCCESS Status then
         do { g2 \<leftarrow> XdpIfAddInterfaces_unwind h Descs g1; Some (Status, g2) }
       else Some (Status, g1)
     }"

section \<open>Example inputs\<close>

definition ex_versions :: "nat \<Rightarrow> XDP_VERSION" where
  "ex_versions i =
     (if i = 0 then \<lparr>Major = 2, Minor = 0, Patch = 0\<rparr>
      else if i = 1 then \<lparr>Major = 1, Minor = 1, Patch = 0\<rparr>
      else \<lparr>Major = 1, Minor = 0, Patch = 0\<rparr>)"

definition ex_caps_ex :: XDP_CAPABILITIES_EX where
  "ex_caps_ex =
     \<lparr>Header = \<lparr>Revision = 1, Size = 40\<rparr>, DriverApiVersionsOffset = 40,
      DriverApiVersionCount = 3, InstanceId = 0, DriverApiVersions = ex_versions\<rparr>"

definition ex_dispatch :: XDP_INTERFACE_DISPATCH where
  "ex_dispatch =
     \<lparr>OpenInterface = None, CloseInterface = True,
      CreateRxQueue = (\<lambda>c q. (STATUS_NO_MEMORY, None, None)),
      CreateTxQueue = (\<lambda>c q. (STATUS_SUCCESS, Some 70, Some 71))\<rparr>"

definition ex_get_dispatch ::
  "XDP_VERSION \<Rightarrow> NTSTATUS \<times> ptr option \<times> XDP_INTERFACE_DISPATCH option" where
  "ex_get_dispatch v =
     (if Minor v = 1 then (STATUS_NO_MEMORY, None, None)
      else (STATUS_SUCCESS, Some 50, Some ex_dispatch))"

definition ex_locals :: dispatch_locals where
  "ex_locals =
     \<lparr>l_Status = STATUS_SUCCESS, l_InterfaceContext = None, l_InterfaceDispatch = None,
      l_DriverApiVersion = \<lparr>Major = 0, Minor = 0, Patch = 0\<rparr>\<rparr>"

definition ex_consts :: build_constants where
  "ex_consts =
     \<lparr>XDP_CAPABILITIES_EX_REVISION_1 = 1, XDP_SIZEOF_CAPABILITIES_EX_REVISION_1 = 40,
      sizeof_XDP_VERSION = 12,
      XdpDriverApiCurrentVersion = \<lparr>Major = 1, Minor = 2, Patch = 3\<rparr>,
      XDP_BINDING_CLIENT_ID_INVALID = 0\<rparr>"

definition ex_hook :: XDP_HOOK_ID where
  "ex_hook = \<lparr>Layer = 1, Direction = 0, SubLayer = 0\<rparr>"

definition ex_caps :: XDP_CAPABILITIES_INTERNAL where
  "ex_caps =
     \<lparr>Mode = XDP_INTERFACE_MODE_GENERIC, Hooks = (\<lambda>i. ex_hook), HookCount = 1,
      CapabilitiesEx = ex_caps_ex, CapabilitiesSize = 76\<rparr>"

definition ex_client :: XDP_BINDING_CLIENT where
  "ex_client = \<lparr>ClientId = 1, KeySize = 1\<rparr>"

definition ex_entry_A :: XDP_BINDING_CLIENT_ENTRY where
  "ex_entry_A = \<lparr>Link = 200, Client = ex_client, Key = (\<lambda>i. 65)\<rparr>"

definition ex_interface :: XDP_INTERFACE where
  "ex_interface =
     \<lparr>IfIndex = 7, IfSet = Some 1, XdpIfInterfaceContext = Some 20, Capabilities = ex_caps,
      RemoveInterfaceComplete = Some 21, Nmr = None,
      DriverApiVersion = \<lparr>Major = 0, Minor = 0, Patch = 0\<rparr>, InterfaceDispatch = None,
      InterfaceContext = None, ReferenceCount = 2, Clients = [ex_entry_A],
      ProviderReference = 0, BindingDeleting = False, NmrDeleting = False,
      WorkQueue = Some 30\<rparr>"

definition ex_binding :: binding_state where
  "ex_binding = \<lparr>Interface = ex_interface, NmrPool = Map.empty, Calls = []\<rparr>"

definition ex_entry_B :: XDP_BINDING_CLIENT_ENTRY where
  "ex_entry_B = \<lparr>Link = 202, Client = ex_client, Key = (\<lambda>i. 66)\<rparr>"

definition ex_open_interface :: XDP_INTERFACE where
  "ex_open_interface =
     ex_interface\<lparr>Nmr := Some 10, InterfaceDispatch := Some ex_dispatch,
       InterfaceContext := Some 50, ReferenceCount := 4,
       Clients := [ex_entry_A, ex_entry_B]\<rparr>"

definition ex_nmr :: XDP_INTERFACE_NMR where
  "ex_nmr = \<lparr>NmrHandle = Some 11, DetachNotification = False, NmrReferenceCount = 2\<rparr>"

definition ex_open :: binding_state where
  "ex_open = \<lparr>Interface = ex_open_interface, NmrPool = [10 \<mapsto> ex_nmr], Calls = []\<rparr>"

definition ex_busy :: binding_state where
  "ex_busy = ex_open\<lparr>Interface := ex_open_interface\<lparr>ProviderReference := 1\<rparr>\<rparr>"

text \<open>
  The list memory for \<open>ex_open\<close>: the head \<^verbatim>\<open>Interface->Clients\<close> at 190 with the entries
  at 200 and 202, the head of another binding at 191 with the entry at 300, and every other
  \<^verbatim>\<open>LIST_ENTRY\<close> pointing to itself.
\<close>

definition ex_lists :: list_memory where
  "ex_lists =
     \<lparr>Flink = (\<lambda>a. a)(190 := 200, 200 := 202, 202 := 190, 191 := 300, 300 := 191),
      Blink = (\<lambda>a. a)(190 := 202, 202 := 200, 200 := 190, 191 := 300, 300 := 191)\<rparr>"

definition ex_clients :: client_state where
  "ex_clients = \<lparr>Binding = ex_open, Memory = ex_lists\<rparr>"

definition ex_provider :: provider where
  "ex_provider =
     \<lparr>ExAllocatePoolZero_NMR = Some 10, XdpOpenProvider = (STATUS_SUCCESS, Some 11),
      GetInterfaceDispatch = ex_get_dispatch\<rparr>"

definition ex_provider_refusing :: provider where
  "ex_provider_refusing =
     ex_provider\<lparr>GetInterfaceDispatch := (\<lambda>v. (STATUS_NO_MEMORY, None, None))\<rparr>"

definition ex_provider_absent :: provider where
  "ex_provider_absent = ex_provider\<lparr>XdpOpenProvider := (STATUS_NOT_SUPPORTED, None)\<rparr>"

definition ex_nmr_deleting :: binding_state where
  "ex_nmr_deleting = ex_binding\<lparr>Interface := ex_interface\<lparr>NmrDeleting := True\<rparr>\<rparr>"

text \<open>
  The state in which \<^verbatim>\<open>XdpIfpOpenInterface\<close> reaches its label \<^verbatim>\<open>Exit\<close> from \<open>ex_binding\<close>
  when \<^verbatim>\<open>XdpOpenProvider\<close> has failed and left no handle.
\<close>

definition ex_at_exit :: binding_state where
  "ex_at_exit =
     \<lparr>Interface = ex_interface\<lparr>Nmr := Some 10, ReferenceCount := 3\<rparr>,
      NmrPool = [10 \<mapsto> \<lparr>NmrHandle = None, DetachNotification = False,
                          NmrReferenceCount = 2\<rparr>],
      Calls = []\<rparr>"

definition ex_set :: XDP_INTERFACE_SET where
  "ex_set = \<lparr>SetIfIndex = 7, XdpIfInterfaceSetContext = Some 5, Interfaces = (\<lambda>m. None)\<rparr>"

definition ex_registry :: registry where
  "ex_registry =
     \<lparr>XdpInterfaceSets = [1], IfSetPool = [1 \<mapsto> ex_set], IfPool = Map.empty,
      HandleCells = (\<lambda>c. None), RegistryCalls = []\<rparr>"

definition ex_allocator :: allocator where
  "ex_allocator =
     \<lparr>ExAllocatePoolZero_IF = (\<lambda>i. Some (100 + i)),
      XdpCreateWorkQueue = (\<lambda>i. if i = 1 then None else Some (500 + i))\<rparr>"

definition ex_add_generic :: XDP_ADD_INTERFACE where
  "ex_add_generic =
     \<lparr>InterfaceCapabilities = ex_caps, AddRemoveInterfaceComplete = Some 21,
      AddInterfaceContext = Some 20, InterfaceHandle = 300\<rparr>"

definition ex_add_native :: XDP_ADD_INTERFACE where
  "ex_add_native =
     \<lparr>InterfaceCapabilities = ex_caps\<lparr>Mode := XDP_INTERFACE_MODE_NATIVE\<rparr>,
      AddRemoveInterfaceComplete = Some 21, AddInterfaceContext = Some 22,
      InterfaceHandle = 301\<rparr>"


definition ex_add_short :: XDP_ADD_INTERFACE where
  "ex_add_short =
     ex_add_native\<lparr>InterfaceCapabilities :=
       ex_caps\<lparr>Mode := XDP_INTERFACE_MODE_NATIVE, CapabilitiesSize := 75\<rparr>\<rparr>"

text \<open>An allocator that never fails, and a native descriptor whose out handle is the cell of
  \<open>ex_add_generic\<close>.\<close>

definition ex_allocator_ample :: allocator where
  "ex_allocator_ample =
     \<lparr>ExAllocatePoolZero_IF = (\<lambda>i. Some (100 + i)), XdpCreateWorkQueue = (\<lambda>i. Some (500 + i))\<rparr>"

definition ex_add_shared :: XDP_ADD_INTERFACE where
  "ex_add_shared = ex_add_native\<lparr>InterfaceHandle := 300\<rparr>"

text \<open>A registry whose set for interface 7 holds a generic binding at 100 and a native one
  at 101, both with the hook \<open>ex_hook\<close>.\<close>

definition ex_native_interface :: XDP_INTERFACE where
  "ex_native_interface =
     ex_interface\<lparr>Capabilities := ex_caps\<lparr>Mode := XDP_INTERFACE_MODE_NATIVE\<rparr>, Clients := [],
       ReferenceCount := 1\<rparr>"

definition ex_registry_two :: registry where
  "ex_registry_two =
     \<lparr>XdpInterfaceSets = [1],
      IfSetPool = [1 \<mapsto> ex_set\<lparr>Interfaces :=
        (\<lambda>m. case m of XDP_INTERFACE_MODE_GENERIC \<Rightarrow> Some 100
                      | XDP_INTERFACE_MODE_NATIVE \<Rightarrow> Some 101)\<rparr>],
      IfPool = [100 \<mapsto> ex_interface, 101 \<mapsto> ex_native_interface],
      HandleCells = (\<lambda>c. None), RegistryCalls = []\<rparr>"

section \<open>Basic facts\<close>

lemma not_success_simps [simp]:
  "\<not> NT_SUCCESS STATUS_NOT_SUPPORTED" "\<not> NT_SUCCESS STATUS_NO_MEMORY"
  "\<not> NT_SUCCESS STATUS_DELETE_PENDING" "\<not> NT_SUCCESS STATUS_DUPLICATE_OBJECTID"
  "\<not> NT_SUCCESS STATUS_INTEGER_OVERFLOW" "NT_SUCCESS STATUS_SUCCESS"
  by (simp_all add: NT_SUCCESS_def STATUS_NOT_SUPPORTED_def STATUS_NO_MEMORY_def
      STATUS_DELETE_PENDING_def STATUS_DUPLICATE_OBJECTID_def STATUS_INTEGER_OVERFLOW_def
      STATUS_SUCCESS_def)

lemma status_distinct [simp]:
  "STATUS_SUCCESS \<noteq> STATUS_DELETE_PENDING" "STATUS_DUPLICATE_OBJECTID \<noteq> STATUS_DELETE_PENDING"
  "STATUS_NOT_SUPPORTED \<noteq> STATUS_DELETE_PENDING" "STATUS_NO_MEMORY \<noteq> STATUS_DELETE_PENDING"
  by (simp_all add: STATUS_SUCCESS_def STATUS_DELETE_PENDING_def STATUS_DUPLICATE_OBJECTID_def
      STATUS_NOT_SUPPORTED_def STATUS_NO_MEMORY_def)

lemma modify_simps [simp]:
  "Interface (modify f s) = f (Interface s)"
  "NmrPool (modify f s) = NmrPool s"
  "Calls (modify f s) = Calls s"
  by (simp_all add: modify_def)

lemma record_call_simps [simp]:
  "Interface (record_call c s) = Interface s"
  "NmrPool (record_call c s) = NmrPool s"
  "Calls (record_call c s) = Calls s @ [c]"
  by (simp_all add: record_call_def)

lemma ref_binding_simps [simp]:
  "Interface (ref_binding s) = (Interface s)\<lparr>ReferenceCount := ReferenceCount (Interface s) + 1\<rparr>"
  "NmrPool (ref_binding s) = NmrPool s"
  "Calls (ref_binding s) = Calls s"
  by (simp_all add: ref_binding_def XdpIfpReferenceInterface_def)

lemma deref_binding_Interface [simp]:
  "Interface (deref_binding s) =
     (Interface s)\<lparr>ReferenceCount := ReferenceCount (Interface s) - 1\<rparr>"
  by (simp add: deref_binding_def XdpIfpDereferenceInterface_def Let_def)

lemma deref_binding_NmrPool [simp]: "NmrPool (deref_binding s) = NmrPool s"
  by (simp add: deref_binding_def XdpIfpDereferenceInterface_def Let_def)

lemma deref_binding_Calls:
  "Calls (deref_binding s) =
     Calls s @
     (if ReferenceCount (Interface s) = 1 then
        (case WorkQueue (Interface s) of Some q \<Rightarrow> [XdpShutdownWorkQueue q] | None \<Rightarrow> []) @
        [ExFreePoolWithTag_IF]
      else [])"
  by (simp add: deref_binding_def XdpIfpDereferenceInterface_def Let_def)

lemma deref_binding_Calls_prefix: "\<exists>cs. Calls (deref_binding s) = Calls s @ cs"
  by (simp add: deref_binding_Calls)

lemma detach_notifications_append [simp]:
  "detach_notifications (xs @ ys) = detach_notifications xs @ detach_notifications ys"
  by (induction xs rule: detach_notifications.induct) auto

lemma deref_binding_Calls_quiet:
  "\<exists>cs. Calls (deref_binding s) = Calls s @ cs \<and> detach_notifications cs = []"
  by (simp add: deref_binding_Calls split: option.splits)

lemma quiet_trans:
  "\<exists>cs. Calls s1 = Calls s @ cs \<and> detach_notifications cs = [] \<Longrightarrow>
   \<exists>cs. Calls s2 = Calls s1 @ cs \<and> detach_notifications cs = [] \<Longrightarrow>
   \<exists>cs. Calls s2 = Calls s @ cs \<and> detach_notifications cs = []"
  by auto

lemma XdpIfpDereferenceNmr_Some:
  "NmrPool s p = Some N \<Longrightarrow>
   XdpIfpDereferenceNmr p s =
     Some (if NmrReferenceCount N = 1 then
             s\<lparr>NmrPool := (NmrPool s)(p := None), Calls := Calls s @ [ExFreePoolWithTag_NMR p]\<rparr>
           else s\<lparr>NmrPool := (NmrPool s)(p \<mapsto> N\<lparr>NmrReferenceCount := NmrReferenceCount N - 1\<rparr>)\<rparr>)"
  by (simp add: XdpIfpDereferenceNmr_def Let_def record_call_def)

lemma XdpIfpDereferenceNmr_frame:
  "XdpIfpDereferenceNmr p s = Some s' \<Longrightarrow>
   Interface s' = Interface s \<and>
   (\<exists>cs. Calls s' = Calls s @ cs \<and> detach_notifications cs = [])"
  by (auto simp: XdpIfpDereferenceNmr_def Let_def split: bind_splits if_splits)

lemma XdpIfQueueWorkItem_simps [simp]:
  "Interface (XdpIfQueueWorkItem w s) =
     (Interface s)\<lparr>ReferenceCount := ReferenceCount (Interface s) + 1\<rparr>"
  "NmrPool (XdpIfQueueWorkItem w s) = NmrPool s"
  "Calls (XdpIfQueueWorkItem w s) = Calls s @ [XdpInsertWorkQueue (WorkQueue (Interface s)) w]"
  by (simp_all add: XdpIfQueueWorkItem_def Let_def)

lemma XdpIfpDetachNmrInterface_Some:
  "NmrPool s p = Some N \<Longrightarrow>
   \<exists>s'. XdpIfpDetachNmrInterface p s = Some s' \<and> Interface s' = Interface s \<and>
        NmrPool s' = (NmrPool s)(p \<mapsto> N\<lparr>DetachNotification := True\<rparr>) \<and>
        (\<exists>cs. Calls s' = Calls s @ cs \<and> detach_notifications cs = [])"
  by (simp add: XdpIfpDetachNmrInterface_def Let_def deref_binding_Calls split: option.splits)

lemma XdpIfpDetachNmrInterface_frame:
  "XdpIfpDetachNmrInterface p s = Some s' \<Longrightarrow>
   Interface s' = Interface s \<and>
   (\<exists>cs. Calls s' = Calls s @ cs \<and> detach_notifications cs = [])"
  by (auto simp: XdpIfpDetachNmrInterface_def Let_def deref_binding_Calls
      split: bind_splits option.splits)

text \<open>The close path on a live NMR context: what is left of the context, and the calls.\<close>

lemma XdpIfpCloseNmrInterface_Some:
  assumes p: "Nmr (Interface s) = Some p" and N: "NmrPool s p = Some N"
  shows "\<exists>s'. XdpIfpCloseNmrInterface s = Some s' \<and>
           Interface s' = (Interface s)\<lparr>Nmr := None\<rparr> \<and>
           NmrPool s' =
             (if NmrReferenceCount N = 1 then (NmrPool s)(p := None)
              else (NmrPool s)(p \<mapsto> \<lparr>NmrHandle = None, DetachNotification = True,
                                     NmrReferenceCount = NmrReferenceCount N - 1\<rparr>)) \<and>
           (\<exists>cs. Calls s' = Calls s @ XdpCloseProvider (NmrHandle N) # cs \<and>
                 detach_notifications cs = [])"
proof -
  let ?s1 = "record_call (XdpCloseProvider (NmrHandle N)) s"
  have N1: "NmrPool ?s1 p = Some N" using N by simp
  obtain s2 where
    s2: "(if DetachNotification N then Some ?s1 else XdpIfpDetachNmrInterface p ?s1) = Some s2"
    and i2: "Interface s2 = Interface s"
    and n2: "NmrPool s2 = (NmrPool s)(p \<mapsto> N\<lparr>DetachNotification := True\<rparr>)"
    and c2: "\<exists>cs. Calls s2 = Calls s @ XdpCloseProvider (NmrHandle N) # cs \<and>
                  detach_notifications cs = []"
  proof (cases "DetachNotification N")
    case True
    have "N\<lparr>DetachNotification := True\<rparr> = N" using True by simp
    with True N show ?thesis by (intro that [of ?s1]) (auto simp: fun_upd_idem)
  next
    case False
    from XdpIfpDetachNmrInterface_Some [OF N1] obtain t where
      "XdpIfpDetachNmrInterface p ?s1 = Some t" "Interface t = Interface s"
      "NmrPool t = (NmrPool s)(p \<mapsto> N\<lparr>DetachNotification := True\<rparr>)"
      "\<exists>cs. Calls t = Calls ?s1 @ cs \<and> detach_notifications cs = []"
      by auto
    with False show ?thesis by (intro that [of t]) auto
  qed
  let ?N2 = "N\<lparr>DetachNotification := True\<rparr>"
  let ?s5 = "modify (\<lambda>Ifc. Ifc\<lparr>Nmr := None\<rparr>)
               ((record_call (XdpCleanupProvider (NmrHandle ?N2)) s2)
                  \<lparr>NmrPool := (NmrPool (record_call (XdpCleanupProvider (NmrHandle ?N2)) s2))
                      (p \<mapsto> ?N2\<lparr>NmrHandle := None\<rparr>)\<rparr>)"
  have N5: "NmrPool ?s5 p = Some (?N2\<lparr>NmrHandle := None\<rparr>)" by simp
  have run: "XdpIfpCloseNmrInterface s = XdpIfpDereferenceNmr p ?s5"
    using p N s2 n2 by (simp add: XdpIfpCloseNmrInterface_def Let_def)
  from c2 obtain cs where cs: "Calls s2 = Calls s @ XdpCloseProvider (NmrHandle N) # cs"
    "detach_notifications cs = []" by auto
  show ?thesis
    unfolding run XdpIfpDereferenceNmr_Some [OF N5]
    using i2 n2 cs by (auto simp: fun_upd_twist)
qed

lemma XdpIfpCloseNmrInterface_frame:
  assumes "XdpIfpCloseNmrInterface s = Some s'"
  shows "Interface s' = (Interface s)\<lparr>Nmr := None\<rparr> \<and>
         (\<exists>cs. Calls s' = Calls s @ cs \<and> detach_notifications cs = [])"
proof -
  from assms obtain p N where "Nmr (Interface s) = Some p" "NmrPool s p = Some N"
    by (auto simp: XdpIfpCloseNmrInterface_def split: bind_splits)
  from XdpIfpCloseNmrInterface_Some [OF this] assms show ?thesis by auto
qed

lemma XdpIfpInvokeCloseInterface_frame:
  "XdpIfpInvokeCloseInterface s = Some s' \<Longrightarrow>
   Interface s' = Interface s \<and> NmrPool s' = NmrPool s \<and>
   (\<exists>cs. Calls s' = Calls s @ cs \<and> detach_notifications cs = [])"
  by (auto simp: XdpIfpInvokeCloseInterface_def split: bind_splits if_splits)

text \<open>
  What \<^verbatim>\<open>XdpIfpCloseInterface\<close> leaves alone, and that it leaves no attachment behind.
\<close>

lemma XdpIfpCloseInterface_frame:
  assumes "XdpIfpCloseInterface s = Some s'"
  shows "ReferenceCount (Interface s') = ReferenceCount (Interface s) \<and>
         ProviderReference (Interface s') = ProviderReference (Interface s) \<and>
         Clients (Interface s') = Clients (Interface s) \<and>
         BindingDeleting (Interface s') = BindingDeleting (Interface s) \<and>
         WorkQueue (Interface s') = WorkQueue (Interface s) \<and>
         Nmr (Interface s') = None \<and> InterfaceContext (Interface s') = None \<and>
         (\<exists>cs. Calls s' = Calls s @ cs \<and> detach_notifications cs = [])"
proof -
  from assms obtain s1 s2 where
    s1: "(if InterfaceContext (Interface s) \<noteq> None then
            Option.bind (XdpIfpInvokeCloseInterface s)
              (\<lambda>t. Some (modify (\<lambda>Ifc. Ifc\<lparr>InterfaceDispatch := None, InterfaceContext := None\<rparr>) t))
          else Some s) = Some s1" and
    s2: "(if Nmr (Interface s1) \<noteq> None then
            Option.bind (XdpIfpCloseNmrInterface s1)
              (\<lambda>t. Some (modify (\<lambda>Ifc. Ifc\<lparr>NmrDeleting := False\<rparr>) t))
          else Some s1) = Some s2" and
    s': "s' = (if BindingDeleting (Interface s2) \<and> XdpIfInterfaceContext (Interface s2) \<noteq> None
               then modify (\<lambda>Ifc. Ifc\<lparr>XdpIfInterfaceContext := None\<rparr>)
                      (record_call
                         (RemoveInterfaceComplete_call (XdpIfInterfaceContext (Interface s2))) s2)
               else s2)"
    by (auto simp: XdpIfpCloseInterface_def split: bind_splits)
  from s1 have f1: "ReferenceCount (Interface s1) = ReferenceCount (Interface s) \<and>
         ProviderReference (Interface s1) = ProviderReference (Interface s) \<and>
         Clients (Interface s1) = Clients (Interface s) \<and>
         BindingDeleting (Interface s1) = BindingDeleting (Interface s) \<and>
         WorkQueue (Interface s1) = WorkQueue (Interface s) \<and>
         InterfaceContext (Interface s1) = None \<and>
         (\<exists>cs. Calls s1 = Calls s @ cs \<and> detach_notifications cs = [])"
    by (auto split: if_splits bind_splits dest!: XdpIfpInvokeCloseInterface_frame)
  from s2 have f2: "ReferenceCount (Interface s2) = ReferenceCount (Interface s1) \<and>
         ProviderReference (Interface s2) = ProviderReference (Interface s1) \<and>
         Clients (Interface s2) = Clients (Interface s1) \<and>
         BindingDeleting (Interface s2) = BindingDeleting (Interface s1) \<and>
         WorkQueue (Interface s2) = WorkQueue (Interface s1) \<and>
         InterfaceContext (Interface s2) = InterfaceContext (Interface s1) \<and>
         Nmr (Interface s2) = None \<and>
         (\<exists>cs. Calls s2 = Calls s1 @ cs \<and> detach_notifications cs = [])"
    by (auto split: if_splits bind_splits dest!: XdpIfpCloseNmrInterface_frame)
  from f1 f2 s' show ?thesis by auto
qed

lemma deref_binding_detach [simp]:
  "detach_notifications (Calls (deref_binding s)) = detach_notifications (Calls s)"
  by (simp add: deref_binding_Calls split: option.splits)

lemma deref_binding_no_close [simp]:
  "XdpCloseProvider h \<in> set (Calls (deref_binding s)) = (XdpCloseProvider h \<in> set (Calls s))"
  "CloseInterface_call c \<in> set (Calls (deref_binding s)) = (CloseInterface_call c \<in> set (Calls s))"
  by (simp_all add: deref_binding_Calls split: option.splits)

lemma XdpIfpStartRundown_loop_effects:
  "Clients (Interface (XdpIfpStartRundown_loop s)) = [] \<and>
   ReferenceCount (Interface (XdpIfpStartRundown_loop s)) =
     ReferenceCount (Interface s) - of_nat (length (Clients (Interface s))) \<and>
   detach_notifications (Calls (XdpIfpStartRundown_loop s)) =
     detach_notifications (Calls s) @ map Link (Clients (Interface s)) \<and>
   NmrPool (XdpIfpStartRundown_loop s) = NmrPool s \<and>
   Nmr (Interface (XdpIfpStartRundown_loop s)) = Nmr (Interface s) \<and>
   InterfaceContext (Interface (XdpIfpStartRundown_loop s)) = InterfaceContext (Interface s) \<and>
   ProviderReference (Interface (XdpIfpStartRundown_loop s)) = ProviderReference (Interface s) \<and>
   (\<forall>h. XdpCloseProvider h \<in> set (Calls (XdpIfpStartRundown_loop s)) \<longleftrightarrow>
        XdpCloseProvider h \<in> set (Calls s)) \<and>
   (\<forall>c. CloseInterface_call c \<in> set (Calls (XdpIfpStartRundown_loop s)) \<longleftrightarrow>
        CloseInterface_call c \<in> set (Calls s))"
proof (induction s rule: XdpIfpStartRundown_loop.induct)
  case (1 s)
  show ?case
  proof (cases "Clients (Interface s)")
    case Nil
    then show ?thesis
      by (subst (1 2 3 4 5 6 7 8 9) XdpIfpStartRundown_loop.simps) simp
  next
    case (Cons ClientEntry rest)
    from "1.IH" [OF Cons] Cons show ?thesis
      by (subst (1 2 3 4 5 6 7 8 9) XdpIfpStartRundown_loop.simps) (simp add: algebra_simps)
  qed
qed

lemma XdpIfpStartRundown_loop_Calls:
  "\<exists>cs. Calls (XdpIfpStartRundown_loop s) = Calls s @ cs"
proof (induction s rule: XdpIfpStartRundown_loop.induct)
  case (1 s)
  show ?case
  proof (cases "Clients (Interface s)")
    case Nil
    then show ?thesis by (subst XdpIfpStartRundown_loop.simps) simp
  next
    case (Cons ClientEntry rest)
    from "1.IH" [OF Cons] Cons show ?thesis
      by (subst XdpIfpStartRundown_loop.simps) (auto simp: deref_binding_Calls)
  qed
qed

lemma detach_prefix:
  "\<exists>cs. Calls s' = Calls s @ cs \<and> detach_notifications cs = [] \<Longrightarrow>
   detach_notifications (Calls s') = detach_notifications (Calls s)"
  by auto

lemma XdpIfpCloseInterface_defined:
  assumes d: "InterfaceContext (Interface s) \<noteq> None \<longrightarrow> InterfaceDispatch (Interface s) \<noteq> None"
    and n: "\<forall>p. Nmr (Interface s) = Some p \<longrightarrow> NmrPool s p \<noteq> None"
  shows "\<exists>s'. XdpIfpCloseInterface s = Some s' \<and>
           (\<forall>p N. Nmr (Interface s) = Some p \<and> NmrPool s p = Some N \<longrightarrow>
              XdpCloseProvider (NmrHandle N) \<in> set (drop (length (Calls s)) (Calls s')) \<and>
              NmrPool s' =
                (if NmrReferenceCount N = 1 then (NmrPool s)(p := None)
                 else (NmrPool s)(p \<mapsto> \<lparr>NmrHandle = None, DetachNotification = True,
                                        NmrReferenceCount = NmrReferenceCount N - 1\<rparr>))) \<and>
           (Nmr (Interface s) = None \<longrightarrow> NmrPool s' = NmrPool s)"
proof -
  obtain s1 where
    s1: "(if InterfaceContext (Interface s) \<noteq> None then
            Option.bind (XdpIfpInvokeCloseInterface s)
              (\<lambda>t. Some (modify (\<lambda>Ifc. Ifc\<lparr>InterfaceDispatch := None, InterfaceContext := None\<rparr>) t))
          else Some s) = Some s1"
    and n1: "Nmr (Interface s1) = Nmr (Interface s)" and p1: "NmrPool s1 = NmrPool s"
    and c1: "\<exists>cs. Calls s1 = Calls s @ cs"
  proof (cases "InterfaceContext (Interface s) = None")
    case True
    then show ?thesis by (intro that [of s]) auto
  next
    case False
    with d obtain D where D: "InterfaceDispatch (Interface s) = Some D" by auto
    let ?t = "if CloseInterface D then
                record_call (CloseInterface_call (InterfaceContext (Interface s))) s else s"
    have "XdpIfpInvokeCloseInterface s = Some ?t"
      using D by (simp add: XdpIfpInvokeCloseInterface_def)
    with False show ?thesis
      by (intro that [of "modify (\<lambda>Ifc. Ifc\<lparr>InterfaceDispatch := None,
            InterfaceContext := None\<rparr>) ?t"]) auto
  qed
  obtain s2 where
    s2: "(if Nmr (Interface s1) \<noteq> None then
            Option.bind (XdpIfpCloseNmrInterface s1)
              (\<lambda>t. Some (modify (\<lambda>Ifc. Ifc\<lparr>NmrDeleting := False\<rparr>) t))
          else Some s1) = Some s2"
    and c2: "\<exists>cs. Calls s2 = Calls s1 @ cs \<and>
               (\<forall>p N. Nmr (Interface s) = Some p \<and> NmrPool s p = Some N \<longrightarrow>
                  XdpCloseProvider (NmrHandle N) \<in> set cs)"
    and p2: "\<forall>p N. Nmr (Interface s) = Some p \<and> NmrPool s p = Some N \<longrightarrow>
               NmrPool s2 =
                (if NmrReferenceCount N = 1 then (NmrPool s)(p := None)
                 else (NmrPool s)(p \<mapsto> \<lparr>NmrHandle = None, DetachNotification = True,
                                        NmrReferenceCount = NmrReferenceCount N - 1\<rparr>))"
    and q2: "Nmr (Interface s) = None \<longrightarrow> NmrPool s2 = NmrPool s"
  proof (cases "Nmr (Interface s1)")
    case None
    with n1 p1 show ?thesis by (intro that [of s1]) auto
  next
    case (Some p)
    with n n1 have "NmrPool s p \<noteq> None" by simp
    with p1 obtain N where N: "NmrPool s1 p = Some N" by auto
    from XdpIfpCloseNmrInterface_Some [OF Some N] obtain t cs where
      t: "XdpIfpCloseNmrInterface s1 = Some t"
      "Calls t = Calls s1 @ XdpCloseProvider (NmrHandle N) # cs"
      "NmrPool t =
         (if NmrReferenceCount N = 1 then (NmrPool s1)(p := None)
          else (NmrPool s1)(p \<mapsto> \<lparr>NmrHandle = None, DetachNotification = True,
                                  NmrReferenceCount = NmrReferenceCount N - 1\<rparr>))"
      by auto
    with Some N n1 p1 show ?thesis
      by (intro that [of "modify (\<lambda>Ifc. Ifc\<lparr>NmrDeleting := False\<rparr>) t"]) auto
  qed
  let ?s' = "if BindingDeleting (Interface s2) \<and> XdpIfInterfaceContext (Interface s2) \<noteq> None
             then modify (\<lambda>Ifc. Ifc\<lparr>XdpIfInterfaceContext := None\<rparr>)
                    (record_call
                       (RemoveInterfaceComplete_call (XdpIfInterfaceContext (Interface s2))) s2)
             else s2"
  have run: "XdpIfpCloseInterface s = Some ?s'"
    using s1 s2 by (simp add: XdpIfpCloseInterface_def)
  from c1 c2 obtain cs1 cs2 where
    cs: "Calls s1 = Calls s @ cs1" "Calls s2 = Calls s1 @ cs2"
    "\<forall>p N. Nmr (Interface s) = Some p \<and> NmrPool s p = Some N \<longrightarrow>
       XdpCloseProvider (NmrHandle N) \<in> set cs2" by auto
  have pool: "NmrPool ?s' = NmrPool s2" by simp
  show ?thesis
    unfolding run using cs p2 q2 pool by auto
qed

lemma XdpIfpOpenInterface_Exit_frame:
  assumes "XdpIfpOpenInterface_Exit Status s = Some (St, s')"
  shows "St = Status \<and> ProviderReference (Interface s') = ProviderReference (Interface s)"
  using assms
  by (auto simp: XdpIfpOpenInterface_Exit_def Let_def
      split: if_splits option.splits bind_splits dest!: XdpIfpCloseInterface_frame)

lemma RtlEqualMemory_iff: "RtlEqualMemory a b n = (\<forall>i<n. a i = b i)"
  by (auto simp: RtlEqualMemory_def list_all_iff)

lemma XdpIfRegisterClient_scan_iff:
  "XdpIfRegisterClient_scan cs NewClient k =
     (\<exists>c \<in> set cs. ClientId (Client c) = ClientId NewClient \<and>
        (\<forall>i < unat (KeySize NewClient). Key c i = k i))"
  by (induction cs) (auto simp: RtlEqualMemory_iff)

lemmas ex_defs = ex_consts_def ex_binding_def ex_interface_def ex_caps_def ex_caps_ex_def
  ex_versions_def ex_provider_def ex_provider_refusing_def ex_provider_absent_def
  ex_get_dispatch_def ex_dispatch_def ex_client_def ex_entry_A_def ex_entry_B_def
  ex_open_def ex_open_interface_def ex_nmr_def ex_busy_def

lemmas binding_defs = XdpIfpOpenInterface_def XdpIfpOpenInterface_Exit_def
  XdpRequestClientDispatch_def XdpVersionIsSupported_def XdpIfpInvokeOpenInterface_def
  XdpIfpCloseInterface_def XdpIfpCloseNmrInterface_def XdpIfpInvokeCloseInterface_def
  XdpIfpDetachNmrInterface_def XdpIfpDereferenceNmr_def XdpIfpReferenceProvider_def
  XdpIfpDereferenceProvider_def XdpIfpInvokeCreateRxQueue_def XdpIfpInvokeCreateTxQueue_def
  XdpIfCreateRxQueue_def XdpIfCreateTxQueue_def Rundown_def deref_binding_Calls

section \<open>Hook support and the walk over the sets\<close>

lemma ex_from_iff:
  "(\<exists>j. n \<le> j \<and> j < m \<and> P j) = (n < m \<and> (P n \<or> (\<exists>j. Suc n \<le> j \<and> j < m \<and> P j)))"
proof
  assume "\<exists>j. n \<le> j \<and> j < m \<and> P j"
  then obtain j where j: "n \<le> j" "j < m" "P j" by blast
  show "n < m \<and> (P n \<or> (\<exists>j. Suc n \<le> j \<and> j < m \<and> P j))"
  proof (cases "j = n")
    case True
    with j show ?thesis by simp
  next
    case False
    with j have "Suc n \<le> j" "n < m" by simp_all
    with j show ?thesis by blast
  qed
next
  assume r: "n < m \<and> (P n \<or> (\<exists>j. Suc n \<le> j \<and> j < m \<and> P j))"
  show "\<exists>j. n \<le> j \<and> j < m \<and> P j"
  proof (cases "P n")
    case True
    with r show ?thesis by blast
  next
    case False
    with r obtain j where "Suc n \<le> j" "j < m" "P j" by blast
    then have "n \<le> j \<and> j < m \<and> P j" by simp
    then show ?thesis ..
  qed
qed

lemma all_from_iff:
  "(\<forall>j. n \<le> j \<and> j < m \<longrightarrow> P j) = (n < m \<longrightarrow> P n \<and> (\<forall>j. Suc n \<le> j \<and> j < m \<longrightarrow> P j))"
  using ex_from_iff [of n m "\<lambda>j. \<not> P j"] by blast

lemma XdpIfSupportsHookId_loop_iff:
  "XdpIfSupportsHookId_loop Caps Target i =
     (\<exists>j. unat i \<le> j \<and> j < unat (HookCount Caps) \<and>
          Layer Target = Layer (Hooks Caps j) \<and> Direction Target = Direction (Hooks Caps j) \<and>
          SubLayer Target = SubLayer (Hooks Caps j))"
proof (induction Caps Target i rule: XdpIfSupportsHookId_loop.induct)
  case (1 Caps Target i)
  show ?case
  proof (cases "i < HookCount Caps")
    case False
    then show ?thesis
      by (subst XdpIfSupportsHookId_loop.simps) (auto simp: word_less_nat_alt)
  next
    case True
    then have lt: "unat i < unat (HookCount Caps)" by (simp add: word_less_nat_alt)
    show ?thesis
      using "1.IH" [OF True refl] True lt
      by (subst XdpIfSupportsHookId_loop.simps, subst ex_from_iff)
         (auto simp: unat_succ_below Let_def)
  qed
qed

lemma XdpIfpSupportsHookIds_loop_iff:
  "XdpIfpSupportsHookIds_loop Caps TargetIds n i =
     (\<forall>k. unat i \<le> k \<and> k < unat n \<longrightarrow> XdpIfSupportsHookId Caps (TargetIds k))"
proof (induction Caps TargetIds n i rule: XdpIfpSupportsHookIds_loop.induct)
  case (1 Caps TargetIds n i)
  show ?case
  proof (cases "i < n")
    case False
    then show ?thesis
      by (subst XdpIfpSupportsHookIds_loop.simps) (auto simp: word_less_nat_alt)
  next
    case True
    then have lt: "unat i < unat n" by (simp add: word_less_nat_alt)
    show ?thesis
      using "1.IH" [OF True] True lt
      by (subst XdpIfpSupportsHookIds_loop.simps, subst all_from_iff)
         (auto simp: unat_succ_below)
  qed
qed

lemma XdpIfpSupportsHookIds_iff:
  "XdpIfpSupportsHookIds Caps HookIds Count =
     (\<forall>k < unat Count. \<exists>j < unat (HookCount Caps).
        Layer (HookIds k) = Layer (Hooks Caps j) \<and>
        Direction (HookIds k) = Direction (Hooks Caps j) \<and>
        SubLayer (HookIds k) = SubLayer (Hooks Caps j))"
  by (simp add: XdpIfpSupportsHookIds_def XdpIfpSupportsHookIds_loop_iff
      XdpIfSupportsHookId_def XdpIfSupportsHookId_loop_iff)

lemma XdpIfpFindIfSet_walk_find:
  "\<forall>h \<in> set l. P h \<noteq> None \<Longrightarrow>
   XdpIfpFindIfSet_walk P l IfIdx = Some (find (\<lambda>h. SetIfIndex (the (P h)) = IfIdx) l)"
  by (induction l) auto

section \<open>Capability validation: proofs\<close>

lemma XdpValidateCapabilitiesEx_iff:
  "XdpValidateCapabilitiesEx K CapsEx TotalSize =
     (XDP_CAPABILITIES_EX_REVISION_1 K \<le> Revision (Header CapsEx) \<and>
      XDP_SIZEOF_CAPABILITIES_EX_REVISION_1 K \<le> Size (Header CapsEx) \<and>
      unat (DriverApiVersionsOffset CapsEx) +
        unat (DriverApiVersionCount CapsEx) * unat (sizeof_XDP_VERSION K) \<le> unat TotalSize)"
proof -
  let ?n = "DriverApiVersionCount CapsEx" and ?z = "sizeof_XDP_VERSION K"
    and ?o = "DriverApiVersionsOffset CapsEx"
  have T: "unat TotalSize < 2 ^ 32"
    using unsigned_less [of TotalSize, where 'a = nat] by simp
  show ?thesis
  proof (cases "unat ?n * unat ?z < 2 ^ 32")
    case False
    with T show ?thesis
      by (auto simp: XdpValidateCapabilitiesEx_def RtlUInt32Mult_def)
  next
    case m: True
    then have um: "unat (?n * ?z) = unat ?n * unat ?z"
      by (simp add: unat_mult_lem [THEN iffD1])
    show ?thesis
    proof (cases "unat ?o + unat ?n * unat ?z < 2 ^ 32")
      case False
      with T m um show ?thesis
        by (auto simp: XdpValidateCapabilitiesEx_def RtlUInt32Mult_def RtlUInt32Add_def)
    next
      case a: True
      with um have "unat (?o + ?n * ?z) = unat ?o + unat ?n * unat ?z"
        by (simp add: unat_add_lem [THEN iffD1])
      with m a um show ?thesis
        by (auto simp: XdpValidateCapabilitiesEx_def RtlUInt32Mult_def RtlUInt32Add_def
            word_le_nat_alt word_less_nat_alt not_less)
    qed
  qed
qed


lemma XdpIfAddInterfaces_unwind_null:
  "\<forall>d \<in> set ds. HandleCells g (InterfaceHandle d) = None \<Longrightarrow>
   XdpIfAddInterfaces_unwind h ds g = Some g"
  by (induction ds) auto






section \<open>Version negotiation: proofs\<close>

lemma upt_unat_step:
  "(i :: UINT32) < n \<Longrightarrow> [unat i..<unat n] = unat i # [unat (i + 1)..<unat n]"
  by (simp add: unat_succ_below upt_conv_Cons word_less_nat_alt)

lemma upt_unat_done: "\<not> (i :: UINT32) < n \<Longrightarrow> [unat i..<unat n] = []"
  by (simp add: word_less_nat_alt)

lemma XdpRequestClientDispatch_loop_find:
  "l_Status r = STATUS_NOT_SUPPORTED \<Longrightarrow>
   (case find (\<lambda>v. XdpVersionIsSupported Current v \<and> NT_SUCCESS (fst (g v)))
           (map A [unat i..<unat n]) of
      None \<Rightarrow>
        l_Status (XdpRequestClientDispatch_loop Current A n g i r) = STATUS_NOT_SUPPORTED \<and>
        l_DriverApiVersion (XdpRequestClientDispatch_loop Current A n g i r) =
          l_DriverApiVersion r
    | Some v \<Rightarrow>
        XdpRequestClientDispatch_loop Current A n g i r =
          r\<lparr>l_Status := fst (g v), l_InterfaceContext := fst (snd (g v)),
            l_InterfaceDispatch := snd (snd (g v)), l_DriverApiVersion := v\<rparr>)"
proof (induction Current A n g i r rule: XdpRequestClientDispatch_loop.induct)
  case (1 Current A n g i r)
  show ?case
  proof (cases "i < n")
    case False
    with "1.prems" show ?thesis
      by (subst (1 2) XdpRequestClientDispatch_loop.simps) (simp add: upt_unat_done)
  next
    case True
    note step = upt_unat_step [OF True]
    obtain St Ctx Dsp where g: "g (A (unat i)) = (St, Ctx, Dsp)"
      by (cases "g (A (unat i))") auto
    show ?thesis
    proof (cases "XdpVersionIsSupported Current (A (unat i))")
      case False
      from "1.IH"(2) [OF True refl False "1.prems"] True False show ?thesis
        by (subst (1 2 3) XdpRequestClientDispatch_loop.simps)
           (simp add: step split: option.splits)
    next
      case sup: True
      show ?thesis
      proof (cases "NT_SUCCESS St")
        case True
        with \<open>i < n\<close> sup g show ?thesis
          by (subst (1 2 3) XdpRequestClientDispatch_loop.simps) (simp add: step)
      next
        case False
        have "l_Status (r\<lparr>l_Status := STATUS_NOT_SUPPORTED, l_InterfaceContext := Ctx,
                 l_InterfaceDispatch := Dsp\<rparr>) = STATUS_NOT_SUPPORTED"
          by simp
        from "1.IH"(1) [OF True refl sup g [symmetric] refl False this]
        show ?thesis using True sup g False
          by (subst (1 2 3) XdpRequestClientDispatch_loop.simps)
             (simp add: step split: option.splits)
      qed
    qed
  qed
qed

text \<open>
  Claim C2. Version negotiation walks the versions the provider advertises in their order
  and ends at the first one that the current version supports (same major, minor and
  patch not below the candidate's) and for which the provider's dispatch request succeeds:
  the result then carries that request's status, context and dispatch table and records
  that version. A candidate whose request fails does not end the walk. When no candidate
  has both properties the status is \<^verbatim>\<open>STATUS_NOT_SUPPORTED\<close>, a failure, and the recorded
  version is unchanged.
\<close>

theorem XdpRequestClientDispatch_first_acceptable:
  "(case find (\<lambda>v. XdpVersionIsSupported Current v \<and> NT_SUCCESS (fst (GetDispatch v)))
           (map (DriverApiVersions CapsEx) [0..<unat (DriverApiVersionCount CapsEx)]) of
      None \<Rightarrow>
        l_Status (XdpRequestClientDispatch Current CapsEx GetDispatch r) =
          STATUS_NOT_SUPPORTED \<and>
        l_DriverApiVersion (XdpRequestClientDispatch Current CapsEx GetDispatch r) =
          l_DriverApiVersion r
    | Some v \<Rightarrow>
        XdpRequestClientDispatch Current CapsEx GetDispatch r =
          r\<lparr>l_Status := fst (GetDispatch v), l_InterfaceContext := fst (snd (GetDispatch v)),
            l_InterfaceDispatch := snd (snd (GetDispatch v)), l_DriverApiVersion := v\<rparr> \<and>
        NT_SUCCESS (fst (GetDispatch v))) \<and>
   \<not> NT_SUCCESS STATUS_NOT_SUPPORTED \<and>
   XdpVersionIsSupported Current Candidate =
     (Major Current = Major Candidate \<and> Minor Current \<ge> Minor Candidate \<and>
      Patch Current \<ge> Patch Candidate)"
proof -
  let ?P = "\<lambda>v. XdpVersionIsSupported Current v \<and> NT_SUCCESS (fst (GetDispatch v))"
  let ?vs = "map (DriverApiVersions CapsEx) [0..<unat (DriverApiVersionCount CapsEx)]"
  have "l_Status (r\<lparr>l_Status := STATUS_NOT_SUPPORTED\<rparr>) = STATUS_NOT_SUPPORTED"
    by simp
  from XdpRequestClientDispatch_loop_find [OF this, where Current = Current
      and g = GetDispatch and A = "DriverApiVersions CapsEx" and i = 0
      and n = "DriverApiVersionCount CapsEx"]
  have loop: "case find ?P ?vs of
      None \<Rightarrow>
        l_Status (XdpRequestClientDispatch Current CapsEx GetDispatch r) =
          STATUS_NOT_SUPPORTED \<and>
        l_DriverApiVersion (XdpRequestClientDispatch Current CapsEx GetDispatch r) =
          l_DriverApiVersion r
    | Some v \<Rightarrow>
        XdpRequestClientDispatch Current CapsEx GetDispatch r =
          r\<lparr>l_Status := fst (GetDispatch v), l_InterfaceContext := fst (snd (GetDispatch v)),
            l_InterfaceDispatch := snd (snd (GetDispatch v)), l_DriverApiVersion := v\<rparr>"
    by (simp add: XdpRequestClientDispatch_def split: option.splits)
  have ok: "\<And>v. find ?P ?vs = Some v \<Longrightarrow> NT_SUCCESS (fst (GetDispatch v))"
    by (auto simp: find_Some_iff)
  show ?thesis
    using loop ok by (auto simp: XdpVersionIsSupported_def split: option.splits)
qed

lemma upt_3: "[0..<3] = [0, 1, 2]"
  by (simp add: upt_rec)

theorem XdpRequestClientDispatch_first_acceptable_witness:
  "XdpRequestClientDispatch \<lparr>Major = 1, Minor = 2, Patch = 3\<rparr> ex_caps_ex ex_get_dispatch
     ex_locals =
     \<lparr>l_Status = STATUS_SUCCESS, l_InterfaceContext = Some 50,
      l_InterfaceDispatch = Some ex_dispatch,
      l_DriverApiVersion = \<lparr>Major = 1, Minor = 0, Patch = 0\<rparr>\<rparr>"
  using XdpRequestClientDispatch_first_acceptable
    [where Current = "\<lparr>Major = 1, Minor = 2, Patch = 3\<rparr>" and GetDispatch = ex_get_dispatch
      and CapsEx = ex_caps_ex and r = ex_locals]
  by (simp add: ex_caps_ex_def ex_versions_def ex_get_dispatch_def ex_locals_def upt_3
      XdpVersionIsSupported_def)

section \<open>The batch of interfaces: proofs\<close>


lemma status_failure_distinct [simp]:
  "STATUS_NOT_SUPPORTED \<noteq> STATUS_SUCCESS" "STATUS_NO_MEMORY \<noteq> STATUS_SUCCESS"
  "STATUS_NOT_SUPPORTED \<noteq> STATUS_NO_MEMORY"
  by (simp_all add: STATUS_SUCCESS_def STATUS_NOT_SUPPORTED_def STATUS_NO_MEMORY_def)

lemma deref_pool_last:
  "IfPool g p = Some Ifc \<Longrightarrow> ReferenceCount Ifc = 1 \<Longrightarrow> WorkQueue Ifc = Some q \<Longrightarrow>
   deref_pool p g =
     Some (g\<lparr>IfPool := (IfPool g)(p := None),
             RegistryCalls := RegistryCalls g @ [XdpShutdownWorkQueue q, ExFreePoolWithTag_IF]\<rparr>)"
  by (simp add: deref_pool_def XdpIfpDereferenceInterface_def Let_def)

lemma XdpIfAddInterfaces_init_index:
  "SetIfIndex S' = SetIfIndex S \<Longrightarrow>
   XdpIfAddInterfaces_init h S' d = XdpIfAddInterfaces_init h S d"
  by (simp add: XdpIfAddInterfaces_init_def)

lemma XdpIfAddInterfaces_unwind_append:
  "XdpIfAddInterfaces_unwind h (xs @ ys) g =
     XdpIfAddInterfaces_unwind h xs g \<bind> XdpIfAddInterfaces_unwind h ys"
  by (induction xs arbitrary: g) (auto split: option.splits bind_splits)

lemma XdpIfAddInterfaces_loop_append:
  "XdpIfAddInterfaces_loop K A h pre Index g = Some (STATUS_SUCCESS, g1) \<Longrightarrow>
   XdpIfAddInterfaces_loop K A h (pre @ rest) Index g =
     XdpIfAddInterfaces_loop K A h rest (Index + length pre) g1"
proof (induction pre arbitrary: Index g)
  case Nil
  then show ?case by simp
next
  case (Cons d pre)
  from Cons.prems show ?case
    by (auto split: if_splits option.splits bind_splits dest: Cons.IH)
qed

lemma XdpIfAddInterfaces_loop_total:
  assumes "IfSetPool g h \<noteq> None"
    and "\<forall>i<length pre.
           XdpValidateCapabilitiesEx K (CapabilitiesEx (InterfaceCapabilities (pre ! i)))
             (CapabilitiesSize (InterfaceCapabilities (pre ! i))) \<and>
           ExAllocatePoolZero_IF A (Index + i) \<noteq> None \<and>
           XdpCreateWorkQueue A (Index + i) \<noteq> None"
  shows "\<exists>g1. XdpIfAddInterfaces_loop K A h pre Index g = Some (STATUS_SUCCESS, g1)"
  using assms
proof (induction pre arbitrary: Index g)
  case Nil
  then show ?case by simp
next
  case (Cons d pre)
  from Cons.prems(2) [rule_format, of 0]
  have ok: "XdpValidateCapabilitiesEx K (CapabilitiesEx (InterfaceCapabilities d))
              (CapabilitiesSize (InterfaceCapabilities d))"
    "ExAllocatePoolZero_IF A Index \<noteq> None" "XdpCreateWorkQueue A Index \<noteq> None"
    by simp_all
  then obtain p q where pq: "ExAllocatePoolZero_IF A Index = Some p"
    "XdpCreateWorkQueue A Index = Some q" by auto
  from Cons.prems(1) obtain S where S: "IfSetPool g h = Some S" by auto
  have rest: "\<forall>i<length pre.
           XdpValidateCapabilitiesEx K (CapabilitiesEx (InterfaceCapabilities (pre ! i)))
             (CapabilitiesSize (InterfaceCapabilities (pre ! i))) \<and>
           ExAllocatePoolZero_IF A (Suc Index + i) \<noteq> None \<and>
           XdpCreateWorkQueue A (Suc Index + i) \<noteq> None"
  proof (intro allI impI)
    fix i assume "i < length pre"
    then have "Suc i < length (d # pre)" by simp
    from Cons.prems(2) [rule_format, OF this]
    show "XdpValidateCapabilitiesEx K (CapabilitiesEx (InterfaceCapabilities (pre ! i)))
             (CapabilitiesSize (InterfaceCapabilities (pre ! i))) \<and>
           ExAllocatePoolZero_IF A (Suc Index + i) \<noteq> None \<and>
           XdpCreateWorkQueue A (Suc Index + i) \<noteq> None" by simp
  qed
  define gm where "gm = g\<lparr>IfPool := (IfPool g)(p \<mapsto>
                                      (XdpIfAddInterfaces_init h S d)\<lparr>WorkQueue := Some q\<rparr>),
                         IfSetPool := (IfSetPool g)(h \<mapsto>
                           S\<lparr>Interfaces := (Interfaces S)
                                (Mode (InterfaceCapabilities d) := Some p)\<rparr>),
                         HandleCells := (HandleCells g)(InterfaceHandle d := Some p)\<rparr>"
  have "IfSetPool gm h \<noteq> None" by (simp add: gm_def)
  from Cons.IH [OF this rest] obtain g1 where
    "XdpIfAddInterfaces_loop K A h pre (Suc Index) gm = Some (STATUS_SUCCESS, g1)" by auto
  with ok pq S show ?case by (simp add: gm_def)
qed

lemma XdpIfAddInterfaces_loop_Cons_cases:
  assumes "XdpIfAddInterfaces_loop K A h (d # pre) Index g = Some (St, g1)"
  obtains (stop) "g1 = g \<or> g1 = g\<lparr>RegistryCalls := RegistryCalls g @ [ExFreePoolWithTag_IF]\<rparr>"
      "St \<noteq> STATUS_SUCCESS"
  | (step) p q S where "ExAllocatePoolZero_IF A Index = Some p"
      "XdpCreateWorkQueue A Index = Some q" "IfSetPool g h = Some S"
      "XdpIfAddInterfaces_loop K A h pre (Suc Index)
         (g\<lparr>IfPool := (IfPool g)(p \<mapsto> (XdpIfAddInterfaces_init h S d)\<lparr>WorkQueue := Some q\<rparr>),
            IfSetPool := (IfSetPool g)(h \<mapsto>
              S\<lparr>Interfaces := (Interfaces S)(Mode (InterfaceCapabilities d) := Some p)\<rparr>),
            HandleCells := (HandleCells g)(InterfaceHandle d := Some p)\<rparr>) = Some (St, g1)"
  using assms by (auto split: if_splits option.splits bind_splits)

lemma XdpIfAddInterfaces_loop_frame:
  "XdpIfAddInterfaces_loop K A h pre Index g = Some (St, g1) \<Longrightarrow>
   XdpInterfaceSets g1 = XdpInterfaceSets g \<and>
   (St = STATUS_SUCCESS \<longrightarrow> RegistryCalls g1 = RegistryCalls g) \<and>
   (\<forall>h'. h' \<noteq> h \<longrightarrow> IfSetPool g1 h' = IfSetPool g h') \<and>
   (\<forall>c. c \<notin> InterfaceHandle ` set pre \<longrightarrow> HandleCells g1 c = HandleCells g c)"
proof (induction pre arbitrary: Index g)
  case Nil
  then show ?case by simp
next
  case (Cons d pre)
  from Cons.prems show ?case
  proof (cases rule: XdpIfAddInterfaces_loop_Cons_cases)
    case stop
    then show ?thesis by auto
  next
    case (step p q S)
    from Cons.IH [OF step(4)] show ?thesis by simp
  qed
qed

lemma XdpIfAddInterfaces_loop_pool:
  "XdpIfAddInterfaces_loop K A h pre Index g = Some (St, g1) \<Longrightarrow>
   \<forall>i<length pre. ExAllocatePoolZero_IF A (Index + i) \<noteq> Some r \<Longrightarrow>
   IfPool g1 r = IfPool g r"
proof (induction pre arbitrary: Index g)
  case Nil
  then show ?case by simp
next
  case (Cons d pre)
  from Cons.prems(1) show ?case
  proof (cases rule: XdpIfAddInterfaces_loop_Cons_cases)
    case stop
    then show ?thesis by auto
  next
    case (step p q S)
    from Cons.prems(2) [rule_format, of 0] step(1) have ne: "p \<noteq> r" by auto
    have "\<forall>i<length pre. ExAllocatePoolZero_IF A (Suc Index + i) \<noteq> Some r"
    proof (intro allI impI)
      fix i assume "i < length pre"
      then have "Suc i < length (d # pre)" by simp
      from Cons.prems(2) [rule_format, OF this]
      show "ExAllocatePoolZero_IF A (Suc Index + i) \<noteq> Some r" by simp
    qed
    from Cons.IH [OF step(4) this] ne show ?thesis by simp
  qed
qed

lemma XdpIfAddInterfaces_loop_set:
  "XdpIfAddInterfaces_loop K A h pre Index g = Some (St, g1) \<Longrightarrow> IfSetPool g h = Some S \<Longrightarrow>
   \<exists>S1. IfSetPool g1 h = Some S1 \<and> SetIfIndex S1 = SetIfIndex S \<and>
     XdpIfInterfaceSetContext S1 = XdpIfInterfaceSetContext S \<and>
     (\<forall>m. m \<notin> (\<lambda>d. Mode (InterfaceCapabilities d)) ` set pre \<longrightarrow>
        Interfaces S1 m = Interfaces S m)"
proof (induction pre arbitrary: Index g S)
  case Nil
  then show ?case by simp
next
  case (Cons d pre)
  from Cons.prems(1) show ?case
  proof (cases rule: XdpIfAddInterfaces_loop_Cons_cases)
    case stop
    with Cons.prems(2) show ?thesis by auto
  next
    case (step p q S')
    with Cons.prems(2) have S': "S' = S" by simp
    have "IfSetPool (g\<lparr>IfPool := (IfPool g)(p \<mapsto> (XdpIfAddInterfaces_init h S' d)\<lparr>WorkQueue := Some q\<rparr>),
            IfSetPool := (IfSetPool g)(h \<mapsto>
              S'\<lparr>Interfaces := (Interfaces S')(Mode (InterfaceCapabilities d) := Some p)\<rparr>),
            HandleCells := (HandleCells g)(InterfaceHandle d := Some p)\<rparr>) h =
          Some (S'\<lparr>Interfaces := (Interfaces S')(Mode (InterfaceCapabilities d) := Some p)\<rparr>)"
      by simp
    from Cons.IH [OF step(4) this] S' show ?thesis by auto
  qed
qed

lemma XdpIfAddInterfaces_loop_created:
  assumes "XdpIfAddInterfaces_loop K A h pre Index g = Some (STATUS_SUCCESS, g1)"
    and "IfSetPool g h = Some S"
    and "distinct (map InterfaceHandle pre)"
    and "\<forall>i<length pre. \<forall>j<length pre.
           ExAllocatePoolZero_IF A (Index + i) = ExAllocatePoolZero_IF A (Index + j) \<longrightarrow> i = j"
    and "i < length pre"
  shows "\<exists>p q. ExAllocatePoolZero_IF A (Index + i) = Some p \<and>
           XdpCreateWorkQueue A (Index + i) = Some q \<and>
           HandleCells g1 (InterfaceHandle (pre ! i)) = Some p \<and>
           IfPool g1 p = Some ((XdpIfAddInterfaces_init h S (pre ! i))\<lparr>WorkQueue := Some q\<rparr>)"
  using assms
proof (induction pre arbitrary: Index g S i)
  case Nil
  then show ?case by simp
next
  case (Cons d pre)
  from Cons.prems(1) show ?case
  proof (cases rule: XdpIfAddInterfaces_loop_Cons_cases)
    case stop
    then show ?thesis by auto
  next
    case (step p q S')
    with Cons.prems(2) have S': "S' = S" by simp
    define gm where "gm = g\<lparr>IfPool := (IfPool g)(p \<mapsto> (XdpIfAddInterfaces_init h S d)\<lparr>WorkQueue := Some q\<rparr>),
            IfSetPool := (IfSetPool g)(h \<mapsto>
              S\<lparr>Interfaces := (Interfaces S)(Mode (InterfaceCapabilities d) := Some p)\<rparr>),
            HandleCells := (HandleCells g)(InterfaceHandle d := Some p)\<rparr>"
    from step(4) S' have run: "XdpIfAddInterfaces_loop K A h pre (Suc Index) gm =
      Some (STATUS_SUCCESS, g1)" by (simp add: gm_def)
    have inj: "\<forall>i<length pre. \<forall>j<length pre.
           ExAllocatePoolZero_IF A (Suc Index + i) = ExAllocatePoolZero_IF A (Suc Index + j) \<longrightarrow>
           i = j"
    proof (intro allI impI)
      fix i j assume "i < length pre" "j < length pre"
        and "ExAllocatePoolZero_IF A (Suc Index + i) = ExAllocatePoolZero_IF A (Suc Index + j)"
      with Cons.prems(4) [rule_format, of "Suc i" "Suc j"] show "i = j" by simp
    qed
    show ?thesis
    proof (cases i)
      case 0
      from Cons.prems(3) have "InterfaceHandle d \<notin> InterfaceHandle ` set pre" by simp
      with XdpIfAddInterfaces_loop_frame [OF run]
      have cell: "HandleCells g1 (InterfaceHandle d) = Some p" by (simp add: gm_def)
      have "\<forall>j<length pre. ExAllocatePoolZero_IF A (Suc Index + j) \<noteq> Some p"
      proof (intro allI impI)
        fix j assume "j < length pre"
        with Cons.prems(4) [rule_format, of 0 "Suc j"] step(1)
        show "ExAllocatePoolZero_IF A (Suc Index + j) \<noteq> Some p" by auto
      qed
      from XdpIfAddInterfaces_loop_pool [OF run this]
      have "IfPool g1 p = Some ((XdpIfAddInterfaces_init h S d)\<lparr>WorkQueue := Some q\<rparr>)"
        by (simp add: gm_def)
      with 0 step(1,2) cell show ?thesis by simp
    next
      case (Suc i')
      with Cons.prems(5) have i': "i' < length pre" by simp
      have set: "IfSetPool gm h =
        Some (S\<lparr>Interfaces := (Interfaces S)(Mode (InterfaceCapabilities d) := Some p)\<rparr>)"
        by (simp add: gm_def)
      from Cons.prems(3) have "distinct (map InterfaceHandle pre)" by simp
      from Cons.IH [OF run set this inj i'] Suc show ?thesis
        by (simp add: XdpIfAddInterfaces_init_def)
    qed
  qed
qed

lemma XdpIfAddInterfaces_unwind_created:
  assumes "IfSetPool g h = Some S"
    and "distinct (map InterfaceHandle pre)"
    and "\<forall>d \<in> set pre. \<exists>p Ifc q. HandleCells g (InterfaceHandle d) = Some p \<and>
           IfPool g p = Some Ifc \<and> ReferenceCount Ifc = 1 \<and> WorkQueue Ifc = Some q \<and>
           Mode (Capabilities Ifc) = Mode (InterfaceCapabilities d)"
    and "\<forall>d \<in> set pre. \<forall>d' \<in> set pre.
           HandleCells g (InterfaceHandle d) = HandleCells g (InterfaceHandle d') \<longrightarrow>
           InterfaceHandle d = InterfaceHandle d'"
  shows "\<exists>g'. XdpIfAddInterfaces_unwind h pre g = Some g' \<and>
     XdpInterfaceSets g' = XdpInterfaceSets g \<and>
     (\<forall>r. IfPool g' r =
        (if Some r \<in> (\<lambda>d. HandleCells g (InterfaceHandle d)) ` set pre then None
         else IfPool g r)) \<and>
     (\<forall>c. HandleCells g' c =
        (if c \<in> InterfaceHandle ` set pre then None else HandleCells g c)) \<and>
     (\<forall>h'. h' \<noteq> h \<longrightarrow> IfSetPool g' h' = IfSetPool g h') \<and>
     IfSetPool g' h =
       Some (S\<lparr>Interfaces := (\<lambda>m. if m \<in> (\<lambda>d. Mode (InterfaceCapabilities d)) ` set pre
                                  then None else Interfaces S m)\<rparr>) \<and>
     RegistryCalls g' = RegistryCalls g @
       concat (map (\<lambda>d. [XdpShutdownWorkQueue
          (the (WorkQueue (the (IfPool g (the (HandleCells g (InterfaceHandle d))))))),
          ExFreePoolWithTag_IF]) pre)"
  using assms
proof (induction pre arbitrary: g S)
  case Nil
  then show ?case by simp
next
  case (Cons d pre)
  from Cons.prems(3) obtain p Ifc q where
    cell: "HandleCells g (InterfaceHandle d) = Some p" and pool: "IfPool g p = Some Ifc"
    and one: "ReferenceCount Ifc = 1" and wq: "WorkQueue Ifc = Some q"
    and mode: "Mode (Capabilities Ifc) = Mode (InterfaceCapabilities d)"
    by auto
  define S1 where "S1 = S\<lparr>Interfaces := (Interfaces S)(Mode (InterfaceCapabilities d) := None)\<rparr>"
  define gm where "gm = g\<lparr>IfSetPool := (IfSetPool g)(h \<mapsto> S1),
    HandleCells := (HandleCells g)(InterfaceHandle d := None)\<rparr>"
  define g1 where "g1 = gm\<lparr>IfPool := (IfPool g)(p := None),
    RegistryCalls := RegistryCalls g @ [XdpShutdownWorkQueue q, ExFreePoolWithTag_IF]\<rparr>"
  have "IfPool gm p = Some Ifc" using pool by (simp add: gm_def)
  from deref_pool_last [OF this one wq] have d1: "deref_pool p gm = Some g1"
    by (simp add: g1_def gm_def)
  from cell pool Cons.prems(1) d1 mode
  have unfold: "XdpIfAddInterfaces_unwind h (d # pre) g = XdpIfAddInterfaces_unwind h pre g1"
    by (simp add: gm_def S1_def)
  from Cons.prems(2) have notin: "InterfaceHandle d \<notin> InterfaceHandle ` set pre"
    and dist: "distinct (map InterfaceHandle pre)" by simp_all
  have cells1: "HandleCells g1 (InterfaceHandle d') = HandleCells g (InterfaceHandle d')"
    if "d' \<in> set pre" for d'
    using that notin by (auto simp: g1_def gm_def image_iff)
  have ne: "HandleCells g (InterfaceHandle d') \<noteq> Some p" if "d' \<in> set pre" for d'
  proof
    assume "HandleCells g (InterfaceHandle d') = Some p"
    with cell Cons.prems(4) [rule_format, of d d'] that
    have "InterfaceHandle d = InterfaceHandle d'" by simp
    with notin that show False by auto
  qed
  have set1: "IfSetPool g1 h = Some S1" by (simp add: g1_def gm_def)
  have live1: "\<forall>d \<in> set pre. \<exists>p Ifc q. HandleCells g1 (InterfaceHandle d) = Some p \<and>
           IfPool g1 p = Some Ifc \<and> ReferenceCount Ifc = 1 \<and> WorkQueue Ifc = Some q \<and>
           Mode (Capabilities Ifc) = Mode (InterfaceCapabilities d)"
  proof
    fix d' assume d': "d' \<in> set pre"
    with Cons.prems(3) obtain p' Ifc' q' where
      a: "HandleCells g (InterfaceHandle d') = Some p'" "IfPool g p' = Some Ifc'"
      "ReferenceCount Ifc' = 1" "WorkQueue Ifc' = Some q'"
      "Mode (Capabilities Ifc') = Mode (InterfaceCapabilities d')" by fastforce
    from ne [OF d'] a(1) have "p' \<noteq> p" by auto
    then have "IfPool g1 p' = Some Ifc'" using a(2) by (simp add: g1_def gm_def)
    with a cells1 [OF d']
    show "\<exists>p Ifc q. HandleCells g1 (InterfaceHandle d') = Some p \<and>
           IfPool g1 p = Some Ifc \<and> ReferenceCount Ifc = 1 \<and> WorkQueue Ifc = Some q \<and>
           Mode (Capabilities Ifc) = Mode (InterfaceCapabilities d')" by simp
  qed
  have inj1: "\<forall>d \<in> set pre. \<forall>d' \<in> set pre.
           HandleCells g1 (InterfaceHandle d) = HandleCells g1 (InterfaceHandle d') \<longrightarrow>
           InterfaceHandle d = InterfaceHandle d'"
    using Cons.prems(4) cells1 by simp
  from Cons.IH [OF set1 dist live1 inj1] obtain g' where
    run: "XdpIfAddInterfaces_unwind h pre g1 = Some g'"
    and sets: "XdpInterfaceSets g' = XdpInterfaceSets g1"
    and pool': "\<And>r. IfPool g' r =
        (if Some r \<in> (\<lambda>d. HandleCells g1 (InterfaceHandle d)) ` set pre then None
         else IfPool g1 r)"
    and cells': "\<And>c. HandleCells g' c =
        (if c \<in> InterfaceHandle ` set pre then None else HandleCells g1 c)"
    and others': "\<And>h'. h' \<noteq> h \<Longrightarrow> IfSetPool g' h' = IfSetPool g1 h'"
    and set': "IfSetPool g' h =
       Some (S1\<lparr>Interfaces := (\<lambda>m. if m \<in> (\<lambda>d. Mode (InterfaceCapabilities d)) ` set pre
                                  then None else Interfaces S1 m)\<rparr>)"
    and calls': "RegistryCalls g' = RegistryCalls g1 @
       concat (map (\<lambda>d. [XdpShutdownWorkQueue
          (the (WorkQueue (the (IfPool g1 (the (HandleCells g1 (InterfaceHandle d))))))),
          ExFreePoolWithTag_IF]) pre)"
    by blast
  have img: "(\<lambda>d. HandleCells g1 (InterfaceHandle d)) ` set pre =
             (\<lambda>d. HandleCells g (InterfaceHandle d)) ` set pre"
    using cells1 by (intro image_cong) simp_all
  have pool'': "IfPool g' r =
        (if Some r \<in> (\<lambda>d. HandleCells g (InterfaceHandle d)) ` set pre then None
         else IfPool g1 r)" for r
    by (simp only: pool' img)
  have c1: "XdpInterfaceSets g' = XdpInterfaceSets g" using sets by (simp add: g1_def gm_def)
  have c2: "IfPool g' r =
        (if Some r \<in> (\<lambda>d. HandleCells g (InterfaceHandle d)) ` set (d # pre) then None
         else IfPool g r)" for r
  proof (cases "r = p")
    case True
    have "Some p \<notin> (\<lambda>d. HandleCells g (InterfaceHandle d)) ` set pre"
    proof
      assume "Some p \<in> (\<lambda>d. HandleCells g (InterfaceHandle d)) ` set pre"
      then obtain d' where "d' \<in> set pre" "HandleCells g (InterfaceHandle d') = Some p"
        by auto
      with ne show False by blast
    qed
    with True cell show ?thesis by (simp add: pool'' g1_def gm_def)
  next
    case False
    with cell show ?thesis by (simp add: pool'' g1_def gm_def)
  qed
  have c3: "HandleCells g' c =
        (if c \<in> InterfaceHandle ` set (d # pre) then None else HandleCells g c)" for c
    by (simp add: cells' g1_def gm_def)
  have c4: "IfSetPool g' h' = IfSetPool g h'" if "h' \<noteq> h" for h'
    using others' [OF that] that by (simp add: g1_def gm_def)
  have "(\<lambda>m. if m \<in> (\<lambda>d. Mode (InterfaceCapabilities d)) ` set pre
                                  then None else Interfaces S1 m) =
        (\<lambda>m. if m \<in> (\<lambda>d. Mode (InterfaceCapabilities d)) ` set (d # pre)
                                  then None else Interfaces S m)"
    by (auto simp: S1_def fun_eq_iff)
  with set' have c5: "IfSetPool g' h =
       Some (S\<lparr>Interfaces := (\<lambda>m. if m \<in> (\<lambda>d. Mode (InterfaceCapabilities d)) ` set (d # pre)
                                  then None else Interfaces S m)\<rparr>)"
    by (simp add: S1_def)
  have "map (\<lambda>d. [XdpShutdownWorkQueue
          (the (WorkQueue (the (IfPool g1 (the (HandleCells g1 (InterfaceHandle d))))))),
          ExFreePoolWithTag_IF]) pre =
        map (\<lambda>d. [XdpShutdownWorkQueue
          (the (WorkQueue (the (IfPool g (the (HandleCells g (InterfaceHandle d))))))),
          ExFreePoolWithTag_IF]) pre"
  proof (rule map_cong [OF refl])
    fix d' assume d': "d' \<in> set pre"
    with Cons.prems(3) obtain p' where
      a: "HandleCells g (InterfaceHandle d') = Some p'" by fastforce
    from ne [OF d'] a have "p' \<noteq> p" by auto
    then have "IfPool g1 p' = IfPool g p'" by (simp add: g1_def gm_def)
    with a cells1 [OF d']
    show "[XdpShutdownWorkQueue
          (the (WorkQueue (the (IfPool g1 (the (HandleCells g1 (InterfaceHandle d'))))))),
          ExFreePoolWithTag_IF] =
        [XdpShutdownWorkQueue
          (the (WorkQueue (the (IfPool g (the (HandleCells g (InterfaceHandle d'))))))),
          ExFreePoolWithTag_IF]" by simp
  qed
  with calls' have "RegistryCalls g' = RegistryCalls g1 @
       concat (map (\<lambda>d. [XdpShutdownWorkQueue
          (the (WorkQueue (the (IfPool g (the (HandleCells g (InterfaceHandle d))))))),
          ExFreePoolWithTag_IF]) pre)"
    by (simp only:)
  with cell pool wq have c6: "RegistryCalls g' = RegistryCalls g @
       concat (map (\<lambda>d. [XdpShutdownWorkQueue
          (the (WorkQueue (the (IfPool g (the (HandleCells g (InterfaceHandle d))))))),
          ExFreePoolWithTag_IF]) (d # pre))"
    by (simp add: g1_def gm_def)
  from unfold run c1 c2 c3 c4 c5 c6 show ?case by simp
qed

lemma XdpIfFindAndReferenceBinding_live:
  "XdpIfFindAndReferenceBinding g IfIdx HookIds Count RequiredMode = Some (Some p, r) \<Longrightarrow>
   IfPool g p \<noteq> None"
  by (auto simp: XdpIfFindAndReferenceBinding_def ref_pool_def split: bind_splits option.splits)

text \<open>
  Claim C3, as amended. \<^verbatim>\<open>XdpIfAddInterfaces\<close> is atomic across a batch whose out handles
  are distinct locations that hold \<^verbatim>\<open>NULL\<close> at entry. Let the set handle be valid, the out
  handle cells of the descriptors be distinct locations holding \<^verbatim>\<open>NULL\<close> at entry, and
  let \<open>k\<close> be the first descriptor for which validation, \<^verbatim>\<open>ExAllocatePoolZero\<close> or
  \<^verbatim>\<open>XdpCreateWorkQueue\<close> fails, the allocations before it returning distinct addresses that
  are not in use. Then the call returns, with the status of that first failure
  (\<^verbatim>\<open>STATUS_NOT_SUPPORTED\<close> for the validation, \<^verbatim>\<open>STATUS_NO_MEMORY\<close> otherwise); every
  binding created for the descriptors before \<open>k\<close> is dereferenced, which shuts its work queue
  down and frees it, so that the pool of bindings is what it was before the call; the mode
  slots of those bindings are \<^verbatim>\<open>NULL\<close> and the other slots, the other sets and the list of
  sets are unchanged; every out handle of the batch is \<^verbatim>\<open>NULL\<close> and no other handle cell
  changed; and whatever \<^verbatim>\<open>XdpIfFindAndReferenceBinding\<close> returns afterwards is a binding that
  existed before the call, never one allocated for the batch.
\<close>

theorem XdpIfAddInterfaces_atomic:
  assumes "IfSetPool g h = Some S"
    and "distinct (map InterfaceHandle ds)"
    and "\<forall>d \<in> set ds. HandleCells g (InterfaceHandle d) = None"
    and "k < length ds"
    and "\<forall>i<k. XdpValidateCapabilitiesEx K (CapabilitiesEx (InterfaceCapabilities (ds ! i)))
                  (CapabilitiesSize (InterfaceCapabilities (ds ! i))) \<and>
                ExAllocatePoolZero_IF A i \<noteq> None \<and> XdpCreateWorkQueue A i \<noteq> None"
    and "\<not> (XdpValidateCapabilitiesEx K (CapabilitiesEx (InterfaceCapabilities (ds ! k)))
               (CapabilitiesSize (InterfaceCapabilities (ds ! k))) \<and>
             ExAllocatePoolZero_IF A k \<noteq> None \<and> XdpCreateWorkQueue A k \<noteq> None)"
    and "\<forall>i<k. \<forall>p. ExAllocatePoolZero_IF A i = Some p \<longrightarrow> IfPool g p = None"
    and "\<forall>i<k. \<forall>j<k. ExAllocatePoolZero_IF A i = ExAllocatePoolZero_IF A j \<longrightarrow> i = j"
  shows "\<exists>g'. XdpIfAddInterfaces K A h ds g =
            Some (if XdpValidateCapabilitiesEx K (CapabilitiesEx (InterfaceCapabilities (ds ! k)))
                       (CapabilitiesSize (InterfaceCapabilities (ds ! k)))
                  then STATUS_NO_MEMORY else STATUS_NOT_SUPPORTED, g') \<and>
          IfPool g' = IfPool g \<and>
          (\<forall>d \<in> set ds. HandleCells g' (InterfaceHandle d) = None) \<and>
          (\<forall>c. c \<notin> InterfaceHandle ` set ds \<longrightarrow> HandleCells g' c = HandleCells g c) \<and>
          XdpInterfaceSets g' = XdpInterfaceSets g \<and>
          (\<forall>h'. h' \<noteq> h \<longrightarrow> IfSetPool g' h' = IfSetPool g h') \<and>
          (\<exists>S'. IfSetPool g' h = Some S' \<and> SetIfIndex S' = SetIfIndex S \<and>
             XdpIfInterfaceSetContext S' = XdpIfInterfaceSetContext S \<and>
             (\<forall>m. Interfaces S' m =
                (if m \<in> (\<lambda>d. Mode (InterfaceCapabilities d)) ` set (take k ds) then None
                 else Interfaces S m))) \<and>
          RegistryCalls g' = RegistryCalls g @
            (if XdpValidateCapabilitiesEx K (CapabilitiesEx (InterfaceCapabilities (ds ! k)))
                  (CapabilitiesSize (InterfaceCapabilities (ds ! k))) \<and>
                ExAllocatePoolZero_IF A k \<noteq> None
             then [ExFreePoolWithTag_IF] else []) @
            concat (map (\<lambda>i. [XdpShutdownWorkQueue (the (XdpCreateWorkQueue A i)),
                               ExFreePoolWithTag_IF]) [0..<k]) \<and>
          (\<forall>IfIdx HookIds Count RequiredMode p r.
             XdpIfFindAndReferenceBinding g' IfIdx HookIds Count RequiredMode = Some (Some p, r) \<longrightarrow>
             IfPool g p \<noteq> None \<and> (\<forall>i<k. ExAllocatePoolZero_IF A i \<noteq> Some p))"
proof -
  let ?V = "\<lambda>d. XdpValidateCapabilitiesEx K (CapabilitiesEx (InterfaceCapabilities d))
                  (CapabilitiesSize (InterfaceCapabilities d))"
  define pre where "pre = take k ds"
  define f where "f = ds ! k"
  define post where "post = drop (Suc k) ds"
  from assms(4) have ds: "ds = pre @ f # post"
    by (simp add: pre_def f_def post_def id_take_nth_drop)
  from assms(4) have len: "length pre = k" by (simp add: pre_def)
  have nth: "pre ! i = ds ! i" if "i < k" for i using that by (simp add: pre_def)
  from assms(5) len nth
  have okpre: "\<forall>i<length pre. ?V (pre ! i) \<and> ExAllocatePoolZero_IF A (0 + i) \<noteq> None \<and>
                 XdpCreateWorkQueue A (0 + i) \<noteq> None" by simp
  from assms(1) have "IfSetPool g h \<noteq> None" by simp
  from XdpIfAddInterfaces_loop_total [OF this okpre] obtain g1 where
    l1: "XdpIfAddInterfaces_loop K A h pre 0 g = Some (STATUS_SUCCESS, g1)" by blast
  from XdpIfAddInterfaces_loop_frame [OF l1]
  have fr: "XdpInterfaceSets g1 = XdpInterfaceSets g" "RegistryCalls g1 = RegistryCalls g"
    "\<And>h'. h' \<noteq> h \<Longrightarrow> IfSetPool g1 h' = IfSetPool g h'"
    "\<And>c. c \<notin> InterfaceHandle ` set pre \<Longrightarrow> HandleCells g1 c = HandleCells g c"
    by simp_all
  from XdpIfAddInterfaces_loop_set [OF l1 assms(1)] obtain S1 where
    S1: "IfSetPool g1 h = Some S1" "SetIfIndex S1 = SetIfIndex S"
      "XdpIfInterfaceSetContext S1 = XdpIfInterfaceSetContext S"
    and slots1: "\<And>m. m \<notin> (\<lambda>d. Mode (InterfaceCapabilities d)) ` set pre \<Longrightarrow>
                   Interfaces S1 m = Interfaces S m"
    by blast
  define St where "St = (if ?V f then STATUS_NO_MEMORY else STATUS_NOT_SUPPORTED)"
  define g2 where "g2 = (if ?V f \<and> ExAllocatePoolZero_IF A k \<noteq> None
    then g1\<lparr>RegistryCalls := RegistryCalls g1 @ [ExFreePoolWithTag_IF]\<rparr> else g1)"
  from assms(6) S1(1) have l2: "XdpIfAddInterfaces_loop K A h (f # post) k g1 = Some (St, g2)"
    by (auto simp: St_def g2_def f_def split: option.splits)
  from XdpIfAddInterfaces_loop_append [OF l1, of "f # post"] l2 ds len
  have l: "XdpIfAddInterfaces_loop K A h ds 0 g = Some (St, g2)" by simp
  have nS: "\<not> NT_SUCCESS St" by (simp add: St_def)
  have g2: "IfPool g2 = IfPool g1" "HandleCells g2 = HandleCells g1"
    "IfSetPool g2 = IfSetPool g1" "XdpInterfaceSets g2 = XdpInterfaceSets g1"
    by (simp_all add: g2_def)
  from assms(2) ds have distpre: "distinct (map InterfaceHandle pre)"
    and notpre: "\<And>d. d \<in> set (f # post) \<Longrightarrow> InterfaceHandle d \<notin> InterfaceHandle ` set pre"
    by auto
  from assms(8) len have injpre: "\<forall>i<length pre. \<forall>j<length pre.
      ExAllocatePoolZero_IF A (0 + i) = ExAllocatePoolZero_IF A (0 + j) \<longrightarrow> i = j" by simp
  have created: "\<exists>p q. ExAllocatePoolZero_IF A i = Some p \<and> XdpCreateWorkQueue A i = Some q \<and>
      HandleCells g2 (InterfaceHandle (pre ! i)) = Some p \<and>
      IfPool g2 p = Some ((XdpIfAddInterfaces_init h S (pre ! i))\<lparr>WorkQueue := Some q\<rparr>)"
    if "i < k" for i
    using XdpIfAddInterfaces_loop_created [OF l1 assms(1) distpre injpre, of i] that len
    by (simp add: g2)
  have live2: "\<forall>d \<in> set pre. \<exists>p Ifc q. HandleCells g2 (InterfaceHandle d) = Some p \<and>
           IfPool g2 p = Some Ifc \<and> ReferenceCount Ifc = 1 \<and> WorkQueue Ifc = Some q \<and>
           Mode (Capabilities Ifc) = Mode (InterfaceCapabilities d)"
  proof
    fix d assume "d \<in> set pre"
    then obtain i where i: "i < k" "d = pre ! i" using len by (auto simp: in_set_conv_nth)
    from created [OF i(1)] i(2)
    show "\<exists>p Ifc q. HandleCells g2 (InterfaceHandle d) = Some p \<and>
           IfPool g2 p = Some Ifc \<and> ReferenceCount Ifc = 1 \<and> WorkQueue Ifc = Some q \<and>
           Mode (Capabilities Ifc) = Mode (InterfaceCapabilities d)"
      by (auto simp: XdpIfAddInterfaces_init_def)
  qed
  have inj2: "\<forall>d \<in> set pre. \<forall>d' \<in> set pre.
           HandleCells g2 (InterfaceHandle d) = HandleCells g2 (InterfaceHandle d') \<longrightarrow>
           InterfaceHandle d = InterfaceHandle d'"
  proof (intro ballI impI)
    fix d d' assume "d \<in> set pre" "d' \<in> set pre"
      and eq: "HandleCells g2 (InterfaceHandle d) = HandleCells g2 (InterfaceHandle d')"
    then obtain i j where i: "i < k" "d = pre ! i" and j: "j < k" "d' = pre ! j"
      using len by (auto simp: in_set_conv_nth)
    from created [OF i(1)] created [OF j(1)] eq i(2) j(2)
    have "ExAllocatePoolZero_IF A i = ExAllocatePoolZero_IF A j" by auto
    with assms(8) i(1) j(1) have "i = j" by simp
    with i j show "InterfaceHandle d = InterfaceHandle d'" by simp
  qed
  from S1(1) have set2: "IfSetPool g2 h = Some S1" by (simp add: g2)
  from XdpIfAddInterfaces_unwind_created [OF set2 distpre live2 inj2] obtain g3 where
    u1: "XdpIfAddInterfaces_unwind h pre g2 = Some g3"
    and sets3: "XdpInterfaceSets g3 = XdpInterfaceSets g2"
    and pool3: "\<And>r. IfPool g3 r =
        (if Some r \<in> (\<lambda>d. HandleCells g2 (InterfaceHandle d)) ` set pre then None
         else IfPool g2 r)"
    and cells3: "\<And>c. HandleCells g3 c =
        (if c \<in> InterfaceHandle ` set pre then None else HandleCells g2 c)"
    and others3: "\<And>h'. h' \<noteq> h \<Longrightarrow> IfSetPool g3 h' = IfSetPool g2 h'"
    and set3: "IfSetPool g3 h =
       Some (S1\<lparr>Interfaces := (\<lambda>m. if m \<in> (\<lambda>d. Mode (InterfaceCapabilities d)) ` set pre
                                  then None else Interfaces S1 m)\<rparr>)"
    and calls3: "RegistryCalls g3 = RegistryCalls g2 @
       concat (map (\<lambda>d. [XdpShutdownWorkQueue
          (the (WorkQueue (the (IfPool g2 (the (HandleCells g2 (InterfaceHandle d))))))),
          ExFreePoolWithTag_IF]) pre)"
    by blast
  have "\<forall>d \<in> set (f # post). HandleCells g3 (InterfaceHandle d) = None"
  proof
    fix d assume d: "d \<in> set (f # post)"
    with ds have "d \<in> set ds" by auto
    with assms(3) have "HandleCells g (InterfaceHandle d) = None" by simp
    with notpre [OF d] fr(4) show "HandleCells g3 (InterfaceHandle d) = None"
      by (simp add: cells3 g2)
  qed
  from XdpIfAddInterfaces_unwind_null [OF this]
  have u2: "XdpIfAddInterfaces_unwind h (f # post) g3 = Some g3" .
  from u1 u2 ds have u: "XdpIfAddInterfaces_unwind h ds g2 = Some g3"
    by (simp add: XdpIfAddInterfaces_unwind_append del: XdpIfAddInterfaces_unwind.simps)
  from l nS u have c0: "XdpIfAddInterfaces K A h ds g = Some (St, g3)"
    by (simp add: XdpIfAddInterfaces_def)
  have c1: "IfPool g3 = IfPool g"
  proof
    fix r
    show "IfPool g3 r = IfPool g r"
    proof (cases "Some r \<in> (\<lambda>d. HandleCells g2 (InterfaceHandle d)) ` set pre")
      case True
      then obtain i where i: "i < k" "HandleCells g2 (InterfaceHandle (pre ! i)) = Some r"
        using len by (auto simp: in_set_conv_nth)
      with created [OF i(1)] have "ExAllocatePoolZero_IF A i = Some r" by auto
      with assms(7) i(1) have "IfPool g r = None" by simp
      with True show ?thesis by (simp add: pool3)
    next
      case False
      have "\<forall>i<length pre. ExAllocatePoolZero_IF A (0 + i) \<noteq> Some r"
      proof (intro allI impI)
        fix i assume "i < length pre"
        with len have i: "i < k" by simp
        show "ExAllocatePoolZero_IF A (0 + i) \<noteq> Some r"
        proof
          assume "ExAllocatePoolZero_IF A (0 + i) = Some r"
          with created [OF i] have "HandleCells g2 (InterfaceHandle (pre ! i)) = Some r" by auto
          moreover from i len have "pre ! i \<in> set pre" by simp
          ultimately show False using False by force
        qed
      qed
      from XdpIfAddInterfaces_loop_pool [OF l1 this] False show ?thesis
        by (simp add: pool3 g2)
    qed
  qed
  have c2: "\<forall>d \<in> set ds. HandleCells g3 (InterfaceHandle d) = None"
  proof
    fix d assume d: "d \<in> set ds"
    show "HandleCells g3 (InterfaceHandle d) = None"
    proof (cases "InterfaceHandle d \<in> InterfaceHandle ` set pre")
      case True
      then show ?thesis by (simp add: cells3)
    next
      case False
      with fr(4) assms(3) d show ?thesis by (simp add: cells3 g2)
    qed
  qed
  have c3: "\<forall>c. c \<notin> InterfaceHandle ` set ds \<longrightarrow> HandleCells g3 c = HandleCells g c"
  proof (intro allI impI)
    fix c assume "c \<notin> InterfaceHandle ` set ds"
    with ds have "c \<notin> InterfaceHandle ` set pre" by auto
    with fr(4) show "HandleCells g3 c = HandleCells g c" by (simp add: cells3 g2)
  qed
  have c4: "XdpInterfaceSets g3 = XdpInterfaceSets g" using sets3 fr(1) by (simp add: g2)
  have c5: "\<forall>h'. h' \<noteq> h \<longrightarrow> IfSetPool g3 h' = IfSetPool g h'"
    using others3 fr(3) by (simp add: g2)
  have c6: "\<exists>S'. IfSetPool g3 h = Some S' \<and> SetIfIndex S' = SetIfIndex S \<and>
             XdpIfInterfaceSetContext S' = XdpIfInterfaceSetContext S \<and>
             (\<forall>m. Interfaces S' m =
                (if m \<in> (\<lambda>d. Mode (InterfaceCapabilities d)) ` set (take k ds) then None
                 else Interfaces S m))"
    using set3 S1(2,3) slots1 by (simp add: pre_def)
  have "map (\<lambda>d. [XdpShutdownWorkQueue
          (the (WorkQueue (the (IfPool g2 (the (HandleCells g2 (InterfaceHandle d))))))),
          ExFreePoolWithTag_IF]) pre =
        map (\<lambda>i. [XdpShutdownWorkQueue (the (XdpCreateWorkQueue A i)), ExFreePoolWithTag_IF])
          [0..<k]"
  proof (rule nth_equalityI)
    show "length (map (\<lambda>d. [XdpShutdownWorkQueue
          (the (WorkQueue (the (IfPool g2 (the (HandleCells g2 (InterfaceHandle d))))))),
          ExFreePoolWithTag_IF]) pre) =
        length (map (\<lambda>i. [XdpShutdownWorkQueue (the (XdpCreateWorkQueue A i)),
          ExFreePoolWithTag_IF]) [0..<k])" using len by simp
  next
    fix i assume "i < length (map (\<lambda>d. [XdpShutdownWorkQueue
          (the (WorkQueue (the (IfPool g2 (the (HandleCells g2 (InterfaceHandle d))))))),
          ExFreePoolWithTag_IF]) pre)"
    with len have i: "i < k" by simp
    from created [OF i] i len
    show "map (\<lambda>d. [XdpShutdownWorkQueue
          (the (WorkQueue (the (IfPool g2 (the (HandleCells g2 (InterfaceHandle d))))))),
          ExFreePoolWithTag_IF]) pre ! i =
        map (\<lambda>i. [XdpShutdownWorkQueue (the (XdpCreateWorkQueue A i)), ExFreePoolWithTag_IF])
          [0..<k] ! i" by auto
  qed
  with calls3 fr(2) have c7: "RegistryCalls g3 = RegistryCalls g @
            (if ?V (ds ! k) \<and> ExAllocatePoolZero_IF A k \<noteq> None
             then [ExFreePoolWithTag_IF] else []) @
            concat (map (\<lambda>i. [XdpShutdownWorkQueue (the (XdpCreateWorkQueue A i)),
                               ExFreePoolWithTag_IF]) [0..<k])"
    by (simp add: g2_def f_def)
  have c8: "\<forall>IfIdx HookIds Count RequiredMode p r.
             XdpIfFindAndReferenceBinding g3 IfIdx HookIds Count RequiredMode = Some (Some p, r) \<longrightarrow>
             IfPool g p \<noteq> None \<and> (\<forall>i<k. ExAllocatePoolZero_IF A i \<noteq> Some p)"
  proof (intro allI impI)
    fix IfIdx HookIds Count RequiredMode p r
    assume "XdpIfFindAndReferenceBinding g3 IfIdx HookIds Count RequiredMode = Some (Some p, r)"
    from XdpIfFindAndReferenceBinding_live [OF this] c1 have "IfPool g p \<noteq> None" by simp
    with assms(7) show "IfPool g p \<noteq> None \<and> (\<forall>i<k. ExAllocatePoolZero_IF A i \<noteq> Some p)"
      by auto
  qed
  from c0 c1 c2 c3 c4 c5 c6 c7 c8 show ?thesis unfolding St_def f_def by blast
qed

theorem XdpIfAddInterfaces_atomic_witness:
  "IfSetPool ex_registry 1 = Some ex_set \<and>
   XdpValidateCapabilitiesEx ex_consts (CapabilitiesEx (InterfaceCapabilities ex_add_native))
     (CapabilitiesSize (InterfaceCapabilities ex_add_native)) \<and>
   ExAllocatePoolZero_IF ex_allocator 1 = Some 101 \<and>
   XdpCreateWorkQueue ex_allocator 1 = None \<and>
   (\<exists>g'. XdpIfAddInterfaces ex_consts ex_allocator 1 [ex_add_generic, ex_add_native]
            ex_registry = Some (STATUS_NO_MEMORY, g') \<and>
      IfPool g' = IfPool ex_registry \<and>
      HandleCells g' 300 = None \<and> HandleCells g' 301 = None \<and>
      XdpInterfaceSets g' = [1] \<and>
      (\<exists>S'. IfSetPool g' 1 = Some S' \<and> SetIfIndex S' = 7 \<and>
         Interfaces S' XDP_INTERFACE_MODE_GENERIC = None \<and>
         Interfaces S' XDP_INTERFACE_MODE_NATIVE = None) \<and>
      RegistryCalls g' =
        [ExFreePoolWithTag_IF, XdpShutdownWorkQueue 500, ExFreePoolWithTag_IF])"
proof -
  have v: "XdpValidateCapabilitiesEx ex_consts (CapabilitiesEx (InterfaceCapabilities d))
     (CapabilitiesSize (InterfaceCapabilities d))"
    if "d = ex_add_generic \<or> d = ex_add_native" for d
    using that
    by (auto simp: XdpValidateCapabilitiesEx_iff ex_add_generic_def ex_add_native_def ex_defs)
  have h1: "IfSetPool ex_registry 1 = Some ex_set" by (simp add: ex_registry_def)
  have h2: "distinct (map InterfaceHandle [ex_add_generic, ex_add_native])"
    by (simp add: ex_add_generic_def ex_add_native_def)
  have h3: "\<forall>d \<in> set [ex_add_generic, ex_add_native].
      HandleCells ex_registry (InterfaceHandle d) = None"
    by (simp add: ex_registry_def)
  have h4: "(1::nat) < length [ex_add_generic, ex_add_native]" by simp
  have h5: "\<forall>i<1. XdpValidateCapabilitiesEx ex_consts
        (CapabilitiesEx (InterfaceCapabilities ([ex_add_generic, ex_add_native] ! i)))
        (CapabilitiesSize (InterfaceCapabilities ([ex_add_generic, ex_add_native] ! i))) \<and>
      ExAllocatePoolZero_IF ex_allocator i \<noteq> None \<and> XdpCreateWorkQueue ex_allocator i \<noteq> None"
    using v [of ex_add_generic] by (simp add: ex_allocator_def)
  have h6: "\<not> (XdpValidateCapabilitiesEx ex_consts
        (CapabilitiesEx (InterfaceCapabilities ([ex_add_generic, ex_add_native] ! 1)))
        (CapabilitiesSize (InterfaceCapabilities ([ex_add_generic, ex_add_native] ! 1))) \<and>
      ExAllocatePoolZero_IF ex_allocator 1 \<noteq> None \<and> XdpCreateWorkQueue ex_allocator 1 \<noteq> None)"
    by (simp add: ex_allocator_def)
  have h7: "\<forall>i<1. \<forall>p. ExAllocatePoolZero_IF ex_allocator i = Some p \<longrightarrow>
      IfPool ex_registry p = None"
    by (simp add: ex_registry_def)
  have h8: "\<forall>i<1. \<forall>j<1. ExAllocatePoolZero_IF ex_allocator i = ExAllocatePoolZero_IF ex_allocator j \<longrightarrow>
      i = j"
    by simp
  from XdpIfAddInterfaces_atomic [where K = ex_consts and A = ex_allocator and h = 1
      and ds = "[ex_add_generic, ex_add_native]" and g = ex_registry and S = ex_set and k = 1,
      OF h1 h2 h3 h4 h5 h6 h7 h8] v [of ex_add_native] h1
  show ?thesis
    by (auto simp: ex_allocator_def ex_registry_def ex_set_def ex_add_generic_def
        ex_add_native_def ex_caps_def)
qed

text \<open>
  The claim as stated fails for descriptors that share an out handle: the unwinding finds
  the bindings of the batch through the out handles, and a shared cell holds only the last
  of them. With the generic descriptor \<open>ex_add_generic\<close> and the native \<open>ex_add_shared\<close> both
  writing the cell 300, and the rejected \<open>ex_add_short\<close> third, the call returns
  \<^verbatim>\<open>STATUS_NOT_SUPPORTED\<close> and unwinds the native binding at 101 only: the generic binding
  at 100, created by the same call, stays in the pool and in its mode slot, and the next
  \<^verbatim>\<open>XdpIfFindAndReferenceBinding\<close> for the interface returns it.
\<close>

theorem XdpIfAddInterfaces_shared_handle_not_unwound:
  "InterfaceHandle ex_add_generic = InterfaceHandle ex_add_shared \<and>
   map_option fst (XdpIfAddInterfaces ex_consts ex_allocator_ample 1
       [ex_add_generic, ex_add_shared, ex_add_short] ex_registry) =
     Some STATUS_NOT_SUPPORTED \<and>
   map_option (\<lambda>r. map_option ReferenceCount (IfPool (snd r) 100))
     (XdpIfAddInterfaces ex_consts ex_allocator_ample 1
       [ex_add_generic, ex_add_shared, ex_add_short] ex_registry) =
     Some (Some 1) \<and>
   map_option (\<lambda>r. IfPool (snd r) 101)
     (XdpIfAddInterfaces ex_consts ex_allocator_ample 1
       [ex_add_generic, ex_add_shared, ex_add_short] ex_registry) =
     Some None \<and>
   map_option (\<lambda>r. map_option (\<lambda>S. Interfaces S XDP_INTERFACE_MODE_GENERIC) (IfSetPool (snd r) 1))
     (XdpIfAddInterfaces ex_consts ex_allocator_ample 1
       [ex_add_generic, ex_add_shared, ex_add_short] ex_registry) =
     Some (Some (Some 100)) \<and>
   (XdpIfAddInterfaces ex_consts ex_allocator_ample 1
       [ex_add_generic, ex_add_shared, ex_add_short] ex_registry \<bind>
     (\<lambda>r. map_option fst
        (XdpIfFindAndReferenceBinding (snd r) 7 (\<lambda>k. ex_hook) 1 None))) =
     Some (Some 100)"
proof -
  have v: "XdpValidateCapabilitiesEx ex_consts (CapabilitiesEx ex_caps) 76"
    "\<not> XdpValidateCapabilitiesEx ex_consts (CapabilitiesEx ex_caps) 75"
    by (simp_all add: XdpValidateCapabilitiesEx_iff ex_defs)
  have run: "XdpIfAddInterfaces ex_consts ex_allocator_ample 1
       [ex_add_generic, ex_add_shared, ex_add_short] ex_registry =
     Some (STATUS_NOT_SUPPORTED,
       \<lparr>XdpInterfaceSets = [1],
        IfSetPool = [1 \<mapsto> ex_set\<lparr>Interfaces :=
          (\<lambda>m. None)(XDP_INTERFACE_MODE_GENERIC := Some 100, XDP_INTERFACE_MODE_NATIVE := None)\<rparr>],
        IfPool = [100 \<mapsto> (XdpIfAddInterfaces_init 1 ex_set ex_add_generic)\<lparr>WorkQueue := Some 500\<rparr>,
                  101 \<mapsto> (XdpIfAddInterfaces_init 1 ex_set ex_add_shared)\<lparr>WorkQueue := Some 501\<rparr>]
                 (101 := None),
        HandleCells = (\<lambda>c. None)(300 := Some 100, 300 := Some 101, 300 := None),
        RegistryCalls = [XdpShutdownWorkQueue 501, ExFreePoolWithTag_IF]\<rparr>)"
    using v
    by (simp add: XdpIfAddInterfaces_def XdpIfAddInterfaces_init_def deref_pool_def
        XdpIfpDereferenceInterface_def Let_def
        ex_add_generic_def ex_add_shared_def ex_add_native_def ex_add_short_def
        ex_registry_def ex_set_def ex_allocator_ample_def ex_caps_def)
  show ?thesis
    unfolding run
    by (simp add: XdpIfAddInterfaces_init_def XdpIfFindAndReferenceBinding_def
        XdpIfpFindInterface_def XdpIfpFindInterface_turn_def XdpIfpFindIfSet_def ref_pool_def
        XdpIfpSupportsHookIds_iff XdpIfSupportsHookId_loop_iff XdpIfSupportsHookId_def
        ex_add_generic_def ex_add_shared_def ex_add_native_def ex_set_def ex_caps_def ex_hook_def)
qed
section \<open>Binding lookup: proofs\<close>

text \<open>
  Claim C4. In a registry whose listed sets are live and whose slots hold live bindings,
  \<^verbatim>\<open>XdpIfFindAndReferenceBinding\<close> returns. The set is the first one in the list with the
  interface index. The candidates are the bindings in its generic and its native slot, in
  this order, that match the required mode if one is given and support every required
  hook id. Without a set or without a candidate the handle is \<^verbatim>\<open>NULL\<close> and the registry is
  as before; otherwise the handle is the last candidate, and the registry differs only in
  that binding's reference count, which is one higher. A binding supports every required
  hook id when each of the \<open>Count\<close> ids equals one of its \<^verbatim>\<open>HookCount\<close> hooks in layer,
  direction and sublayer.
\<close>

theorem XdpIfFindAndReferenceBinding_result:
  assumes "\<forall>h \<in> set (XdpInterfaceSets g). IfSetPool g h \<noteq> None"
    and "\<forall>h \<in> set (XdpInterfaceSets g). \<forall>M p.
           Interfaces (the (IfSetPool g h)) M = Some p \<longrightarrow> IfPool g p \<noteq> None"
  shows "XdpIfFindAndReferenceBinding g IfIdx HookIds Count RequiredMode =
           Some (case find (\<lambda>h. SetIfIndex (the (IfSetPool g h)) = IfIdx)
                        (XdpInterfaceSets g) of
                   None \<Rightarrow> (None, g)
                 | Some h \<Rightarrow>
                     (case [p. M \<leftarrow> [XDP_INTERFACE_MODE_GENERIC, XDP_INTERFACE_MODE_NATIVE],
                               p \<leftarrow> (case Interfaces (the (IfSetPool g h)) M of
                                       None \<Rightarrow> [] | Some p \<Rightarrow> [p]),
                               (RequiredMode = None \<or> RequiredMode = Some M) \<and>
                               XdpIfpSupportsHookIds (Capabilities (the (IfPool g p)))
                                 HookIds Count] of
                        [] \<Rightarrow> (None, g)
                      | c # cs \<Rightarrow>
                          (Some (last (c # cs)),
                           g\<lparr>IfPool := (IfPool g)(last (c # cs) \<mapsto>
                               (the (IfPool g (last (c # cs))))
                                 \<lparr>ReferenceCount :=
                                    ReferenceCount (the (IfPool g (last (c # cs)))) + 1\<rparr>)\<rparr>))) \<and>
         XdpIfpSupportsHookIds Caps HookIds Count =
           (\<forall>k < unat Count. \<exists>j < unat (HookCount Caps).
              Layer (HookIds k) = Layer (Hooks Caps j) \<and>
              Direction (HookIds k) = Direction (Hooks Caps j) \<and>
              SubLayer (HookIds k) = SubLayer (Hooks Caps j))"
proof -
  let ?f = "find (\<lambda>h. SetIfIndex (the (IfSetPool g h)) = IfIdx) (XdpInterfaceSets g)"
  have walk: "XdpIfpFindIfSet g IfIdx = Some ?f"
    unfolding XdpIfpFindIfSet_def by (rule XdpIfpFindIfSet_walk_find [OF assms(1)])
  have main: "XdpIfFindAndReferenceBinding g IfIdx HookIds Count RequiredMode =
           Some (case ?f of
                   None \<Rightarrow> (None, g)
                 | Some h \<Rightarrow>
                     (case [p. M \<leftarrow> [XDP_INTERFACE_MODE_GENERIC, XDP_INTERFACE_MODE_NATIVE],
                               p \<leftarrow> (case Interfaces (the (IfSetPool g h)) M of
                                       None \<Rightarrow> [] | Some p \<Rightarrow> [p]),
                               (RequiredMode = None \<or> RequiredMode = Some M) \<and>
                               XdpIfpSupportsHookIds (Capabilities (the (IfPool g p)))
                                 HookIds Count] of
                        [] \<Rightarrow> (None, g)
                      | c # cs \<Rightarrow>
                          (Some (last (c # cs)),
                           g\<lparr>IfPool := (IfPool g)(last (c # cs) \<mapsto>
                               (the (IfPool g (last (c # cs))))
                                 \<lparr>ReferenceCount :=
                                    ReferenceCount (the (IfPool g (last (c # cs)))) + 1\<rparr>)\<rparr>)))"
  proof (cases ?f)
    case None
    with walk show ?thesis
      by (simp add: XdpIfFindAndReferenceBinding_def XdpIfpFindInterface_def)
  next
    case (Some h)
    then have hin: "h \<in> set (XdpInterfaceSets g)"
      by (auto simp: find_Some_iff)
    with assms(1) obtain S where S: "IfSetPool g h = Some S" by auto
    from assms(2) hin S have live: "\<And>M p. Interfaces S M = Some p \<Longrightarrow> \<exists>C. IfPool g p = Some C"
      by fastforce
    show ?thesis
    proof (cases "Interfaces S XDP_INTERFACE_MODE_GENERIC")
      case gn: None
      show ?thesis
      proof (cases "Interfaces S XDP_INTERFACE_MODE_NATIVE")
        case None
        with gn walk Some S show ?thesis
          by (simp add: XdpIfFindAndReferenceBinding_def XdpIfpFindInterface_def
              XdpIfpFindInterface_turn_def)
      next
        case nn: (Some pn)
        from live [OF nn] obtain Cn where "IfPool g pn = Some Cn" ..
        with gn nn walk Some S show ?thesis
          by (auto simp: XdpIfFindAndReferenceBinding_def XdpIfpFindInterface_def
              XdpIfpFindInterface_turn_def ref_pool_def XdpIfpReferenceInterface_def)
      qed
    next
      case gs: (Some pg)
      from live [OF gs] obtain Cg where Cg: "IfPool g pg = Some Cg" ..
      show ?thesis
      proof (cases "Interfaces S XDP_INTERFACE_MODE_NATIVE")
        case None
        with gs Cg walk Some S show ?thesis
          by (auto simp: XdpIfFindAndReferenceBinding_def XdpIfpFindInterface_def
              XdpIfpFindInterface_turn_def ref_pool_def XdpIfpReferenceInterface_def)
      next
        case nn: (Some pn)
        from live [OF nn] obtain Cn where "IfPool g pn = Some Cn" ..
        with gs Cg nn walk Some S show ?thesis
          by (auto simp: XdpIfFindAndReferenceBinding_def XdpIfpFindInterface_def
              XdpIfpFindInterface_turn_def ref_pool_def XdpIfpReferenceInterface_def)
      qed
    qed
  qed
  from main XdpIfpSupportsHookIds_iff [of Caps HookIds Count] show ?thesis by blast
qed

theorem XdpIfFindAndReferenceBinding_result_witness:
  "XdpInterfaceSets ex_registry_two = [1] \<and> IfSetPool ex_registry_two 1 \<noteq> None \<and>
   XdpIfFindAndReferenceBinding ex_registry_two 7 (\<lambda>k. ex_hook) 1 None =
     Some (Some 101,
           ex_registry_two\<lparr>IfPool := (IfPool ex_registry_two)(101 \<mapsto>
             ex_native_interface\<lparr>ReferenceCount := 2\<rparr>)\<rparr>) \<and>
   XdpIfFindAndReferenceBinding ex_registry_two 7 (\<lambda>k. ex_hook)
       1 (Some XDP_INTERFACE_MODE_GENERIC) =
     Some (Some 100,
           ex_registry_two\<lparr>IfPool := (IfPool ex_registry_two)(100 \<mapsto>
             ex_interface\<lparr>ReferenceCount := 3\<rparr>)\<rparr>) \<and>
   XdpIfFindAndReferenceBinding ex_registry_two 7 (\<lambda>k. ex_hook\<lparr>Direction := 1\<rparr>) 1 None =
     Some (None, ex_registry_two) \<and>
   XdpIfFindAndReferenceBinding ex_registry_two 8 (\<lambda>k. ex_hook) 1 None =
     Some (None, ex_registry_two)"
proof -
  have a: "\<forall>h \<in> set (XdpInterfaceSets ex_registry_two). IfSetPool ex_registry_two h \<noteq> None"
    by (simp add: ex_registry_two_def)
  have b: "\<forall>h \<in> set (XdpInterfaceSets ex_registry_two). \<forall>M p.
      Interfaces (the (IfSetPool ex_registry_two h)) M = Some p \<longrightarrow>
      IfPool ex_registry_two p \<noteq> None"
    by (auto simp: ex_registry_two_def ex_set_def split: XDP_INTERFACE_MODE.splits)
  note T = XdpIfFindAndReferenceBinding_result [OF a b, THEN conjunct1]
  note H = XdpIfFindAndReferenceBinding_result [OF a b, THEN conjunct2]
  have s: "XdpIfpSupportsHookIds ex_caps (\<lambda>k. ex_hook) 1"
    "XdpIfpSupportsHookIds (ex_caps\<lparr>Mode := XDP_INTERFACE_MODE_NATIVE\<rparr>) (\<lambda>k. ex_hook) 1"
    "\<not> XdpIfpSupportsHookIds ex_caps (\<lambda>k. ex_hook\<lparr>Direction := 1\<rparr>) 1"
    "\<not> XdpIfpSupportsHookIds (ex_caps\<lparr>Mode := XDP_INTERFACE_MODE_NATIVE\<rparr>)
        (\<lambda>k. ex_hook\<lparr>Direction := 1\<rparr>) 1"
    by (simp_all add: H ex_caps_def ex_hook_def)
  from a s T [of 7 "\<lambda>k. ex_hook" 1 None]
    T [of 7 "\<lambda>k. ex_hook" 1 "Some XDP_INTERFACE_MODE_GENERIC"]
    T [of 7 "\<lambda>k. ex_hook\<lparr>Direction := 1\<rparr>" 1 None]
    T [of 8 "\<lambda>k. ex_hook" 1 None]
  show ?thesis
    by (simp add: ex_registry_two_def ex_set_def ex_interface_def ex_native_interface_def)
qed

section \<open>Rundown: proofs\<close>

lemma XdpIfpDetachNmrInterface_exact:
  "NmrPool s p = Some N \<Longrightarrow>
   \<exists>s'. XdpIfpDetachNmrInterface p s = Some s' \<and> Interface s' = Interface s \<and>
        NmrPool s' = (NmrPool s)(p \<mapsto> N\<lparr>DetachNotification := True\<rparr>) \<and>
        Calls s' = Calls s @
          XdpInsertWorkQueue (WorkQueue (Interface s)) (NmrWorkItem p) #
          (if ReferenceCount (Interface s) = 0 then
             (case WorkQueue (Interface s) of Some q \<Rightarrow> [XdpShutdownWorkQueue q] | None \<Rightarrow> []) @
             [ExFreePoolWithTag_IF]
           else [])"
  by (simp add: XdpIfpDetachNmrInterface_def Let_def deref_binding_Calls split: option.splits)

lemma XdpIfpCloseNmrInterface_exact:
  assumes p: "Nmr (Interface s) = Some p" and N: "NmrPool s p = Some N"
  shows "\<exists>s'. XdpIfpCloseNmrInterface s = Some s' \<and>
           Interface s' = (Interface s)\<lparr>Nmr := None\<rparr> \<and>
           NmrPool s' =
             (if NmrReferenceCount N = 1 then (NmrPool s)(p := None)
              else (NmrPool s)(p \<mapsto> \<lparr>NmrHandle = None, DetachNotification = True,
                                     NmrReferenceCount = NmrReferenceCount N - 1\<rparr>)) \<and>
           Calls s' = Calls s @
             XdpCloseProvider (NmrHandle N) #
             (if DetachNotification N then []
              else XdpInsertWorkQueue (WorkQueue (Interface s)) (NmrWorkItem p) #
                (if ReferenceCount (Interface s) = 0 then
                   (case WorkQueue (Interface s) of Some q \<Rightarrow> [XdpShutdownWorkQueue q]
                    | None \<Rightarrow> []) @ [ExFreePoolWithTag_IF]
                 else [])) @
             XdpCleanupProvider (NmrHandle N) #
             (if NmrReferenceCount N = 1 then [ExFreePoolWithTag_NMR p] else [])"
proof -
  let ?s1 = "record_call (XdpCloseProvider (NmrHandle N)) s"
  let ?d = "if DetachNotification N then []
              else XdpInsertWorkQueue (WorkQueue (Interface s)) (NmrWorkItem p) #
                (if ReferenceCount (Interface s) = 0 then
                   (case WorkQueue (Interface s) of Some q \<Rightarrow> [XdpShutdownWorkQueue q]
                    | None \<Rightarrow> []) @ [ExFreePoolWithTag_IF]
                 else [])"
  have N1: "NmrPool ?s1 p = Some N" using N by simp
  obtain s2 where
    s2: "(if DetachNotification N then Some ?s1 else XdpIfpDetachNmrInterface p ?s1) = Some s2"
    and i2: "Interface s2 = Interface s"
    and n2: "NmrPool s2 = (NmrPool s)(p \<mapsto> N\<lparr>DetachNotification := True\<rparr>)"
    and c2: "Calls s2 = Calls s @ XdpCloseProvider (NmrHandle N) # ?d"
  proof (cases "DetachNotification N")
    case True
    have "N\<lparr>DetachNotification := True\<rparr> = N" using True by simp
    with True N show ?thesis by (intro that [of ?s1]) (auto simp: fun_upd_idem)
  next
    case False
    from XdpIfpDetachNmrInterface_exact [OF N1] obtain t where
      "XdpIfpDetachNmrInterface p ?s1 = Some t" "Interface t = Interface ?s1"
      "NmrPool t = (NmrPool ?s1)(p \<mapsto> N\<lparr>DetachNotification := True\<rparr>)"
      "Calls t = Calls ?s1 @
          XdpInsertWorkQueue (WorkQueue (Interface ?s1)) (NmrWorkItem p) #
          (if ReferenceCount (Interface ?s1) = 0 then
             (case WorkQueue (Interface ?s1) of Some q \<Rightarrow> [XdpShutdownWorkQueue q] | None \<Rightarrow> []) @
             [ExFreePoolWithTag_IF]
           else [])"
      by blast
    with False show ?thesis by (intro that [of t]) auto
  qed
  let ?N2 = "N\<lparr>DetachNotification := True\<rparr>"
  let ?s5 = "modify (\<lambda>Ifc. Ifc\<lparr>Nmr := None\<rparr>)
               ((record_call (XdpCleanupProvider (NmrHandle ?N2)) s2)
                  \<lparr>NmrPool := (NmrPool (record_call (XdpCleanupProvider (NmrHandle ?N2)) s2))
                      (p \<mapsto> ?N2\<lparr>NmrHandle := None\<rparr>)\<rparr>)"
  have N5: "NmrPool ?s5 p = Some (?N2\<lparr>NmrHandle := None\<rparr>)" by simp
  have run: "XdpIfpCloseNmrInterface s = XdpIfpDereferenceNmr p ?s5"
    using p N s2 n2 by (simp add: XdpIfpCloseNmrInterface_def Let_def)
  show ?thesis
    unfolding run XdpIfpDereferenceNmr_Some [OF N5]
    using i2 n2 c2 by (auto simp: fun_upd_twist)
qed

lemma XdpIfpCloseInterface_exact:
  assumes d: "InterfaceContext (Interface s) \<noteq> None \<longrightarrow> InterfaceDispatch (Interface s) \<noteq> None"
    and n: "\<forall>p. Nmr (Interface s) = Some p \<longrightarrow> NmrPool s p \<noteq> None"
  shows "\<exists>s'. XdpIfpCloseInterface s = Some s' \<and>
           Interface s' = (Interface s)
             \<lparr>InterfaceDispatch :=
                (if InterfaceContext (Interface s) = None then InterfaceDispatch (Interface s)
                 else None),
              InterfaceContext := None, Nmr := None,
              NmrDeleting := (Nmr (Interface s) = None \<and> NmrDeleting (Interface s)),
              XdpIfInterfaceContext :=
                (if BindingDeleting (Interface s) then None
                 else XdpIfInterfaceContext (Interface s))\<rparr> \<and>
           NmrPool s' =
             (case Nmr (Interface s) of
                None \<Rightarrow> NmrPool s
              | Some p \<Rightarrow>
                  if NmrReferenceCount (the (NmrPool s p)) = 1 then (NmrPool s)(p := None)
                  else (NmrPool s)(p \<mapsto> \<lparr>NmrHandle = None, DetachNotification = True,
                         NmrReferenceCount = NmrReferenceCount (the (NmrPool s p)) - 1\<rparr>)) \<and>
           Calls s' = Calls s @
             (if InterfaceContext (Interface s) \<noteq> None \<and>
                 CloseInterface (the (InterfaceDispatch (Interface s)))
              then [CloseInterface_call (InterfaceContext (Interface s))] else []) @
             (case Nmr (Interface s) of
                None \<Rightarrow> []
              | Some p \<Rightarrow>
                  XdpCloseProvider (NmrHandle (the (NmrPool s p))) #
                  (if DetachNotification (the (NmrPool s p)) then []
                   else XdpInsertWorkQueue (WorkQueue (Interface s)) (NmrWorkItem p) #
                     (if ReferenceCount (Interface s) = 0 then
                        (case WorkQueue (Interface s) of Some q \<Rightarrow> [XdpShutdownWorkQueue q]
                         | None \<Rightarrow> []) @ [ExFreePoolWithTag_IF]
                      else [])) @
                  XdpCleanupProvider (NmrHandle (the (NmrPool s p))) #
                  (if NmrReferenceCount (the (NmrPool s p)) = 1 then [ExFreePoolWithTag_NMR p]
                   else [])) @
             (if BindingDeleting (Interface s) \<and> XdpIfInterfaceContext (Interface s) \<noteq> None
              then [RemoveInterfaceComplete_call (XdpIfInterfaceContext (Interface s))]
              else [])"
proof -
  let ?A = "if InterfaceContext (Interface s) \<noteq> None \<and>
                 CloseInterface (the (InterfaceDispatch (Interface s)))
              then [CloseInterface_call (InterfaceContext (Interface s))] else []"
  let ?I1 = "(Interface s)\<lparr>InterfaceDispatch :=
                (if InterfaceContext (Interface s) = None then InterfaceDispatch (Interface s)
                 else None), InterfaceContext := None\<rparr>"
  obtain s1 where
    s1: "(if InterfaceContext (Interface s) \<noteq> None then
            Option.bind (XdpIfpInvokeCloseInterface s)
              (\<lambda>t. Some (modify (\<lambda>Ifc. Ifc\<lparr>InterfaceDispatch := None, InterfaceContext := None\<rparr>) t))
          else Some s) = Some s1"
    and i1: "Interface s1 = ?I1" and p1: "NmrPool s1 = NmrPool s"
    and c1: "Calls s1 = Calls s @ ?A"
  proof (cases "InterfaceContext (Interface s) = None")
    case True
    have "(Interface s)\<lparr>InterfaceDispatch := InterfaceDispatch (Interface s),
        InterfaceContext := None\<rparr> = Interface s" using True by simp
    with True show ?thesis by (intro that [of s]) auto
  next
    case False
    with d obtain D where D: "InterfaceDispatch (Interface s) = Some D" by auto
    let ?t = "if CloseInterface D then
                record_call (CloseInterface_call (InterfaceContext (Interface s))) s else s"
    have "XdpIfpInvokeCloseInterface s = Some ?t"
      using D by (simp add: XdpIfpInvokeCloseInterface_def)
    with False D show ?thesis
      by (intro that [of "modify (\<lambda>Ifc. Ifc\<lparr>InterfaceDispatch := None,
            InterfaceContext := None\<rparr>) ?t"]) auto
  qed
  let ?B = "case Nmr (Interface s) of
                None \<Rightarrow> []
              | Some p \<Rightarrow>
                  XdpCloseProvider (NmrHandle (the (NmrPool s p))) #
                  (if DetachNotification (the (NmrPool s p)) then []
                   else XdpInsertWorkQueue (WorkQueue (Interface s)) (NmrWorkItem p) #
                     (if ReferenceCount (Interface s) = 0 then
                        (case WorkQueue (Interface s) of Some q \<Rightarrow> [XdpShutdownWorkQueue q]
                         | None \<Rightarrow> []) @ [ExFreePoolWithTag_IF]
                      else [])) @
                  XdpCleanupProvider (NmrHandle (the (NmrPool s p))) #
                  (if NmrReferenceCount (the (NmrPool s p)) = 1 then [ExFreePoolWithTag_NMR p]
                   else [])"
  let ?P = "case Nmr (Interface s) of
                None \<Rightarrow> NmrPool s
              | Some p \<Rightarrow>
                  if NmrReferenceCount (the (NmrPool s p)) = 1 then (NmrPool s)(p := None)
                  else (NmrPool s)(p \<mapsto> \<lparr>NmrHandle = None, DetachNotification = True,
                         NmrReferenceCount = NmrReferenceCount (the (NmrPool s p)) - 1\<rparr>)"
  let ?I2 = "?I1\<lparr>Nmr := None,
               NmrDeleting := (Nmr (Interface s) = None \<and> NmrDeleting (Interface s))\<rparr>"
  obtain s2 where
    s2: "(if Nmr (Interface s1) \<noteq> None then
            Option.bind (XdpIfpCloseNmrInterface s1)
              (\<lambda>t. Some (modify (\<lambda>Ifc. Ifc\<lparr>NmrDeleting := False\<rparr>) t))
          else Some s1) = Some s2"
    and i2: "Interface s2 = ?I2" and p2: "NmrPool s2 = ?P"
    and c2: "Calls s2 = Calls s1 @ ?B"
  proof (cases "Nmr (Interface s)")
    case None
    have "?I1\<lparr>Nmr := None, NmrDeleting := NmrDeleting (Interface s)\<rparr> = ?I1"
      using None by simp
    with None i1 p1 show ?thesis by (intro that [of s1]) auto
  next
    case (Some p)
    with n have "NmrPool s p \<noteq> None" by simp
    with p1 obtain N where N: "NmrPool s1 p = Some N" by auto
    from Some i1 have p': "Nmr (Interface s1) = Some p" by simp
    from XdpIfpCloseNmrInterface_exact [OF p' N] obtain t where
      t: "XdpIfpCloseNmrInterface s1 = Some t"
      "Interface t = (Interface s1)\<lparr>Nmr := None\<rparr>"
      "NmrPool t =
         (if NmrReferenceCount N = 1 then (NmrPool s1)(p := None)
          else (NmrPool s1)(p \<mapsto> \<lparr>NmrHandle = None, DetachNotification = True,
                                  NmrReferenceCount = NmrReferenceCount N - 1\<rparr>))"
      "Calls t = Calls s1 @
             XdpCloseProvider (NmrHandle N) #
             (if DetachNotification N then []
              else XdpInsertWorkQueue (WorkQueue (Interface s1)) (NmrWorkItem p) #
                (if ReferenceCount (Interface s1) = 0 then
                   (case WorkQueue (Interface s1) of Some q \<Rightarrow> [XdpShutdownWorkQueue q]
                    | None \<Rightarrow> []) @ [ExFreePoolWithTag_IF]
                 else [])) @
             XdpCleanupProvider (NmrHandle N) #
             (if NmrReferenceCount N = 1 then [ExFreePoolWithTag_NMR p] else [])"
      by blast
    from N p1 have N': "the (NmrPool s p) = N" by simp
    from t Some p' i1 p1 N' show ?thesis
      by (intro that [of "modify (\<lambda>Ifc. Ifc\<lparr>NmrDeleting := False\<rparr>) t"]) simp_all
  qed
  let ?s' = "if BindingDeleting (Interface s2) \<and> XdpIfInterfaceContext (Interface s2) \<noteq> None
             then modify (\<lambda>Ifc. Ifc\<lparr>XdpIfInterfaceContext := None\<rparr>)
                    (record_call
                       (RemoveInterfaceComplete_call (XdpIfInterfaceContext (Interface s2))) s2)
             else s2"
  have run: "XdpIfpCloseInterface s = Some ?s'"
    using s1 s2 by (simp add: XdpIfpCloseInterface_def)
  have "(Interface s2)\<lparr>XdpIfInterfaceContext := XdpIfInterfaceContext (Interface s2)\<rparr> =
        Interface s2" by simp
  have i': "Interface ?s' = ?I2\<lparr>XdpIfInterfaceContext :=
                (if BindingDeleting (Interface s) then None
                 else XdpIfInterfaceContext (Interface s))\<rparr>"
    by (cases "XdpIfInterfaceContext (Interface s)") (simp_all add: i2)
  have p': "NmrPool ?s' = ?P" using p2 by simp
  have c': "Calls ?s' = Calls s @ ?A @ ?B @
             (if BindingDeleting (Interface s) \<and> XdpIfInterfaceContext (Interface s) \<noteq> None
              then [RemoveInterfaceComplete_call (XdpIfInterfaceContext (Interface s))]
              else [])"
    using c1 c2 by (simp add: i2)
  show ?thesis
    unfolding run using i' p' c' by simp
qed

lemma XdpIfpStartRundown_loop_exact:
  "Interface (XdpIfpStartRundown_loop s) =
     (Interface s)\<lparr>Clients := [],
        ReferenceCount := ReferenceCount (Interface s) -
          of_nat (length (Clients (Interface s)))\<rparr> \<and>
   NmrPool (XdpIfpStartRundown_loop s) = NmrPool s \<and>
   Calls (XdpIfpStartRundown_loop s) = Calls s @
     concat (map (\<lambda>i. BindingDetached (Link (Clients (Interface s) ! i)) #
                    (if ReferenceCount (Interface s) - of_nat i = 1 then
                       (case WorkQueue (Interface s) of Some q \<Rightarrow> [XdpShutdownWorkQueue q]
                        | None \<Rightarrow> []) @ [ExFreePoolWithTag_IF]
                     else []))
               [0..<length (Clients (Interface s))])"
proof (induction s rule: XdpIfpStartRundown_loop.induct)
  case (1 s)
  show ?case
  proof (cases "Clients (Interface s)")
    case Nil
    then show ?thesis
      by (subst (1 2 3) XdpIfpStartRundown_loop.simps) simp
  next
    case (Cons ClientEntry rest)
    let ?s1 = "deref_binding
            (record_call (BindingDetached (Link ClientEntry))
               (modify (\<lambda>Ifc. Ifc\<lparr>Clients := rest\<rparr>) s))"
    have step: "XdpIfpStartRundown_loop s = XdpIfpStartRundown_loop ?s1"
      using Cons by (subst XdpIfpStartRundown_loop.simps) simp
    have i1: "Interface ?s1 = (Interface s)\<lparr>Clients := rest,
        ReferenceCount := ReferenceCount (Interface s) - 1\<rparr>" by simp
    have c1: "Calls ?s1 = Calls s @ BindingDetached (Link ClientEntry) #
        (if ReferenceCount (Interface s) = 1 then
           (case WorkQueue (Interface s) of Some q \<Rightarrow> [XdpShutdownWorkQueue q]
            | None \<Rightarrow> []) @ [ExFreePoolWithTag_IF]
         else [])"
      by (simp add: deref_binding_Calls)
    have sh: "ReferenceCount (Interface s) - 1 - of_nat i =
              ReferenceCount (Interface s) - of_nat (Suc i)" for i
      by simp
    from "1.IH" [OF Cons] show ?thesis
      unfolding step
      by (simp only: i1 c1 Cons sh) (simp add: map_upt_Suc del: upt_Suc cong: if_cong)
  qed
qed

text \<open>
  Claim C5. Rundown on a binding whose dispatch table and NMR context are there when it
  has an interface context, respectively an attachment, returns, and the state it leaves
  and the calls it makes, in their order, are these.
  \<^item> When the provider reference count is zero at entry, the attachment is closed first:
    \<^verbatim>\<open>CloseInterface\<close> of the provider for the interface context, if the dispatch table has
    one; for the NMR context \<^verbatim>\<open>XdpCloseProvider\<close> on its handle, the detach notification
    (which queues the NMR work item) unless it has run already, \<^verbatim>\<open>XdpCleanupProvider\<close>, and
    the release of the context; and \<^verbatim>\<open>RemoveInterfaceComplete\<close> when the binding is being
    deleted. No attachment is left. When the count is not zero, none of these calls is made
    and the attachment is as it was.
  \<^item> Then, for each linked entry in list order, the entry is unlinked, \<^verbatim>\<open>BindingDetached\<close> is
    called once with it, and one reference is released; a release that brings the count
    to zero shuts the work queue down and frees the binding, after the notification of
    that entry and before the next one. The client list is empty at the end and the reference
    count is lower by the number of entries.
\<close>

theorem XdpIfpStartRundown_effects:
  assumes "ProviderReference (Interface s) = 0 \<longrightarrow>
             (InterfaceContext (Interface s) \<noteq> None \<longrightarrow> InterfaceDispatch (Interface s) \<noteq> None) \<and>
             (\<forall>p. Nmr (Interface s) = Some p \<longrightarrow> NmrPool s p \<noteq> None)"
  shows "\<exists>s'. XdpIfpStartRundown s = Some s' \<and>
           Interface s' =
             (if ProviderReference (Interface s) = 0 then
                (Interface s)
                  \<lparr>InterfaceDispatch :=
                     (if InterfaceContext (Interface s) = None then InterfaceDispatch (Interface s)
                      else None),
                   InterfaceContext := None, Nmr := None,
                   NmrDeleting := (Nmr (Interface s) = None \<and> NmrDeleting (Interface s)),
                   XdpIfInterfaceContext :=
                     (if BindingDeleting (Interface s) then None
                      else XdpIfInterfaceContext (Interface s))\<rparr>
              else Interface s)
               \<lparr>Clients := [],
                ReferenceCount := ReferenceCount (Interface s) -
                  of_nat (length (Clients (Interface s)))\<rparr> \<and>
           NmrPool s' =
             (if ProviderReference (Interface s) = 0 then
                (case Nmr (Interface s) of
                   None \<Rightarrow> NmrPool s
                 | Some p \<Rightarrow>
                     if NmrReferenceCount (the (NmrPool s p)) = 1 then (NmrPool s)(p := None)
                     else (NmrPool s)(p \<mapsto> \<lparr>NmrHandle = None, DetachNotification = True,
                            NmrReferenceCount = NmrReferenceCount (the (NmrPool s p)) - 1\<rparr>))
              else NmrPool s) \<and>
           Calls s' = Calls s @
             (if ProviderReference (Interface s) = 0 then
                (if InterfaceContext (Interface s) \<noteq> None \<and>
                    CloseInterface (the (InterfaceDispatch (Interface s)))
                 then [CloseInterface_call (InterfaceContext (Interface s))] else []) @
                (case Nmr (Interface s) of
                   None \<Rightarrow> []
                 | Some p \<Rightarrow>
                     XdpCloseProvider (NmrHandle (the (NmrPool s p))) #
                     (if DetachNotification (the (NmrPool s p)) then []
                      else XdpInsertWorkQueue (WorkQueue (Interface s)) (NmrWorkItem p) #
                        (if ReferenceCount (Interface s) = 0 then
                           (case WorkQueue (Interface s) of Some q \<Rightarrow> [XdpShutdownWorkQueue q]
                            | None \<Rightarrow> []) @ [ExFreePoolWithTag_IF]
                         else [])) @
                     XdpCleanupProvider (NmrHandle (the (NmrPool s p))) #
                     (if NmrReferenceCount (the (NmrPool s p)) = 1 then [ExFreePoolWithTag_NMR p]
                      else [])) @
                (if BindingDeleting (Interface s) \<and> XdpIfInterfaceContext (Interface s) \<noteq> None
                 then [RemoveInterfaceComplete_call (XdpIfInterfaceContext (Interface s))]
                 else [])
              else []) @
             concat (map (\<lambda>i. BindingDetached (Link (Clients (Interface s) ! i)) #
                    (if ReferenceCount (Interface s) - of_nat i = 1 then
                       (case WorkQueue (Interface s) of Some q \<Rightarrow> [XdpShutdownWorkQueue q]
                        | None \<Rightarrow> []) @ [ExFreePoolWithTag_IF]
                     else []))
               [0..<length (Clients (Interface s))])"
proof (cases "ProviderReference (Interface s) = 0")
  case False
  then have "XdpIfpStartRundown s = Some (XdpIfpStartRundown_loop s)"
    by (simp add: XdpIfpStartRundown_def)
  with False XdpIfpStartRundown_loop_exact [of s] show ?thesis by simp
next
  case True
  with assms have d: "InterfaceContext (Interface s) \<noteq> None \<longrightarrow>
      InterfaceDispatch (Interface s) \<noteq> None"
    and n: "\<forall>p. Nmr (Interface s) = Some p \<longrightarrow> NmrPool s p \<noteq> None" by simp_all
  from XdpIfpCloseInterface_exact [OF d n] obtain s1 where
    s1: "XdpIfpCloseInterface s = Some s1"
    and i1: "Interface s1 = (Interface s)
             \<lparr>InterfaceDispatch :=
                (if InterfaceContext (Interface s) = None then InterfaceDispatch (Interface s)
                 else None),
              InterfaceContext := None, Nmr := None,
              NmrDeleting := (Nmr (Interface s) = None \<and> NmrDeleting (Interface s)),
              XdpIfInterfaceContext :=
                (if BindingDeleting (Interface s) then None
                 else XdpIfInterfaceContext (Interface s))\<rparr>"
    and p1: "NmrPool s1 =
             (case Nmr (Interface s) of
                None \<Rightarrow> NmrPool s
              | Some p \<Rightarrow>
                  if NmrReferenceCount (the (NmrPool s p)) = 1 then (NmrPool s)(p := None)
                  else (NmrPool s)(p \<mapsto> \<lparr>NmrHandle = None, DetachNotification = True,
                         NmrReferenceCount = NmrReferenceCount (the (NmrPool s p)) - 1\<rparr>))"
    and c1: "Calls s1 = Calls s @
             (if InterfaceContext (Interface s) \<noteq> None \<and>
                 CloseInterface (the (InterfaceDispatch (Interface s)))
              then [CloseInterface_call (InterfaceContext (Interface s))] else []) @
             (case Nmr (Interface s) of
                None \<Rightarrow> []
              | Some p \<Rightarrow>
                  XdpCloseProvider (NmrHandle (the (NmrPool s p))) #
                  (if DetachNotification (the (NmrPool s p)) then []
                   else XdpInsertWorkQueue (WorkQueue (Interface s)) (NmrWorkItem p) #
                     (if ReferenceCount (Interface s) = 0 then
                        (case WorkQueue (Interface s) of Some q \<Rightarrow> [XdpShutdownWorkQueue q]
                         | None \<Rightarrow> []) @ [ExFreePoolWithTag_IF]
                      else [])) @
                  XdpCleanupProvider (NmrHandle (the (NmrPool s p))) #
                  (if NmrReferenceCount (the (NmrPool s p)) = 1 then [ExFreePoolWithTag_NMR p]
                   else [])) @
             (if BindingDeleting (Interface s) \<and> XdpIfInterfaceContext (Interface s) \<noteq> None
              then [RemoveInterfaceComplete_call (XdpIfInterfaceContext (Interface s))]
              else [])"
    by blast
  have run: "XdpIfpStartRundown s = Some (XdpIfpStartRundown_loop s1)"
    using True s1 by (simp add: XdpIfpStartRundown_def)
  from XdpIfpStartRundown_loop_exact [of s1] True show ?thesis
    unfolding run by (simp only: i1 p1 c1) (simp cong: if_cong)
qed

theorem XdpIfpStartRundown_effects_witness:
  "ProviderReference (Interface ex_open) = 0 \<and>
   InterfaceDispatch (Interface ex_open) \<noteq> None \<and> NmrPool ex_open 10 \<noteq> None \<and>
   (\<exists>s'. XdpIfpStartRundown ex_open = Some s' \<and>
      Clients (Interface s') = [] \<and> ReferenceCount (Interface s') = 2 \<and>
      Nmr (Interface s') = None \<and> InterfaceContext (Interface s') = None \<and>
      NmrPool s' = [10 \<mapsto> \<lparr>NmrHandle = None, DetachNotification = True,
                              NmrReferenceCount = 1\<rparr>] \<and>
      Calls s' = [CloseInterface_call (Some 50), XdpCloseProvider (Some 11),
                  XdpInsertWorkQueue (Some 30) (NmrWorkItem 10), XdpCleanupProvider (Some 11),
                  BindingDetached 200, BindingDetached 202]) \<and>
   ProviderReference (Interface ex_busy) = 1 \<and>
   (\<exists>s'. XdpIfpStartRundown ex_busy = Some s' \<and>
      Clients (Interface s') = [] \<and> ReferenceCount (Interface s') = 2 \<and>
      Nmr (Interface s') = Some 10 \<and> InterfaceContext (Interface s') = Some 50 \<and>
      NmrPool s' = [10 \<mapsto> ex_nmr] \<and>
      Calls s' = [BindingDetached 200, BindingDetached 202]) \<and>
   (\<exists>s'. XdpIfpStartRundown
            (ex_open\<lparr>Interface := ex_open_interface\<lparr>ProviderReference := 1,
               ReferenceCount := 2\<rparr>\<rparr>) = Some s' \<and>
      Clients (Interface s') = [] \<and> ReferenceCount (Interface s') = 0 \<and>
      Calls s' = [BindingDetached 200, BindingDetached 202, XdpShutdownWorkQueue 30,
                  ExFreePoolWithTag_IF])"
proof -
  have h1: "ProviderReference (Interface ex_open) = 0 \<longrightarrow>
      (InterfaceContext (Interface ex_open) \<noteq> None \<longrightarrow>
         InterfaceDispatch (Interface ex_open) \<noteq> None) \<and>
      (\<forall>p. Nmr (Interface ex_open) = Some p \<longrightarrow> NmrPool ex_open p \<noteq> None)"
    by (simp add: ex_open_def ex_open_interface_def ex_interface_def)
  have h2: "ProviderReference (Interface ex_busy) = 0 \<longrightarrow>
      (InterfaceContext (Interface ex_busy) \<noteq> None \<longrightarrow>
         InterfaceDispatch (Interface ex_busy) \<noteq> None) \<and>
      (\<forall>p. Nmr (Interface ex_busy) = Some p \<longrightarrow> NmrPool ex_busy p \<noteq> None)"
    by (simp add: ex_busy_def ex_open_def ex_open_interface_def ex_interface_def)
  let ?last = "ex_open\<lparr>Interface := ex_open_interface\<lparr>ProviderReference := 1,
               ReferenceCount := 2\<rparr>\<rparr>"
  have h3: "ProviderReference (Interface ?last) = 0 \<longrightarrow>
      (InterfaceContext (Interface ?last) \<noteq> None \<longrightarrow>
         InterfaceDispatch (Interface ?last) \<noteq> None) \<and>
      (\<forall>p. Nmr (Interface ?last) = Some p \<longrightarrow> NmrPool ?last p \<noteq> None)"
    by simp
  have u: "[0..<2] = [0, 1]" by (simp add: upt_rec)
  have a: "\<exists>s'. XdpIfpStartRundown ex_open = Some s' \<and>
      Clients (Interface s') = [] \<and> ReferenceCount (Interface s') = 2 \<and>
      Nmr (Interface s') = None \<and> InterfaceContext (Interface s') = None \<and>
      NmrPool s' = [10 \<mapsto> \<lparr>NmrHandle = None, DetachNotification = True,
                              NmrReferenceCount = 1\<rparr>] \<and>
      Calls s' = [CloseInterface_call (Some 50), XdpCloseProvider (Some 11),
                  XdpInsertWorkQueue (Some 30) (NmrWorkItem 10), XdpCleanupProvider (Some 11),
                  BindingDetached 200, BindingDetached 202]"
    using XdpIfpStartRundown_effects [OF h1]
    by (auto simp add: ex_open_def ex_open_interface_def ex_interface_def
        ex_entry_A_def ex_entry_B_def ex_nmr_def ex_dispatch_def u)
  have b: "\<exists>s'. XdpIfpStartRundown ex_busy = Some s' \<and>
      Clients (Interface s') = [] \<and> ReferenceCount (Interface s') = 2 \<and>
      Nmr (Interface s') = Some 10 \<and> InterfaceContext (Interface s') = Some 50 \<and>
      NmrPool s' = [10 \<mapsto> ex_nmr] \<and>
      Calls s' = [BindingDetached 200, BindingDetached 202]"
    using XdpIfpStartRundown_effects [OF h2]
    by (auto simp add: ex_busy_def ex_open_def ex_open_interface_def ex_interface_def
        ex_entry_A_def ex_entry_B_def u)
  have c: "\<exists>s'. XdpIfpStartRundown ?last = Some s' \<and>
      Clients (Interface s') = [] \<and> ReferenceCount (Interface s') = 0 \<and>
      Calls s' = [BindingDetached 200, BindingDetached 202, XdpShutdownWorkQueue 30,
                  ExFreePoolWithTag_IF]"
    using XdpIfpStartRundown_effects [OF h3]
    by (auto simp add: ex_open_def ex_open_interface_def ex_interface_def
        ex_entry_A_def ex_entry_B_def u)
  from a b c show ?thesis
    by (simp add: ex_busy_def ex_open_def ex_open_interface_def ex_interface_def)
qed
section \<open>The NMR context: proofs\<close>

lemma XdpIfpOpenInterface_success:
  assumes "XdpIfpOpenInterface K env s = Some (St, s')" and "NT_SUCCESS St"
  shows "\<exists>p. ExAllocatePoolZero_NMR env = Some p \<and> Nmr (Interface s') = Some p \<and>
           NmrPool s' p =
             Some \<lparr>NmrHandle = snd (XdpOpenProvider env), DetachNotification = False,
                   NmrReferenceCount = 2\<rparr>"
proof -
  have exit_ok: "St = Status \<and> u = t"
    if "XdpIfpOpenInterface_Exit Status t = Some (St, u)" for Status t u
  proof -
    from XdpIfpOpenInterface_Exit_frame [OF that] have "St = Status" by simp
    with assms(2) that show ?thesis by (simp add: XdpIfpOpenInterface_Exit_def)
  qed
  from assms show ?thesis
    by (auto simp: XdpIfpOpenInterface_def Let_def
        split: if_splits option.splits bind_splits dest!: exit_ok)
qed

lemma XdpIfpOpenInterface_no_handle:
  assumes caps: "\<not> (Revision (Header (CapabilitiesEx (Capabilities (Interface s)))) <
                    XDP_CAPABILITIES_EX_REVISION_1 K \<or>
                  Size (Header (CapabilitiesEx (Capabilities (Interface s)))) <
                    XDP_SIZEOF_CAPABILITIES_EX_REVISION_1 K)"
    and alloc: "ExAllocatePoolZero_NMR env = Some p"
    and fail: "\<not> NT_SUCCESS (fst (XdpOpenProvider env))"
    and handle: "snd (XdpOpenProvider env) = None"
  shows "\<exists>s'. XdpIfpOpenInterface K env s = Some (fst (XdpOpenProvider env), s') \<and>
           NmrPool s' = (NmrPool s)(p := None) \<and>
           Interface s' = (Interface s)\<lparr>Nmr := None\<rparr> \<and>
           ExFreePoolWithTag_NMR p \<in> set (drop (length (Calls s)) (Calls s')) \<and>
           (\<forall>h. XdpCloseProvider h \<in> set (Calls s') \<longrightarrow> XdpCloseProvider h \<in> set (Calls s)) \<and>
           (\<forall>q w. XdpInsertWorkQueue q w \<in> set (Calls s') \<longrightarrow>
                  XdpInsertWorkQueue q w \<in> set (Calls s))"
  using assms
  by (simp add: XdpIfpOpenInterface_def XdpIfpOpenInterface_Exit_def Let_def
      deref_binding_Calls split: option.splits)

lemma XdpIfpInterfaceNmrDelete_closed:
  assumes "NmrPool t p = Some N" and "NmrHandle N = None"
  shows "XdpIfpInterfaceNmrDelete p t = XdpIfpDereferenceNmr p t"
  using assms by (simp add: XdpIfpInterfaceNmrDelete_def)

lemma XdpIfpInterfaceNmrDelete_busy:
  assumes N: "NmrPool t p = Some N" and h: "NmrHandle N \<noteq> None"
    and pr: "ProviderReference (Interface t) \<noteq> 0"
  shows "\<exists>t1. XdpIfpInterfaceNmrDelete p t = Some t1 \<and>
           NmrPool t1 =
             (if NmrReferenceCount N = 1 then (NmrPool t)(p := None)
              else (NmrPool t)(p \<mapsto> N\<lparr>NmrReferenceCount := NmrReferenceCount N - 1\<rparr>)) \<and>
           Nmr (Interface t1) = Nmr (Interface t)"
proof -
  let ?u = "modify (\<lambda>Ifc. Ifc\<lparr>NmrDeleting := True\<rparr>) t"
  let ?l = "XdpIfpStartRundown_loop ?u"
  have r: "XdpIfpStartRundown ?u = Some ?l"
    using pr by (simp add: XdpIfpStartRundown_def)
  from XdpIfpStartRundown_loop_effects [of ?u]
  have l: "NmrPool ?l = NmrPool t" "Nmr (Interface ?l) = Nmr (Interface t)" by simp_all
  with N have Nl: "NmrPool ?l p = Some N" by simp
  have "XdpIfpInterfaceNmrDelete p t = XdpIfpDereferenceNmr p ?l"
    using N h r by (simp add: XdpIfpInterfaceNmrDelete_def)
  then show ?thesis
    unfolding XdpIfpDereferenceNmr_Some [OF Nl] using l by simp
qed

lemma XdpIfpInterfaceNmrDelete_idle:
  assumes p: "Nmr (Interface t) = Some p" and N: "NmrPool t p = Some N"
    and c: "NmrReferenceCount N = 2" and h: "NmrHandle N \<noteq> None"
    and pr: "ProviderReference (Interface t) = 0"
    and d: "InterfaceContext (Interface t) \<noteq> None \<longrightarrow> InterfaceDispatch (Interface t) \<noteq> None"
  shows "\<exists>t1. XdpIfpInterfaceNmrDelete p t = Some t1 \<and> NmrPool t1 p = None \<and>
           Nmr (Interface t1) = None"
proof -
  let ?u = "modify (\<lambda>Ifc. Ifc\<lparr>NmrDeleting := True\<rparr>) t"
  have du: "InterfaceContext (Interface ?u) \<noteq> None \<longrightarrow>
              InterfaceDispatch (Interface ?u) \<noteq> None"
    using d by simp
  have nu: "\<forall>q. Nmr (Interface ?u) = Some q \<longrightarrow> NmrPool ?u q \<noteq> None"
    using p N by simp
  from XdpIfpCloseInterface_defined [OF du nu] p N c obtain s1 where
    s1: "XdpIfpCloseInterface ?u = Some s1"
    and p1: "NmrPool s1 =
               (NmrPool t)(p \<mapsto> \<lparr>NmrHandle = None, DetachNotification = True,
                                 NmrReferenceCount = 1\<rparr>)"
    by auto
  from XdpIfpCloseInterface_frame [OF s1] have n1: "Nmr (Interface s1) = None" by simp
  let ?l = "XdpIfpStartRundown_loop s1"
  have r: "XdpIfpStartRundown ?u = Some ?l"
    using pr s1 by (simp add: XdpIfpStartRundown_def)
  from XdpIfpStartRundown_loop_effects [of s1] p1 n1
  have Nl: "NmrPool ?l p =
              Some \<lparr>NmrHandle = None, DetachNotification = True, NmrReferenceCount = 1\<rparr>"
    and nl: "Nmr (Interface ?l) = None"
    by simp_all
  have "XdpIfpInterfaceNmrDelete p t = XdpIfpDereferenceNmr p ?l"
    using N h r by (simp add: XdpIfpInterfaceNmrDelete_def)
  then show ?thesis
    unfolding XdpIfpDereferenceNmr_Some [OF Nl] using nl by simp
qed

text \<open>
  Claim C6, as amended. The reference count of the NMR context:
  \<^item> after \<^verbatim>\<open>XdpIfpOpenInterface\<close> succeeded, the binding's attachment is the context that
    was allocated, and its count is 2;
  \<^item> \<^verbatim>\<open>XdpIfpDereferenceNmr\<close> on a live context lowers the count by one and frees the
    context exactly when the count has reached zero;
  \<^item> for an attachment with count 2, the close path (\<^verbatim>\<open>XdpIfpCloseNmrInterface\<close>) and the
    work item of the detach notification (\<^verbatim>\<open>XdpIfpInterfaceNmrDelete\<close>) release one
    reference each, in either order: after the first of them the context is still there
    with count 1, after the second it is freed. When the work item runs first on a binding
    without provider references, its rundown runs the close path itself, and the context
    is freed when the work item returns;
  \<^item> the exception: when \<^verbatim>\<open>XdpOpenProvider\<close> fails and leaves no handle,
    \<^verbatim>\<open>XdpIfpOpenInterface\<close> frees the context it has just allocated itself, with neither
    \<^verbatim>\<open>XdpCloseProvider\<close> called nor a work item queued.
\<close>

theorem NMR_context_reference_count:
  "(XdpIfpOpenInterface K env s = Some (St, s') \<and> NT_SUCCESS St \<longrightarrow>
      (\<exists>a. ExAllocatePoolZero_NMR env = Some a \<and> Nmr (Interface s') = Some a \<and>
           NmrPool s' a =
             Some \<lparr>NmrHandle = snd (XdpOpenProvider env), DetachNotification = False,
                   NmrReferenceCount = 2\<rparr>)) \<and>
   (NmrPool t p = Some N \<longrightarrow>
      (\<exists>u. XdpIfpDereferenceNmr p t = Some u \<and> Interface u = Interface t \<and>
           (NmrReferenceCount N = 1 \<longrightarrow>
              NmrPool u p = None \<and> Calls u = Calls t @ [ExFreePoolWithTag_NMR p]) \<and>
           (NmrReferenceCount N \<noteq> 1 \<longrightarrow>
              NmrPool u p = Some (N\<lparr>NmrReferenceCount := NmrReferenceCount N - 1\<rparr>) \<and>
              Calls u = Calls t))) \<and>
   (Nmr (Interface t) = Some p \<and> NmrPool t p = Some N \<and> NmrReferenceCount N = 2 \<longrightarrow>
      (\<exists>u v. XdpIfpCloseNmrInterface t = Some u \<and>
             NmrPool u p =
               Some \<lparr>NmrHandle = None, DetachNotification = True, NmrReferenceCount = 1\<rparr> \<and>
             XdpIfpInterfaceNmrDelete p u = Some v \<and> NmrPool v p = None)) \<and>
   (Nmr (Interface t) = Some p \<and> NmrPool t p = Some N \<and> NmrReferenceCount N = 2 \<and>
    NmrHandle N \<noteq> None \<and> ProviderReference (Interface t) \<noteq> 0 \<longrightarrow>
      (\<exists>u v. XdpIfpInterfaceNmrDelete p t = Some u \<and>
             NmrPool u p = Some (N\<lparr>NmrReferenceCount := 1\<rparr>) \<and>
             XdpIfpCloseNmrInterface u = Some v \<and> NmrPool v p = None)) \<and>
   (Nmr (Interface t) = Some p \<and> NmrPool t p = Some N \<and> NmrReferenceCount N = 2 \<and>
    NmrHandle N \<noteq> None \<and> ProviderReference (Interface t) = 0 \<and>
    (InterfaceContext (Interface t) \<noteq> None \<longrightarrow> InterfaceDispatch (Interface t) \<noteq> None) \<longrightarrow>
      (\<exists>u. XdpIfpInterfaceNmrDelete p t = Some u \<and> NmrPool u p = None \<and>
           Nmr (Interface u) = None)) \<and>
   (\<not> (Revision (Header (CapabilitiesEx (Capabilities (Interface s)))) <
          XDP_CAPABILITIES_EX_REVISION_1 K \<or>
        Size (Header (CapabilitiesEx (Capabilities (Interface s)))) <
          XDP_SIZEOF_CAPABILITIES_EX_REVISION_1 K) \<and>
    ExAllocatePoolZero_NMR env = Some p \<and> \<not> NT_SUCCESS (fst (XdpOpenProvider env)) \<and>
    snd (XdpOpenProvider env) = None \<longrightarrow>
      (\<exists>u. XdpIfpOpenInterface K env s = Some (fst (XdpOpenProvider env), u) \<and>
           NmrPool u = (NmrPool s)(p := None) \<and> Interface u = (Interface s)\<lparr>Nmr := None\<rparr> \<and>
           ExFreePoolWithTag_NMR p \<in> set (drop (length (Calls s)) (Calls u)) \<and>
           (\<forall>h. XdpCloseProvider h \<in> set (Calls u) \<longrightarrow> XdpCloseProvider h \<in> set (Calls s)) \<and>
           (\<forall>q w. XdpInsertWorkQueue q w \<in> set (Calls u) \<longrightarrow>
                  XdpInsertWorkQueue q w \<in> set (Calls s))))"
proof -
  have deref: "\<exists>u. XdpIfpDereferenceNmr p t = Some u \<and> Interface u = Interface t \<and>
      (NmrReferenceCount N = 1 \<longrightarrow>
         NmrPool u p = None \<and> Calls u = Calls t @ [ExFreePoolWithTag_NMR p]) \<and>
      (NmrReferenceCount N \<noteq> 1 \<longrightarrow>
         NmrPool u p = Some (N\<lparr>NmrReferenceCount := NmrReferenceCount N - 1\<rparr>) \<and>
         Calls u = Calls t)"
    if "NmrPool t p = Some N"
    unfolding XdpIfpDereferenceNmr_Some [OF that] by simp
  have close_first: "\<exists>u v. XdpIfpCloseNmrInterface t = Some u \<and>
      NmrPool u p =
        Some \<lparr>NmrHandle = None, DetachNotification = True, NmrReferenceCount = 1\<rparr> \<and>
      XdpIfpInterfaceNmrDelete p u = Some v \<and> NmrPool v p = None"
    if a: "Nmr (Interface t) = Some p" "NmrPool t p = Some N" "NmrReferenceCount N = 2"
  proof -
    from XdpIfpCloseNmrInterface_Some [OF a(1,2)] a(3) obtain u where
      u: "XdpIfpCloseNmrInterface t = Some u"
      "NmrPool u p =
         Some \<lparr>NmrHandle = None, DetachNotification = True, NmrReferenceCount = 1\<rparr>"
      by auto
    have "XdpIfpInterfaceNmrDelete p u = XdpIfpDereferenceNmr p u"
      by (rule XdpIfpInterfaceNmrDelete_closed [OF u(2)]) simp
    with u show ?thesis
      unfolding XdpIfpDereferenceNmr_Some [OF u(2)] by simp
  qed
  have item_first: "\<exists>u v. XdpIfpInterfaceNmrDelete p t = Some u \<and>
      NmrPool u p = Some (N\<lparr>NmrReferenceCount := 1\<rparr>) \<and>
      XdpIfpCloseNmrInterface u = Some v \<and> NmrPool v p = None"
    if a: "Nmr (Interface t) = Some p" "NmrPool t p = Some N" "NmrReferenceCount N = 2"
      "NmrHandle N \<noteq> None" "ProviderReference (Interface t) \<noteq> 0"
  proof -
    from XdpIfpInterfaceNmrDelete_busy [OF a(2,4,5)] a(1,3) obtain u where
      u: "XdpIfpInterfaceNmrDelete p t = Some u"
      "NmrPool u p = Some (N\<lparr>NmrReferenceCount := 1\<rparr>)" "Nmr (Interface u) = Some p"
      by auto
    from XdpIfpCloseNmrInterface_Some [OF u(3,2)] obtain v where
      "XdpIfpCloseNmrInterface u = Some v" "NmrPool v p = None"
      by auto
    with u show ?thesis by blast
  qed
  from XdpIfpOpenInterface_success [of K env s St s'] deref close_first item_first
    XdpIfpInterfaceNmrDelete_idle [of t p N] XdpIfpOpenInterface_no_handle [of s K env p]
  show ?thesis by blast
qed

theorem NMR_context_reference_count_witness:
  "(\<exists>u v. XdpIfpCloseNmrInterface ex_busy = Some u \<and>
      NmrPool u 10 =
        Some \<lparr>NmrHandle = None, DetachNotification = True, NmrReferenceCount = 1\<rparr> \<and>
      XdpIfpInterfaceNmrDelete 10 u = Some v \<and> NmrPool v 10 = None) \<and>
   (\<exists>u v. XdpIfpInterfaceNmrDelete 10 ex_busy = Some u \<and>
      NmrPool u 10 = Some (ex_nmr\<lparr>NmrReferenceCount := 1\<rparr>) \<and>
      XdpIfpCloseNmrInterface u = Some v \<and> NmrPool v 10 = None) \<and>
   (\<exists>u. XdpIfpInterfaceNmrDelete 10 ex_open = Some u \<and> NmrPool u 10 = None) \<and>
   (\<exists>u. XdpIfpOpenInterface ex_consts ex_provider_absent ex_binding =
           Some (STATUS_NOT_SUPPORTED, u) \<and>
        NmrPool u 10 = None \<and> ExFreePoolWithTag_NMR 10 \<in> set (Calls u))"
proof -
  note busy = NMR_context_reference_count
    [where t = ex_busy and p = 10 and N = ex_nmr and s = ex_binding and K = ex_consts
       and env = ex_provider_absent and St = 0 and s' = ex_binding]
  note idle = NMR_context_reference_count
    [where t = ex_open and p = 10 and N = ex_nmr and s = ex_binding and K = ex_consts
       and env = ex_provider_absent and St = 0 and s' = ex_binding]
  have hb: "Nmr (Interface ex_busy) = Some 10 \<and> NmrPool ex_busy 10 = Some ex_nmr \<and>
      NmrReferenceCount ex_nmr = 2 \<and> NmrHandle ex_nmr \<noteq> None \<and>
      ProviderReference (Interface ex_busy) \<noteq> 0"
    by (simp add: ex_defs)
  have ho: "Nmr (Interface ex_open) = Some 10 \<and> NmrPool ex_open 10 = Some ex_nmr \<and>
      NmrReferenceCount ex_nmr = 2 \<and> NmrHandle ex_nmr \<noteq> None \<and>
      ProviderReference (Interface ex_open) = 0 \<and>
      (InterfaceContext (Interface ex_open) \<noteq> None \<longrightarrow>
         InterfaceDispatch (Interface ex_open) \<noteq> None)"
    by (simp add: ex_defs)
  have hx: "\<not> (Revision (Header (CapabilitiesEx (Capabilities (Interface ex_binding)))) <
          XDP_CAPABILITIES_EX_REVISION_1 ex_consts \<or>
        Size (Header (CapabilitiesEx (Capabilities (Interface ex_binding)))) <
          XDP_SIZEOF_CAPABILITIES_EX_REVISION_1 ex_consts) \<and>
      ExAllocatePoolZero_NMR ex_provider_absent = Some 10 \<and>
      \<not> NT_SUCCESS (fst (XdpOpenProvider ex_provider_absent)) \<and>
      snd (XdpOpenProvider ex_provider_absent) = None"
    by (simp add: ex_defs)
  have a: "\<exists>u v. XdpIfpCloseNmrInterface ex_busy = Some u \<and>
      NmrPool u 10 =
        Some \<lparr>NmrHandle = None, DetachNotification = True, NmrReferenceCount = 1\<rparr> \<and>
      XdpIfpInterfaceNmrDelete 10 u = Some v \<and> NmrPool v 10 = None"
    using busy [THEN conjunct2, THEN conjunct2, THEN conjunct1] hb by simp
  have b: "\<exists>u v. XdpIfpInterfaceNmrDelete 10 ex_busy = Some u \<and>
      NmrPool u 10 = Some (ex_nmr\<lparr>NmrReferenceCount := 1\<rparr>) \<and>
      XdpIfpCloseNmrInterface u = Some v \<and> NmrPool v 10 = None"
    using busy [THEN conjunct2, THEN conjunct2, THEN conjunct2, THEN conjunct1] hb by simp
  have c: "\<exists>u. XdpIfpInterfaceNmrDelete 10 ex_open = Some u \<and> NmrPool u 10 = None"
    using idle [THEN conjunct2, THEN conjunct2, THEN conjunct2, THEN conjunct2,
      THEN conjunct1] ho by blast
  have "fst (XdpOpenProvider ex_provider_absent) = STATUS_NOT_SUPPORTED"
    by (simp add: ex_defs)
  with busy [THEN conjunct2, THEN conjunct2, THEN conjunct2, THEN conjunct2,
      THEN conjunct2] hx
  have d: "\<exists>u. XdpIfpOpenInterface ex_consts ex_provider_absent ex_binding =
           Some (STATUS_NOT_SUPPORTED, u) \<and>
        NmrPool u 10 = None \<and> ExFreePoolWithTag_NMR 10 \<in> set (Calls u)"
    by (auto simp: ex_binding_def dest: in_set_dropD)
  from a b c d show ?thesis by blast
qed

text \<open>
  The claim as stated fails: here \<^verbatim>\<open>XdpOpenProvider\<close> fails without leaving a handle. The
  NMR context at address 10 is allocated, gets the count 2, and is freed by
  \<^verbatim>\<open>XdpIfpOpenInterface\<close> itself: the only call made is the one that frees it, so neither
  the close path nor the work item has released a reference, and at the label \<^verbatim>\<open>Exit\<close>
  the context still has the count 2.
\<close>

theorem NMR_context_freed_at_count_two:
  "XdpIfpOpenInterface ex_consts ex_provider_absent ex_binding =
     Some (STATUS_NOT_SUPPORTED, ex_binding\<lparr>Calls := [ExFreePoolWithTag_NMR 10]\<rparr>) \<and>
   NmrPool ex_at_exit 10 =
     Some \<lparr>NmrHandle = None, DetachNotification = False, NmrReferenceCount = 2\<rparr> \<and>
   XdpIfpOpenInterface_Exit STATUS_NOT_SUPPORTED ex_at_exit =
     Some (STATUS_NOT_SUPPORTED, ex_binding\<lparr>Calls := [ExFreePoolWithTag_NMR 10]\<rparr>) \<and>
   NmrPool (ex_binding\<lparr>Calls := [ExFreePoolWithTag_NMR 10]\<rparr>) 10 = None"
  by (simp add: binding_defs ex_defs ex_at_exit_def Let_def)

section \<open>Provider references: proofs\<close>

lemma XdpIfpOpenInterface_frame:
  assumes "XdpIfpOpenInterface K env s = Some (St, s')"
  shows "ProviderReference (Interface s') = ProviderReference (Interface s)"
  using assms
  by (auto simp: XdpIfpOpenInterface_def Let_def
      split: if_splits option.splits bind_splits dest!: XdpIfpOpenInterface_Exit_frame)

lemma XdpIfpReferenceProvider_count:
  assumes "XdpIfpReferenceProvider K env s = Some (St, s1)"
  shows "(NT_SUCCESS St \<longrightarrow>
            St = STATUS_SUCCESS \<and>
            ProviderReference (Interface s1) = ProviderReference (Interface s) + 1) \<and>
         (\<not> NT_SUCCESS St \<longrightarrow>
            ProviderReference (Interface s1) = ProviderReference (Interface s))"
  using assms
  by (auto simp: XdpIfpReferenceProvider_def
      split: if_splits bind_splits dest!: XdpIfpOpenInterface_frame)

lemma XdpIfpDereferenceProvider_count:
  assumes "XdpIfpDereferenceProvider s = Some s'"
  shows "ProviderReference (Interface s') = ProviderReference (Interface s) - 1"
  using assms
  by (auto simp: XdpIfpDereferenceProvider_def Let_def
      split: if_splits dest!: XdpIfpCloseInterface_frame)

lemma XdpIfCreateRxQueue_count:
  assumes "XdpIfCreateRxQueue K env s Config = Some (St, q, d, s')"
  shows "(\<not> NT_SUCCESS St \<longrightarrow>
            ProviderReference (Interface s') = ProviderReference (Interface s)) \<and>
         (NT_SUCCESS St \<longrightarrow>
            ProviderReference (Interface s') = ProviderReference (Interface s) + 1)"
proof -
  from assms obtain St0 s1 where
    r: "XdpIfpReferenceProvider K env s = Some (St0, s1)"
    by (auto simp: XdpIfCreateRxQueue_def split: bind_splits)
  note c = XdpIfpReferenceProvider_count [OF r]
  show ?thesis
  proof (cases "NT_SUCCESS St0")
    case False
    with assms r c show ?thesis by (simp add: XdpIfCreateRxQueue_def)
  next
    case True
    with assms r obtain St1 q1 d1 where
      i: "XdpIfpInvokeCreateRxQueue s1 Config = Some (St1, q1, d1)"
      by (auto simp: XdpIfCreateRxQueue_def split: bind_splits)
    show ?thesis
    proof (cases "NT_SUCCESS St1")
      case True
      with assms r i \<open>NT_SUCCESS St0\<close> c show ?thesis
        by (auto simp: XdpIfCreateRxQueue_def split: if_splits)
    next
      case False
      with assms r i \<open>NT_SUCCESS St0\<close> obtain s2 where
        "XdpIfpDereferenceProvider s1 = Some s2" "s' = s2" "St = St1"
        by (auto simp: XdpIfCreateRxQueue_def split: bind_splits)
      with XdpIfpDereferenceProvider_count [of s1 s2] c \<open>NT_SUCCESS St0\<close> False
      show ?thesis by simp
    qed
  qed
qed

lemma XdpIfCreateTxQueue_count:
  assumes "XdpIfCreateTxQueue K env s Config = Some (St, q, d, s')"
  shows "(\<not> NT_SUCCESS St \<longrightarrow>
            ProviderReference (Interface s') = ProviderReference (Interface s)) \<and>
         (NT_SUCCESS St \<longrightarrow>
            ProviderReference (Interface s') = ProviderReference (Interface s) + 1)"
proof -
  from assms obtain St0 s1 where
    r: "XdpIfpReferenceProvider K env s = Some (St0, s1)"
    by (auto simp: XdpIfCreateTxQueue_def split: bind_splits)
  note c = XdpIfpReferenceProvider_count [OF r]
  show ?thesis
  proof (cases "NT_SUCCESS St0")
    case False
    with assms r c show ?thesis by (simp add: XdpIfCreateTxQueue_def)
  next
    case True
    with assms r obtain St1 q1 d1 where
      i: "XdpIfpInvokeCreateTxQueue s1 Config = Some (St1, q1, d1)"
      by (auto simp: XdpIfCreateTxQueue_def split: bind_splits)
    show ?thesis
    proof (cases "NT_SUCCESS St1")
      case True
      with assms r i \<open>NT_SUCCESS St0\<close> c show ?thesis
        by (auto simp: XdpIfCreateTxQueue_def split: if_splits)
    next
      case False
      with assms r i \<open>NT_SUCCESS St0\<close> obtain s2 where
        "XdpIfpDereferenceProvider s1 = Some s2" "s' = s2" "St = St1"
        by (auto simp: XdpIfCreateTxQueue_def split: bind_splits)
      with XdpIfpDereferenceProvider_count [of s1 s2] c \<open>NT_SUCCESS St0\<close> False
      show ?thesis by simp
    qed
  qed
qed

text \<open>
  Claim C7. For \<^verbatim>\<open>XdpIfCreateRxQueue\<close> and \<^verbatim>\<open>XdpIfCreateTxQueue\<close>:
  \<^item> a call that returns a failure leaves the provider reference count as it was, and one
    that returns a success leaves it one higher;
  \<^item> on a binding that is not in rundown and has no interface context, the provider is
    opened first, and when that fails its status is returned, with no queue and the state
    the open left;
  \<^item> when the provider reference was taken and the provider's create routine fails, the
    count was one higher when the routine was called, the reference is released with
    \<^verbatim>\<open>XdpIfpDereferenceProvider\<close>, and the routine's status and out parameters are returned.
\<close>

theorem XdpIfCreateQueue_failure_keeps_ProviderReference:
  "(XdpIfCreateRxQueue K env s Config = Some (St, q, d, s') \<longrightarrow>
      (\<not> NT_SUCCESS St \<longrightarrow>
         ProviderReference (Interface s') = ProviderReference (Interface s)) \<and>
      (NT_SUCCESS St \<longrightarrow>
         ProviderReference (Interface s') = ProviderReference (Interface s) + 1)) \<and>
   (XdpIfCreateTxQueue K env s Config = Some (St, q, d, s') \<longrightarrow>
      (\<not> NT_SUCCESS St \<longrightarrow>
         ProviderReference (Interface s') = ProviderReference (Interface s)) \<and>
      (NT_SUCCESS St \<longrightarrow>
         ProviderReference (Interface s') = ProviderReference (Interface s) + 1)) \<and>
   (\<not> Rundown (Interface s) \<and> InterfaceContext (Interface s) = None \<and>
    XdpIfpOpenInterface K env s = Some (OpenStatus, so) \<and> \<not> NT_SUCCESS OpenStatus \<longrightarrow>
      XdpIfCreateRxQueue K env s Config = Some (OpenStatus, None, None, so) \<and>
      XdpIfCreateTxQueue K env s Config = Some (OpenStatus, None, None, so) \<and>
      ProviderReference (Interface so) = ProviderReference (Interface s)) \<and>
   (XdpIfpReferenceProvider K env s = Some (STATUS_SUCCESS, sr) \<and>
    InterfaceDispatch (Interface sr) = Some D \<longrightarrow>
      ProviderReference (Interface sr) = ProviderReference (Interface s) + 1 \<and>
      (\<not> NT_SUCCESS (fst (CreateRxQueue D (InterfaceContext (Interface sr)) Config)) \<longrightarrow>
         XdpIfCreateRxQueue K env s Config =
           map_option
             (\<lambda>t. (fst (CreateRxQueue D (InterfaceContext (Interface sr)) Config),
                   fst (snd (CreateRxQueue D (InterfaceContext (Interface sr)) Config)),
                   snd (snd (CreateRxQueue D (InterfaceContext (Interface sr)) Config)), t))
             (XdpIfpDereferenceProvider sr)) \<and>
      (\<not> NT_SUCCESS (fst (CreateTxQueue D (InterfaceContext (Interface sr)) Config)) \<longrightarrow>
         XdpIfCreateTxQueue K env s Config =
           map_option
             (\<lambda>t. (fst (CreateTxQueue D (InterfaceContext (Interface sr)) Config),
                   fst (snd (CreateTxQueue D (InterfaceContext (Interface sr)) Config)),
                   snd (snd (CreateTxQueue D (InterfaceContext (Interface sr)) Config)), t))
             (XdpIfpDereferenceProvider sr)))"
proof -
  have open_fails: "XdpIfCreateRxQueue K env s Config = Some (OpenStatus, None, None, so) \<and>
      XdpIfCreateTxQueue K env s Config = Some (OpenStatus, None, None, so) \<and>
      ProviderReference (Interface so) = ProviderReference (Interface s)"
    if "\<not> Rundown (Interface s)" "InterfaceContext (Interface s) = None"
      "XdpIfpOpenInterface K env s = Some (OpenStatus, so)" "\<not> NT_SUCCESS OpenStatus"
    using that XdpIfpOpenInterface_frame [of K env s OpenStatus so]
    by (simp add: XdpIfCreateRxQueue_def XdpIfCreateTxQueue_def XdpIfpReferenceProvider_def)
  have taken: "ProviderReference (Interface sr) = ProviderReference (Interface s) + 1"
    if "XdpIfpReferenceProvider K env s = Some (STATUS_SUCCESS, sr)"
    using XdpIfpReferenceProvider_count [OF that] by simp
  have rx: "XdpIfCreateRxQueue K env s Config =
      map_option
        (\<lambda>t. (fst (CreateRxQueue D (InterfaceContext (Interface sr)) Config),
              fst (snd (CreateRxQueue D (InterfaceContext (Interface sr)) Config)),
              snd (snd (CreateRxQueue D (InterfaceContext (Interface sr)) Config)), t))
        (XdpIfpDereferenceProvider sr)"
    if "XdpIfpReferenceProvider K env s = Some (STATUS_SUCCESS, sr)"
      "InterfaceDispatch (Interface sr) = Some D"
      "\<not> NT_SUCCESS (fst (CreateRxQueue D (InterfaceContext (Interface sr)) Config))"
    using that
    by (cases "XdpIfpDereferenceProvider sr")
       (simp_all add: XdpIfCreateRxQueue_def XdpIfpInvokeCreateRxQueue_def split_beta)
  have tx: "XdpIfCreateTxQueue K env s Config =
      map_option
        (\<lambda>t. (fst (CreateTxQueue D (InterfaceContext (Interface sr)) Config),
              fst (snd (CreateTxQueue D (InterfaceContext (Interface sr)) Config)),
              snd (snd (CreateTxQueue D (InterfaceContext (Interface sr)) Config)), t))
        (XdpIfpDereferenceProvider sr)"
    if "XdpIfpReferenceProvider K env s = Some (STATUS_SUCCESS, sr)"
      "InterfaceDispatch (Interface sr) = Some D"
      "\<not> NT_SUCCESS (fst (CreateTxQueue D (InterfaceContext (Interface sr)) Config))"
    using that
    by (cases "XdpIfpDereferenceProvider sr")
       (simp_all add: XdpIfCreateTxQueue_def XdpIfpInvokeCreateTxQueue_def split_beta)
  from XdpIfCreateRxQueue_count [of K env s Config St q d s']
       XdpIfCreateTxQueue_count [of K env s Config St q d s'] open_fails taken rx tx
  show ?thesis by blast
qed

lemma ex_open_refused:
  "\<exists>s1. XdpIfpOpenInterface ex_consts ex_provider_refusing ex_binding =
          Some (STATUS_NOT_SUPPORTED, s1)"
  by (simp add: binding_defs ex_defs Let_def XdpRequestClientDispatch_loop.simps)

lemma ex_rx_fails:
  "\<exists>s1. XdpIfCreateRxQueue ex_consts ex_provider ex_binding 0 =
          Some (STATUS_NO_MEMORY, None, None, s1)"
  by (simp add: binding_defs ex_defs Let_def XdpRequestClientDispatch_loop.simps)

lemma ex_tx_ok:
  "\<exists>s1. XdpIfCreateTxQueue ex_consts ex_provider ex_binding 0 =
          Some (STATUS_SUCCESS, Some 70, Some 71, s1)"
  by (simp add: binding_defs ex_defs Let_def XdpRequestClientDispatch_loop.simps)

theorem XdpIfCreateQueue_failure_keeps_ProviderReference_witness:
  "ProviderReference (Interface ex_binding) = 0 \<and>
   (\<exists>s1. XdpIfCreateRxQueue ex_consts ex_provider_refusing ex_binding 0 =
           Some (STATUS_NOT_SUPPORTED, None, None, s1) \<and>
         ProviderReference (Interface s1) = 0) \<and>
   (\<exists>s1. XdpIfCreateRxQueue ex_consts ex_provider ex_binding 0 =
           Some (STATUS_NO_MEMORY, None, None, s1) \<and>
         ProviderReference (Interface s1) = 0) \<and>
   (\<exists>s1. XdpIfCreateTxQueue ex_consts ex_provider ex_binding 0 =
           Some (STATUS_SUCCESS, Some 70, Some 71, s1) \<and>
         ProviderReference (Interface s1) = 1)"
proof -
  have z: "ProviderReference (Interface ex_binding) = 0"
    "\<not> Rundown (Interface ex_binding)" "InterfaceContext (Interface ex_binding) = None"
    by (simp_all add: ex_binding_def ex_interface_def Rundown_def)
  from ex_open_refused obtain s1 where
    o: "XdpIfpOpenInterface ex_consts ex_provider_refusing ex_binding =
          Some (STATUS_NOT_SUPPORTED, s1)" ..
  from ex_rx_fails obtain s2 where
    r: "XdpIfCreateRxQueue ex_consts ex_provider ex_binding 0 =
          Some (STATUS_NO_MEMORY, None, None, s2)" ..
  from ex_tx_ok obtain s3 where
    t: "XdpIfCreateTxQueue ex_consts ex_provider ex_binding 0 =
          Some (STATUS_SUCCESS, Some 70, Some 71, s3)" ..
  from XdpIfCreateQueue_failure_keeps_ProviderReference
         [where K = ex_consts and env = ex_provider_refusing and s = ex_binding
            and Config = 0 and OpenStatus = STATUS_NOT_SUPPORTED and so = s1]
       z o
  have a: "XdpIfCreateRxQueue ex_consts ex_provider_refusing ex_binding 0 =
             Some (STATUS_NOT_SUPPORTED, None, None, s1) \<and>
           ProviderReference (Interface s1) = 0"
    by simp
  from XdpIfCreateQueue_failure_keeps_ProviderReference
         [where K = ex_consts and env = ex_provider and s = ex_binding and Config = 0
            and St = STATUS_NO_MEMORY and q = None and d = None and s' = s2]
       z r
  have b: "ProviderReference (Interface s2) = 0" by simp
  from XdpIfCreateQueue_failure_keeps_ProviderReference
         [where K = ex_consts and env = ex_provider and s = ex_binding and Config = 0
            and St = STATUS_SUCCESS and q = "Some 70" and d = "Some 71" and s' = s3]
       z t
  have c: "ProviderReference (Interface s3) = 1" by simp
  from z a b c r t show ?thesis by blast
qed

section \<open>Client registration: proofs\<close>

text \<open>
  Claim C8. \<^verbatim>\<open>XdpIfRegisterClient\<close> with a key, a client id that is not the invalid one and
  a key size that is not zero (otherwise a \<^verbatim>\<open>FRE_ASSERT\<close> stops the machine) returns
  \<^verbatim>\<open>STATUS_DELETE_PENDING\<close> when \<^verbatim>\<open>BindingDeleting\<close> is set, else
  \<^verbatim>\<open>STATUS_DUPLICATE_OBJECTID\<close> when a linked entry has the same client id and the same
  \<^verbatim>\<open>KeySize\<close> bytes of key, both with the state unchanged, and else
  \<^verbatim>\<open>STATUS_SUCCESS\<close> with the entry linked at the tail of the client list and the reference
  count one higher, nothing else changed.
\<close>

theorem XdpIfRegisterClient_outcomes:
  "XdpIfRegisterClient K s NewClient NewKey e =
     (case NewKey of
        None \<Rightarrow> None
      | Some k \<Rightarrow>
          if ClientId NewClient = XDP_BINDING_CLIENT_ID_INVALID K \<or> KeySize NewClient = 0
          then None
          else if BindingDeleting (Interface s) then Some (STATUS_DELETE_PENDING, s)
          else if (\<exists>c \<in> set (Clients (Interface s)).
                     ClientId (Client c) = ClientId NewClient \<and>
                     (\<forall>i < unat (KeySize NewClient). Key c i = k i))
          then Some (STATUS_DUPLICATE_OBJECTID, s)
          else
            Some (STATUS_SUCCESS,
                  s\<lparr>Interface := (Interface s)
                      \<lparr>ReferenceCount := ReferenceCount (Interface s) + 1,
                       Clients := Clients (Interface s) @
                         [\<lparr>Link = e, Client = NewClient, Key = k\<rparr>]\<rparr>\<rparr>))"
proof (cases NewKey)
  case None
  then show ?thesis by (simp add: XdpIfRegisterClient_def)
next
  case (Some k)
  then show ?thesis
    unfolding XdpIfRegisterClient_def XdpIfRegisterClient_scan_iff
    by (auto simp: modify_def ref_binding_def XdpIfpReferenceInterface_def
        word_neq_0_conv [symmetric])
qed

theorem XdpIfRegisterClient_outcomes_witness:
  "XdpIfRegisterClient ex_consts ex_binding ex_client (Some (\<lambda>i. 66)) 201 =
     Some (STATUS_SUCCESS,
           ex_binding\<lparr>Interface := ex_interface
             \<lparr>ReferenceCount := 3,
              Clients := [ex_entry_A, \<lparr>Link = 201, Client = ex_client, Key = (\<lambda>i. 66)\<rparr>]\<rparr>\<rparr>) \<and>
   XdpIfRegisterClient ex_consts ex_binding ex_client (Some (\<lambda>i. 65)) 201 =
     Some (STATUS_DUPLICATE_OBJECTID, ex_binding) \<and>
   XdpIfRegisterClient ex_consts
       (ex_binding\<lparr>Interface := ex_interface\<lparr>BindingDeleting := True\<rparr>\<rparr>)
       ex_client (Some (\<lambda>i. 66)) 201 =
     Some (STATUS_DELETE_PENDING,
           ex_binding\<lparr>Interface := ex_interface\<lparr>BindingDeleting := True\<rparr>\<rparr>)"
  using XdpIfRegisterClient_outcomes
          [where K = ex_consts and s = ex_binding and NewClient = ex_client
             and NewKey = "Some (\<lambda>i. 66)" and e = 201]
        XdpIfRegisterClient_outcomes
          [where K = ex_consts and s = ex_binding and NewClient = ex_client
             and NewKey = "Some (\<lambda>i. 65)" and e = 201]
        XdpIfRegisterClient_outcomes
          [where K = ex_consts
             and s = "ex_binding\<lparr>Interface := ex_interface\<lparr>BindingDeleting := True\<rparr>\<rparr>"
             and NewClient = ex_client and NewKey = "Some (\<lambda>i. 66)" and e = 201]
  by (simp add: ex_consts_def ex_binding_def ex_interface_def ex_client_def ex_entry_A_def)

section \<open>Client deregistration: proofs\<close>

lemma walk_append:
  "walk f a (xs @ y # ys) b = (walk f a xs y \<and> walk f y ys b)"
  by (induction xs arbitrary: a) auto

lemma walk_frame:
  "c \<notin> set (a # xs) \<Longrightarrow> walk (f(c := v)) a xs b = walk f a xs b"
  by (induction xs arbitrary: a) auto

lemma walk_first: "walk f a xs b \<Longrightarrow> f a = hd (xs @ [b])"
  by (cases xs) auto

lemma hd_rev_last: "hd (rev xs @ [a]) = last (a # xs)"
  by (cases xs rule: rev_cases) auto

lemma walk_skip:
  "walk f a ys e \<Longrightarrow> walk f e zs c \<Longrightarrow> distinct (a # ys @ e # zs) \<Longrightarrow>
   walk (f(last (a # ys) := f e)) a (ys @ zs) c"
proof (induction ys arbitrary: a)
  case Nil
  then have fa: "f a = e" and w: "walk f e zs c" and d: "distinct (a # e # zs)" by simp_all
  have "walk (f(a := f e)) a zs c"
  proof (cases zs)
    case Nil
    with fa w show ?thesis by simp
  next
    case (Cons z zs')
    with w have z: "f e = z" "walk f z zs' c" by simp_all
    from d Cons have "a \<notin> set (z # zs')" by auto
    from walk_frame [OF this, of f "f e" c] z Cons show ?thesis by simp
  qed
  then show ?case by (simp only: last.simps append_Nil if_True simp_thms)
next
  case (Cons y ys)
  from Cons.prems have y: "f a = y" "walk f y ys e" and d: "distinct (y # ys @ e # zs)"
    and a: "a \<notin> set (y # ys)" by auto
  define l where "l = last (y # ys)"
  have ll: "last (a # y # ys) = l" by (simp add: l_def)
  from Cons.IH [OF y(2) Cons.prems(2) d]
  have "walk (f(l := f e)) y (ys @ zs) c" by (simp only: l_def)
  moreover have "l \<in> set (y # ys)" unfolding l_def by (rule last_in_set) simp
  with a have "a \<noteq> l" by auto
  ultimately have "walk (f(l := f e)) a ((y # ys) @ zs) c" using y(1) by simp
  then show ?case by (simp only: ll)
qed

text \<open>Unlinking an entry of a well-formed list, as the two routines do it.\<close>

lemma linked_list_unlink:
  assumes l: "linked_list M g es" and e: "e \<in> set es"
  shows "linked_list (InitializeListHead e (RemoveEntryList e M)) g (remove1 e es) \<and>
         Flink M e \<in> set (g # es) \<and> Blink M e \<in> set (g # es)"
proof -
  from e obtain as bs where es: "es = as @ e # bs" and na: "e \<notin> set as"
    by (auto dest: split_list_first)
  from na have r: "remove1 e es = as @ bs" by (simp add: es remove1_append)
  from l es have d: "distinct (g # as @ e # bs)"
    and f: "walk (Flink M) g as e" "walk (Flink M) e bs g"
    and b: "walk (Blink M) g (rev bs) e" "walk (Blink M) e (rev as) g"
    by (simp_all add: linked_list_def walk_append)
  from walk_first [OF f(2)] have nx: "Flink M e = hd (bs @ [g])" .
  from walk_first [OF b(2)] have pv: "Blink M e = last (g # as)" by (simp add: hd_rev_last)
  have nx': "hd (bs @ [g]) = last (g # rev bs)" using hd_rev_last [of "rev bs" g] by simp
  from d have dr: "distinct (g # rev bs @ e # rev as)" by auto
  from walk_skip [OF f d] have F: "walk ((Flink M)(Blink M e := Flink M e)) g (as @ bs) g"
    by (simp add: pv)
  from walk_skip [OF b dr] have B: "walk ((Blink M)(Flink M e := Blink M e)) g (rev bs @ rev as) g"
    by (simp add: nx nx')
  from d have ne: "e \<notin> set (g # as @ bs)" "e \<notin> set (g # rev bs @ rev as)" by auto
  have "walk (Flink (InitializeListHead e (RemoveEntryList e M))) g (as @ bs) g"
    using F walk_frame [OF ne(1)]
    by (simp add: InitializeListHead_def RemoveEntryList_def Let_def)
  moreover have "walk (Blink (InitializeListHead e (RemoveEntryList e M))) g (rev (as @ bs)) g"
    using B walk_frame [OF ne(2)]
    by (simp add: InitializeListHead_def RemoveEntryList_def Let_def)
  moreover from d have "distinct (g # as @ bs)" by auto
  moreover have "Flink M e \<in> set (g # es)" unfolding nx es by (cases bs) auto
  moreover have "Blink M e \<in> set (g # es)" unfolding pv es
    by (cases as rule: rev_cases) auto
  ultimately show ?thesis by (simp add: linked_list_def r)
qed

lemma unlink_frame:
  assumes "linked_list M h xs" and "e \<notin> set (h # xs)" and "Flink M e \<notin> set (h # xs)"
    and "Blink M e \<notin> set (h # xs)"
  shows "linked_list (InitializeListHead e (RemoveEntryList e M)) h xs"
proof -
  from assms(2-4) have "e \<notin> set (h # rev xs)" "Flink M e \<notin> set (h # rev xs)"
    "Blink M e \<notin> set (h # rev xs)" by auto
  with assms show ?thesis
    by (simp add: linked_list_def InitializeListHead_def RemoveEntryList_def Let_def
        walk_frame del: set_simps)
qed

lemma unlink_cells:
  "a \<noteq> e \<Longrightarrow> a \<noteq> Flink M e \<Longrightarrow> a \<noteq> Blink M e \<Longrightarrow>
   Flink (InitializeListHead e (RemoveEntryList e M)) a = Flink M a \<and>
   Blink (InitializeListHead e (RemoveEntryList e M)) a = Blink M a"
  by (simp add: InitializeListHead_def RemoveEntryList_def Let_def)

lemma unlink_empty [simp]:
  "IsListEmpty (InitializeListHead e M) e"
  by (simp add: IsListEmpty_def InitializeListHead_def)

lemma RemoveEntryList_Clients_filter:
  "distinct (map Link cl) \<Longrightarrow>
   RemoveEntryList_Clients e cl = filter (\<lambda>x. Link x \<noteq> e) cl"
proof (induction cl)
  case Nil
  then show ?case by simp
next
  case (Cons x xs)
  show ?case
  proof (cases "Link x = e")
    case True
    with Cons.prems have "e \<notin> Link ` set xs" by simp
    then have "\<forall>y \<in> set xs. Link y \<noteq> e" by blast
    then have "filter (\<lambda>x. Link x \<noteq> e) xs = xs" by (simp add: filter_id_conv)
    with True show ?thesis by simp
  next
    case False
    with Cons show ?thesis by simp
  qed
qed

lemma RemoveEntryList_Clients_map:
  "map Link (RemoveEntryList_Clients e cl) = remove1 e (map Link cl)"
  by (induction cl) auto

lemma RemoveEntryList_Clients_absent:
  "e \<notin> Link ` set cl \<Longrightarrow> RemoveEntryList_Clients e cl = cl"
  by (induction cl) auto

text \<open>
  The loop of the rundown on the memory: on a well-formed client list it ends, the binding
  is left as \<open>XdpIfpStartRundown_loop\<close> leaves it, the head and every entry that was linked
  point to themselves, and no other \<^verbatim>\<open>LIST_ENTRY\<close> is written.
\<close>

lemma XdpIfpStartRundown_loop_mem_effects:
  assumes "linked_list (Memory W) h (map Link (Clients (Interface (Binding W))))"
  shows "\<exists>W'. XdpIfpStartRundown_loop_mem h W = Some W' \<and>
           Binding W' = XdpIfpStartRundown_loop (Binding W) \<and>
           IsListEmpty (Memory W') h \<and>
           (\<forall>x \<in> set (Clients (Interface (Binding W))). IsListEmpty (Memory W') (Link x)) \<and>
           (\<forall>a. a \<notin> set (h # map Link (Clients (Interface (Binding W)))) \<longrightarrow>
                Flink (Memory W') a = Flink (Memory W) a \<and>
                Blink (Memory W') a = Blink (Memory W) a)"
  using assms
proof (induction "Clients (Interface (Binding W))" arbitrary: W)
  case Nil
  from Nil(1) [symmetric] Nil(2) have "IsListEmpty (Memory W) h"
    by (simp add: linked_list_def IsListEmpty_def)
  moreover from Nil(1) [symmetric] have "XdpIfpStartRundown_loop (Binding W) = Binding W"
    by (subst XdpIfpStartRundown_loop.simps) simp
  ultimately show ?case
    using Nil(1) [symmetric] by (subst XdpIfpStartRundown_loop_mem.simps) simp
next
  case (Cons c rest)
  note cl = Cons(2) [symmetric]
  let ?e = "Link c"
  let ?M = "Memory W"
  from Cons(3) cl have ll: "linked_list ?M h (?e # map Link rest)" by simp
  then have fh: "Flink ?M h = ?e" and ne: "?e \<noteq> h"
    by (auto simp: linked_list_def)
  then have nonempty: "\<not> IsListEmpty ?M h" by (simp add: IsListEmpty_def)
  let ?M1 = "InitializeListHead ?e (RemoveEntryList ?e ?M)"
  let ?s1 = "deref_binding (record_call (BindingDetached ?e)
               (modify (\<lambda>Ifc. Ifc\<lparr>Clients := rest\<rparr>) (Binding W)))"
  let ?W1 = "W\<lparr>Memory := ?M1, Binding := ?s1\<rparr>"
  have m: "modify (\<lambda>Ifc. Ifc\<lparr>Clients := RemoveEntryList_Clients ?e (Clients Ifc)\<rparr>) (Binding W) =
           modify (\<lambda>Ifc. Ifc\<lparr>Clients := rest\<rparr>) (Binding W)"
    using cl by (simp add: modify_def)
  have step: "XdpIfpStartRundown_loop_mem h W = XdpIfpStartRundown_loop_mem h ?W1"
    using nonempty fh m by (subst XdpIfpStartRundown_loop_mem.simps) simp
  have astep: "XdpIfpStartRundown_loop (Binding W) = XdpIfpStartRundown_loop ?s1"
    using cl by (subst XdpIfpStartRundown_loop.simps) simp
  have cl1: "Clients (Interface (Binding ?W1)) = rest" by simp
  from linked_list_unlink [OF ll, of ?e]
  have l1: "linked_list ?M1 h (map Link rest)"
    and nb: "Flink ?M ?e \<in> set (h # ?e # map Link rest)"
      "Blink ?M ?e \<in> set (h # ?e # map Link rest)" by simp_all
  from l1 have l1': "linked_list (Memory ?W1) h (map Link (Clients (Interface (Binding ?W1))))"
    by simp
  from Cons(1) [OF cl1 [symmetric] l1'] obtain W' where
    run: "XdpIfpStartRundown_loop_mem h ?W1 = Some W'"
    and b: "Binding W' = XdpIfpStartRundown_loop ?s1"
    and eh: "IsListEmpty (Memory W') h"
    and er: "\<forall>x \<in> set rest. IsListEmpty (Memory W') (Link x)"
    and fr: "\<And>a. a \<notin> set (h # map Link rest) \<Longrightarrow>
               Flink (Memory W') a = Flink ?M1 a \<and> Blink (Memory W') a = Blink ?M1 a"
    by auto
  from ll have "?e \<notin> set (h # map Link rest)" by (auto simp: linked_list_def)
  from fr [OF this] have ee: "IsListEmpty (Memory W') ?e"
    by (simp add: IsListEmpty_def InitializeListHead_def)
  have frame: "Flink (Memory W') a = Flink ?M a \<and> Blink (Memory W') a = Blink ?M a"
    if a: "a \<notin> set (h # ?e # map Link rest)" for a
  proof -
    from a nb have "a \<noteq> ?e" "a \<noteq> Flink ?M ?e" "a \<noteq> Blink ?M ?e" by auto
    from unlink_cells [OF this] fr [of a] a show ?thesis by simp
  qed
  show ?case
    unfolding step astep run using b eh er ee frame cl by simp
qed

lemma linked_not_empty:
  assumes l: "linked_list M g es" and e: "e \<in> set es"
  shows "\<not> IsListEmpty M e"
proof
  assume "IsListEmpty M e"
  then have s: "Flink M e = e" by (simp add: IsListEmpty_def)
  from e obtain as bs where es: "es = as @ e # bs" by (auto dest: split_list)
  with l have w: "walk (Flink M) e bs g" and d: "distinct (g # as @ e # bs)"
    by (simp_all add: linked_list_def walk_append)
  from walk_first [OF w] s have "e = hd (bs @ [g])" by simp
  with d show False by (cases bs) auto
qed

lemma XdpIfDeregisterClient_linked:
  assumes l: "linked_list (Memory W) g es" and e: "e \<in> set es"
  shows "linked_list (Memory (XdpIfDeregisterClient W e)) g (remove1 e es) \<and>
      Interface (Binding (XdpIfDeregisterClient W e)) =
        (Interface (Binding W))
          \<lparr>Clients := RemoveEntryList_Clients e (Clients (Interface (Binding W))),
           ReferenceCount := ReferenceCount (Interface (Binding W)) - 1\<rparr> \<and>
      NmrPool (Binding (XdpIfDeregisterClient W e)) = NmrPool (Binding W) \<and>
      Calls (Binding (XdpIfDeregisterClient W e)) = Calls (Binding W) @
        (if ReferenceCount (Interface (Binding W)) = 1 then
           (case WorkQueue (Interface (Binding W)) of Some q \<Rightarrow> [XdpShutdownWorkQueue q]
            | None \<Rightarrow> []) @ [ExFreePoolWithTag_IF]
         else [])"
proof -
  note ne = linked_not_empty [OF l e]
  from linked_list_unlink [OF l e] ne show ?thesis
    by (simp add: XdpIfDeregisterClient_def deref_binding_Calls)
qed

text \<open>
  Claim C9. \<^verbatim>\<open>XdpIfDeregisterClient\<close> decides by the \<^verbatim>\<open>Link\<close> of the entry alone.
  \<^item> An entry that is not linked (its \<^verbatim>\<open>Link\<close> points to itself) leaves the whole state as it
    is: the client list, the reference count and the memory.
  \<^item> After any call the entry is not linked, so a second call changes nothing; the same
    holds for an entry fresh from \<^verbatim>\<open>XdpIfInitializeClientEntry\<close>, and for every entry the
    rundown has unlinked: \<^verbatim>\<open>XdpIfpStartRundown\<close> on a well-formed client list returns, leaves
    the binding as the rundown on the sequence does, leaves the head and each entry
    pointing to itself and writes no other \<^verbatim>\<open>LIST_ENTRY\<close>.
  \<^item> A call on a linked entry releases exactly one reference of the binding of the call
    (and frees it when that was the last), changes nothing else of the binding but its
    client list, and writes only the entry and its two neighbours.
  \<^item> When the entry is linked in a well-formed list, the call unlinks it: the list is
    well-formed without it; when the list is the client list of this binding, the sequence
    of its entries is the old one without the entry; every well-formed list apart from
    that of the entry is untouched, and when the entry was chained on the list of another
    binding the client list of this one is as before.
\<close>

theorem XdpIfDeregisterClient_idempotent:
  "(IsListEmpty (Memory W) e \<longrightarrow> XdpIfDeregisterClient W e = W) \<and>
   IsListEmpty (Memory (XdpIfDeregisterClient W e)) e \<and>
   XdpIfDeregisterClient (XdpIfDeregisterClient W e) e = XdpIfDeregisterClient W e \<and>
   XdpIfDeregisterClient (XdpIfInitializeClientEntry e W) e = XdpIfInitializeClientEntry e W \<and>
   (\<not> IsListEmpty (Memory W) e \<longrightarrow>
      Interface (Binding (XdpIfDeregisterClient W e)) =
        (Interface (Binding W))
          \<lparr>Clients := RemoveEntryList_Clients e (Clients (Interface (Binding W))),
           ReferenceCount := ReferenceCount (Interface (Binding W)) - 1\<rparr> \<and>
      NmrPool (Binding (XdpIfDeregisterClient W e)) = NmrPool (Binding W) \<and>
      Calls (Binding (XdpIfDeregisterClient W e)) = Calls (Binding W) @
        (if ReferenceCount (Interface (Binding W)) = 1 then
           (case WorkQueue (Interface (Binding W)) of Some q \<Rightarrow> [XdpShutdownWorkQueue q]
            | None \<Rightarrow> []) @ [ExFreePoolWithTag_IF]
         else []) \<and>
      (\<forall>a. a \<noteq> e \<and> a \<noteq> Flink (Memory W) e \<and> a \<noteq> Blink (Memory W) e \<longrightarrow>
         Flink (Memory (XdpIfDeregisterClient W e)) a = Flink (Memory W) a \<and>
         Blink (Memory (XdpIfDeregisterClient W e)) a = Blink (Memory W) a)) \<and>
   (linked_list (Memory W) g es \<and> e \<in> set es \<longrightarrow>
      \<not> IsListEmpty (Memory W) e \<and>
      linked_list (Memory (XdpIfDeregisterClient W e)) g (remove1 e es) \<and>
      (es = map Link (Clients (Interface (Binding W))) \<longrightarrow>
         Clients (Interface (Binding (XdpIfDeregisterClient W e))) =
           filter (\<lambda>x. Link x \<noteq> e) (Clients (Interface (Binding W))) \<and>
         map Link (Clients (Interface (Binding (XdpIfDeregisterClient W e)))) = remove1 e es) \<and>
      (\<forall>h xs. linked_list (Memory W) h xs \<and> set (h # xs) \<inter> set (g # es) = {} \<longrightarrow>
         linked_list (Memory (XdpIfDeregisterClient W e)) h xs \<and>
         (xs = map Link (Clients (Interface (Binding W))) \<longrightarrow>
            Clients (Interface (Binding (XdpIfDeregisterClient W e))) =
              Clients (Interface (Binding W))))) \<and>
   (linked_list (Memory W) h (map Link (Clients (Interface (Binding W)))) \<and>
    (ProviderReference (Interface (Binding W)) = 0 \<longrightarrow>
       (InterfaceContext (Interface (Binding W)) \<noteq> None \<longrightarrow>
          InterfaceDispatch (Interface (Binding W)) \<noteq> None) \<and>
       (\<forall>p. Nmr (Interface (Binding W)) = Some p \<longrightarrow> NmrPool (Binding W) p \<noteq> None)) \<longrightarrow>
    (\<exists>W'. XdpIfpStartRundown_mem h W = Some W' \<and>
       XdpIfpStartRundown (Binding W) = Some (Binding W') \<and>
       IsListEmpty (Memory W') h \<and>
       (\<forall>x \<in> set (Clients (Interface (Binding W))).
          IsListEmpty (Memory W') (Link x) \<and> XdpIfDeregisterClient W' (Link x) = W') \<and>
       (\<forall>a. a \<notin> set (h # map Link (Clients (Interface (Binding W)))) \<longrightarrow>
          Flink (Memory W') a = Flink (Memory W) a \<and>
          Blink (Memory W') a = Blink (Memory W) a)))"
proof -
  have unlinked: "XdpIfDeregisterClient V a = V" if "IsListEmpty (Memory V) a" for V a
    using that by (simp add: XdpIfDeregisterClient_def)
  have after: "IsListEmpty (Memory (XdpIfDeregisterClient W e)) e"
    by (simp add: XdpIfDeregisterClient_def)
  have fresh: "IsListEmpty (Memory (XdpIfInitializeClientEntry e W)) e"
    by (simp add: XdpIfInitializeClientEntry_def)
  have counted: "Interface (Binding (XdpIfDeregisterClient W e)) =
        (Interface (Binding W))
          \<lparr>Clients := RemoveEntryList_Clients e (Clients (Interface (Binding W))),
           ReferenceCount := ReferenceCount (Interface (Binding W)) - 1\<rparr> \<and>
      NmrPool (Binding (XdpIfDeregisterClient W e)) = NmrPool (Binding W) \<and>
      Calls (Binding (XdpIfDeregisterClient W e)) = Calls (Binding W) @
        (if ReferenceCount (Interface (Binding W)) = 1 then
           (case WorkQueue (Interface (Binding W)) of Some q \<Rightarrow> [XdpShutdownWorkQueue q]
            | None \<Rightarrow> []) @ [ExFreePoolWithTag_IF]
         else []) \<and>
      (\<forall>a. a \<noteq> e \<and> a \<noteq> Flink (Memory W) e \<and> a \<noteq> Blink (Memory W) e \<longrightarrow>
         Flink (Memory (XdpIfDeregisterClient W e)) a = Flink (Memory W) a \<and>
         Blink (Memory (XdpIfDeregisterClient W e)) a = Blink (Memory W) a)"
    if "\<not> IsListEmpty (Memory W) e"
    using that unlink_cells [of _ e "Memory W"]
    by (simp add: XdpIfDeregisterClient_def deref_binding_Calls)
  have linked: "\<not> IsListEmpty (Memory W) e \<and>
      linked_list (Memory (XdpIfDeregisterClient W e)) g (remove1 e es) \<and>
      Interface (Binding (XdpIfDeregisterClient W e)) =
        (Interface (Binding W))
          \<lparr>Clients := RemoveEntryList_Clients e (Clients (Interface (Binding W))),
           ReferenceCount := ReferenceCount (Interface (Binding W)) - 1\<rparr>"
    if "linked_list (Memory W) g es" "e \<in> set es"
    using XdpIfDeregisterClient_linked [OF that] linked_not_empty [OF that] by simp
  have own: "Clients (Interface (Binding (XdpIfDeregisterClient W e))) =
           filter (\<lambda>x. Link x \<noteq> e) (Clients (Interface (Binding W))) \<and>
         map Link (Clients (Interface (Binding (XdpIfDeregisterClient W e)))) = remove1 e es"
    if l: "linked_list (Memory W) g es" and e: "e \<in> set es"
      and es: "es = map Link (Clients (Interface (Binding W)))"
  proof -
    from l es have "distinct (map Link (Clients (Interface (Binding W))))"
      by (simp add: linked_list_def)
    note f = RemoveEntryList_Clients_filter [OF this, of e]
    from linked [OF l e]
    have c': "Clients (Interface (Binding (XdpIfDeregisterClient W e))) =
        RemoveEntryList_Clients e (Clients (Interface (Binding W)))" by simp
    have "map Link (Clients (Interface (Binding (XdpIfDeregisterClient W e)))) = remove1 e es"
      by (simp only: c' RemoveEntryList_Clients_map es)
    moreover have "Clients (Interface (Binding (XdpIfDeregisterClient W e))) =
           filter (\<lambda>x. Link x \<noteq> e) (Clients (Interface (Binding W)))"
      by (simp only: c' f)
    ultimately show ?thesis by simp
  qed
  have other: "linked_list (Memory (XdpIfDeregisterClient W e)) h' xs \<and>
         (xs = map Link (Clients (Interface (Binding W))) \<longrightarrow>
            Clients (Interface (Binding (XdpIfDeregisterClient W e))) =
              Clients (Interface (Binding W)))"
    if l: "linked_list (Memory W) g es" and e: "e \<in> set es"
      and o: "linked_list (Memory W) h' xs" and dj: "set (h' # xs) \<inter> set (g # es) = {}"
    for h' xs
  proof -
    from linked_list_unlink [OF l e]
    have nb: "Flink (Memory W) e \<in> set (g # es)" "Blink (Memory W) e \<in> set (g # es)"
      by simp_all
    with dj e have out: "e \<notin> set (h' # xs)" "Flink (Memory W) e \<notin> set (h' # xs)"
      "Blink (Memory W) e \<notin> set (h' # xs)" by auto
    note ne = linked_not_empty [OF l e]
    from unlink_frame [OF o out] ne
    have a: "linked_list (Memory (XdpIfDeregisterClient W e)) h' xs"
      by (simp add: XdpIfDeregisterClient_def)
    have b: "Clients (Interface (Binding (XdpIfDeregisterClient W e))) =
              Clients (Interface (Binding W))"
      if xs: "xs = map Link (Clients (Interface (Binding W)))"
    proof -
      from out(1) xs have "e \<notin> Link ` set (Clients (Interface (Binding W)))" by simp
      from RemoveEntryList_Clients_absent [OF this] linked [OF l e] show ?thesis by simp
    qed
    from a b show ?thesis by simp
  qed
  have rundown: "\<exists>W'. XdpIfpStartRundown_mem h W = Some W' \<and>
       XdpIfpStartRundown (Binding W) = Some (Binding W') \<and>
       IsListEmpty (Memory W') h \<and>
       (\<forall>x \<in> set (Clients (Interface (Binding W))).
          IsListEmpty (Memory W') (Link x) \<and> XdpIfDeregisterClient W' (Link x) = W') \<and>
       (\<forall>a. a \<notin> set (h # map Link (Clients (Interface (Binding W)))) \<longrightarrow>
          Flink (Memory W') a = Flink (Memory W) a \<and>
          Blink (Memory W') a = Blink (Memory W) a)"
    if l: "linked_list (Memory W) h (map Link (Clients (Interface (Binding W))))"
      and c: "ProviderReference (Interface (Binding W)) = 0 \<longrightarrow>
       (InterfaceContext (Interface (Binding W)) \<noteq> None \<longrightarrow>
          InterfaceDispatch (Interface (Binding W)) \<noteq> None) \<and>
       (\<forall>p. Nmr (Interface (Binding W)) = Some p \<longrightarrow> NmrPool (Binding W) p \<noteq> None)"
  proof -
    obtain s1 where
      s1: "(if ProviderReference (Interface (Binding W)) = 0
              then XdpIfpCloseInterface (Binding W) else Some (Binding W)) = Some s1"
      and c1: "Clients (Interface s1) = Clients (Interface (Binding W))"
    proof (cases "ProviderReference (Interface (Binding W)) = 0")
      case False
      then show ?thesis by (intro that [of "Binding W"]) simp_all
    next
      case True
      with c XdpIfpCloseInterface_defined [of "Binding W"] obtain t where
        t: "XdpIfpCloseInterface (Binding W) = Some t" by auto
      from XdpIfpCloseInterface_frame [OF t] True t show ?thesis
        by (intro that [of t]) simp_all
    qed
    let ?W1 = "W\<lparr>Binding := s1\<rparr>"
    from l c1 have "linked_list (Memory ?W1) h (map Link (Clients (Interface (Binding ?W1))))"
      by simp
    from XdpIfpStartRundown_loop_mem_effects [OF this] obtain W' where
      W': "XdpIfpStartRundown_loop_mem h ?W1 = Some W'"
      "Binding W' = XdpIfpStartRundown_loop s1"
      "\<forall>x \<in> set (Clients (Interface s1)). IsListEmpty (Memory W') (Link x)"
      "IsListEmpty (Memory W') h"
      "\<forall>a. a \<notin> set (h # map Link (Clients (Interface s1))) \<longrightarrow>
          Flink (Memory W') a = Flink (Memory W) a \<and>
          Blink (Memory W') a = Blink (Memory W) a"
      by auto
    from s1 W'(1) have r1: "XdpIfpStartRundown_mem h W = Some W'"
      by (simp add: XdpIfpStartRundown_mem_def)
    from s1 W'(2) have r2: "XdpIfpStartRundown (Binding W) = Some (Binding W')"
      by (simp add: XdpIfpStartRundown_def)
    from W'(3,4,5) c1 unlinked [of W'] r1 r2 show ?thesis by auto
  qed
  have part6: "\<not> IsListEmpty (Memory W) e \<and>
      linked_list (Memory (XdpIfDeregisterClient W e)) g (remove1 e es) \<and>
      (es = map Link (Clients (Interface (Binding W))) \<longrightarrow>
         Clients (Interface (Binding (XdpIfDeregisterClient W e))) =
           filter (\<lambda>x. Link x \<noteq> e) (Clients (Interface (Binding W))) \<and>
         map Link (Clients (Interface (Binding (XdpIfDeregisterClient W e)))) = remove1 e es) \<and>
      (\<forall>h xs. linked_list (Memory W) h xs \<and> set (h # xs) \<inter> set (g # es) = {} \<longrightarrow>
         linked_list (Memory (XdpIfDeregisterClient W e)) h xs \<and>
         (xs = map Link (Clients (Interface (Binding W))) \<longrightarrow>
            Clients (Interface (Binding (XdpIfDeregisterClient W e))) =
              Clients (Interface (Binding W))))"
    if "linked_list (Memory W) g es \<and> e \<in> set es"
    using that linked own other by blast
  from unlinked [of W e] after unlinked [OF after] unlinked [OF fresh] counted part6 rundown
  show ?thesis by (intro conjI impI) blast+
qed

theorem XdpIfDeregisterClient_idempotent_witness:
  "linked_list (Memory ex_clients) 190 (map Link (Clients (Interface (Binding ex_clients)))) \<and>
   linked_list (Memory ex_clients) 191 [300] \<and> IsListEmpty (Memory ex_clients) 204 \<and>
   ReferenceCount (Interface (Binding ex_clients)) = 4 \<and>
   map Link (Clients (Interface (Binding (XdpIfDeregisterClient ex_clients 200)))) = [202] \<and>
   ReferenceCount (Interface (Binding (XdpIfDeregisterClient ex_clients 200))) = 3 \<and>
   linked_list (Memory (XdpIfDeregisterClient ex_clients 200)) 190 [202] \<and>
   linked_list (Memory (XdpIfDeregisterClient ex_clients 200)) 191 [300] \<and>
   IsListEmpty (Memory (XdpIfDeregisterClient ex_clients 200)) 200 \<and>
   XdpIfDeregisterClient (XdpIfDeregisterClient ex_clients 200) 200 =
     XdpIfDeregisterClient ex_clients 200 \<and>
   XdpIfDeregisterClient ex_clients 204 = ex_clients \<and>
   linked_list (Memory (XdpIfDeregisterClient ex_clients 300)) 191 [] \<and>
   linked_list (Memory (XdpIfDeregisterClient ex_clients 300)) 190 [200, 202] \<and>
   map Link (Clients (Interface (Binding (XdpIfDeregisterClient ex_clients 300)))) =
     [200, 202] \<and>
   ReferenceCount (Interface (Binding (XdpIfDeregisterClient ex_clients 300))) = 3 \<and>
   (\<exists>W'. XdpIfpStartRundown_mem 190 ex_clients = Some W' \<and>
      XdpIfpStartRundown ex_open = Some (Binding W') \<and>
      XdpIfDeregisterClient W' 200 = W' \<and> XdpIfDeregisterClient W' 202 = W')"
proof -
  have cl: "map Link (Clients (Interface (Binding ex_clients))) = [200, 202]"
    by (simp add: ex_clients_def ex_open_def ex_open_interface_def ex_entry_A_def ex_entry_B_def)
  have rc: "ReferenceCount (Interface (Binding ex_clients)) = 4"
    by (simp add: ex_clients_def ex_open_def ex_open_interface_def)
  have own: "linked_list (Memory ex_clients) 190 [200, 202]"
    by (simp add: linked_list_def ex_clients_def ex_lists_def)
  have oth: "linked_list (Memory ex_clients) 191 [300]"
    by (simp add: linked_list_def ex_clients_def ex_lists_def)
  have emp: "IsListEmpty (Memory ex_clients) 204"
    by (simp add: IsListEmpty_def ex_clients_def ex_lists_def)
  have dj: "set (191 # [300]) \<inter> set (190 # [200, 202::nat]) = {}"
    "set (190 # [200, 202]) \<inter> set (191 # [300::nat]) = {}" by simp_all
  have hyp: "ProviderReference (Interface (Binding ex_clients)) = 0 \<longrightarrow>
       (InterfaceContext (Interface (Binding ex_clients)) \<noteq> None \<longrightarrow>
          InterfaceDispatch (Interface (Binding ex_clients)) \<noteq> None) \<and>
       (\<forall>p. Nmr (Interface (Binding ex_clients)) = Some p \<longrightarrow>
          NmrPool (Binding ex_clients) p \<noteq> None)"
    by (simp add: ex_clients_def ex_open_def ex_open_interface_def ex_interface_def)
  note A = XdpIfDeregisterClient_idempotent
    [where W = ex_clients and e = 200 and g = 190 and es = "[200, 202]" and h = 190]
  note B = XdpIfDeregisterClient_idempotent
    [where W = ex_clients and e = 300 and g = 191 and es = "[300]" and h = 190]
  note C = XdpIfDeregisterClient_idempotent
    [where W = ex_clients and e = 204 and g = 190 and es = "[200, 202]" and h = 190]
  have m2: "200 \<in> set [200, 202::nat]" and m3: "300 \<in> set [300::nat]" by simp_all
  note EA = A [THEN conjunct2, THEN conjunct2, THEN conjunct2, THEN conjunct2, THEN conjunct2,
    THEN conjunct1, THEN mp, OF conjI [OF own m2]]
  note EB = B [THEN conjunct2, THEN conjunct2, THEN conjunct2, THEN conjunct2, THEN conjunct2,
    THEN conjunct1, THEN mp, OF conjI [OF oth m3]]
  note CA = A [THEN conjunct2, THEN conjunct2, THEN conjunct2, THEN conjunct2, THEN conjunct1,
    THEN mp, OF EA [THEN conjunct1]]
  note CB = B [THEN conjunct2, THEN conjunct2, THEN conjunct2, THEN conjunct2, THEN conjunct1,
    THEN mp, OF EB [THEN conjunct1]]
  note EA5 = EA [THEN conjunct2, THEN conjunct2]
  note EB5 = EB [THEN conjunct2, THEN conjunct2]
  from EA [THEN conjunct2, THEN conjunct1]
  have a1: "linked_list (Memory (XdpIfDeregisterClient ex_clients 200)) 190 [202]" by simp
  from EB [THEN conjunct2, THEN conjunct1]
  have b1: "linked_list (Memory (XdpIfDeregisterClient ex_clients 300)) 191 []" by simp
  from CA [THEN conjunct1] rc
  have a2: "ReferenceCount (Interface (Binding (XdpIfDeregisterClient ex_clients 200))) = 3"
    by simp
  from CB [THEN conjunct1] rc
  have b2: "ReferenceCount (Interface (Binding (XdpIfDeregisterClient ex_clients 300))) = 3"
    by simp
  from EA5 [THEN conjunct1, THEN mp, OF cl [symmetric], THEN conjunct2]
  have a3: "map Link (Clients (Interface (Binding (XdpIfDeregisterClient ex_clients 200)))) =
      [202]" by simp
  from EA5 [THEN conjunct2, rule_format, where h = 191 and xs = "[300]",
    OF conjI [OF oth dj(1)], THEN conjunct1]
  have a4: "linked_list (Memory (XdpIfDeregisterClient ex_clients 200)) 191 [300]" .
  note b3' = EB5 [THEN conjunct2, rule_format, where h = 190 and xs = "[200, 202]",
    OF conjI [OF own dj(2)]]
  from b3' [THEN conjunct1]
  have b3: "linked_list (Memory (XdpIfDeregisterClient ex_clients 300)) 190 [200, 202]" .
  from b3' [THEN conjunct2, THEN mp, OF cl [symmetric]] cl
  have b4: "map Link (Clients (Interface (Binding (XdpIfDeregisterClient ex_clients 300)))) =
      [200, 202]" by simp
  from A [THEN conjunct2, THEN conjunct2, THEN conjunct2, THEN conjunct2, THEN conjunct2,
    THEN conjunct2] own cl hyp
  obtain W' where r: "XdpIfpStartRundown_mem 190 ex_clients = Some W'"
    "XdpIfpStartRundown (Binding ex_clients) = Some (Binding W')"
    "\<forall>x \<in> set (Clients (Interface (Binding ex_clients))).
       IsListEmpty (Memory W') (Link x) \<and> XdpIfDeregisterClient W' (Link x) = W'"
    by auto
  from r(3) have r': "XdpIfDeregisterClient W' 200 = W'" "XdpIfDeregisterClient W' 202 = W'"
    by (simp_all add: ex_clients_def ex_open_def ex_open_interface_def ex_entry_A_def
        ex_entry_B_def)
  from r(1,2) r' have run: "\<exists>W'. XdpIfpStartRundown_mem 190 ex_clients = Some W' \<and>
      XdpIfpStartRundown ex_open = Some (Binding W') \<and>
      XdpIfDeregisterClient W' 200 = W' \<and> XdpIfDeregisterClient W' 202 = W'"
    by (auto simp: ex_clients_def)
  note a5 = A [THEN conjunct2, THEN conjunct1]
  note a6 = A [THEN conjunct2, THEN conjunct2, THEN conjunct1]
  from C [THEN conjunct1] emp have c: "XdpIfDeregisterClient ex_clients 204 = ex_clients"
    by simp
  from own cl have own': "linked_list (Memory ex_clients) 190
      (map Link (Clients (Interface (Binding ex_clients))))" by simp
  show ?thesis
    using own' oth emp rc a3 a2 a1 a4 a5 a6 c b1 b3 b4 b2 run by (intro conjI)
qed
section \<open>Registration and queue creation during rundown: proofs\<close>

text \<open>
  Claim C10. On a binding with \<^verbatim>\<open>NmrDeleting\<close> set and \<^verbatim>\<open>BindingDeleting\<close> clear,
  \<^verbatim>\<open>XdpIfRegisterClient\<close> never returns \<^verbatim>\<open>STATUS_DELETE_PENDING\<close>, and it succeeds for a
  request that passes the \<^verbatim>\<open>FRE_ASSERT\<close>s and duplicates no linked entry; whereas
  \<^verbatim>\<open>XdpIfpReferenceProvider\<close>, and with it \<^verbatim>\<open>XdpIfCreateRxQueue\<close> and \<^verbatim>\<open>XdpIfCreateTxQueue\<close>,
  return \<^verbatim>\<open>STATUS_DELETE_PENDING\<close> and leave the state as it was.
\<close>

theorem NmrDeleting_refuses_queues_not_clients:
  assumes "NmrDeleting (Interface s)" and "\<not> BindingDeleting (Interface s)"
  shows "(\<forall>St t. XdpIfRegisterClient K s NewClient NewKey e = Some (St, t) \<longrightarrow>
            St \<noteq> STATUS_DELETE_PENDING) \<and>
         (ClientId NewClient \<noteq> XDP_BINDING_CLIENT_ID_INVALID K \<and> KeySize NewClient \<noteq> 0 \<and>
          \<not> (\<exists>c \<in> set (Clients (Interface s)).
                ClientId (Client c) = ClientId NewClient \<and>
                (\<forall>i < unat (KeySize NewClient). Key c i = k i)) \<longrightarrow>
            (\<exists>t. XdpIfRegisterClient K s NewClient (Some k) e = Some (STATUS_SUCCESS, t) \<and>
                 Clients (Interface t) =
                   Clients (Interface s) @ [\<lparr>Link = e, Client = NewClient, Key = k\<rparr>])) \<and>
         Rundown (Interface s) \<and>
         XdpIfpReferenceProvider K env s = Some (STATUS_DELETE_PENDING, s) \<and>
         XdpIfCreateRxQueue K env s Config = Some (STATUS_DELETE_PENDING, None, None, s) \<and>
         XdpIfCreateTxQueue K env s Config = Some (STATUS_DELETE_PENDING, None, None, s)"
proof -
  have no_pending: "\<forall>St t. XdpIfRegisterClient K s NewClient NewKey e = Some (St, t) \<longrightarrow>
      St \<noteq> STATUS_DELETE_PENDING"
    using assms(2)
    by (auto simp: XdpIfRegisterClient_def split: option.splits if_splits)
  have succeeds: "\<exists>t. XdpIfRegisterClient K s NewClient (Some k) e = Some (STATUS_SUCCESS, t) \<and>
      Clients (Interface t) =
        Clients (Interface s) @ [\<lparr>Link = e, Client = NewClient, Key = k\<rparr>]"
    if "ClientId NewClient \<noteq> XDP_BINDING_CLIENT_ID_INVALID K" "KeySize NewClient \<noteq> 0"
      "\<not> (\<exists>c \<in> set (Clients (Interface s)).
            ClientId (Client c) = ClientId NewClient \<and>
            (\<forall>i < unat (KeySize NewClient). Key c i = k i))"
    using that assms(2)
    unfolding XdpIfRegisterClient_def XdpIfRegisterClient_scan_iff
    by (simp add: word_neq_0_conv [symmetric])
  have rd: "Rundown (Interface s)"
    using assms(1) by (simp add: Rundown_def)
  then have rp: "XdpIfpReferenceProvider K env s = Some (STATUS_DELETE_PENDING, s)"
    by (simp add: XdpIfpReferenceProvider_def)
  then have "XdpIfCreateRxQueue K env s Config = Some (STATUS_DELETE_PENDING, None, None, s)"
    "XdpIfCreateTxQueue K env s Config = Some (STATUS_DELETE_PENDING, None, None, s)"
    by (simp_all add: XdpIfCreateRxQueue_def XdpIfCreateTxQueue_def)
  with no_pending succeeds rd rp show ?thesis by blast
qed

theorem NmrDeleting_refuses_queues_not_clients_witness:
  "NmrDeleting (Interface ex_nmr_deleting) \<and> \<not> BindingDeleting (Interface ex_nmr_deleting) \<and>
   (\<exists>t. XdpIfRegisterClient ex_consts ex_nmr_deleting ex_client (Some (\<lambda>i. 66)) 201 =
          Some (STATUS_SUCCESS, t) \<and>
        Clients (Interface t) =
          [ex_entry_A, \<lparr>Link = 201, Client = ex_client, Key = (\<lambda>i. 66)\<rparr>]) \<and>
   XdpIfCreateRxQueue ex_consts ex_provider ex_nmr_deleting 0 =
     Some (STATUS_DELETE_PENDING, None, None, ex_nmr_deleting) \<and>
   XdpIfCreateTxQueue ex_consts ex_provider ex_nmr_deleting 0 =
     Some (STATUS_DELETE_PENDING, None, None, ex_nmr_deleting)"
proof -
  have h: "NmrDeleting (Interface ex_nmr_deleting)"
    "\<not> BindingDeleting (Interface ex_nmr_deleting)"
    by (simp_all add: ex_nmr_deleting_def ex_binding_def ex_interface_def)
  from NmrDeleting_refuses_queues_not_clients
         [OF h, where K = ex_consts and NewClient = ex_client and k = "\<lambda>i. 66" and e = 201
            and env = ex_provider and Config = 0 and NewKey = None]
       h
  show ?thesis
    by (simp add: ex_nmr_deleting_def ex_binding_def ex_interface_def ex_consts_def
        ex_client_def ex_entry_A_def)
qed

end
